theory Spec2Isabelle
  imports Main "HOL-Library.Word" "HOL-Library.Signed_Division"
begin

section \<open>Shared enumerations and reports\<close>

text \<open>
  The enumerations of the public interface, as \<^verbatim>\<open>Xsc.cpp\<close> lists them in
  \<^verbatim>\<open>TargetToString\<close> and \<^verbatim>\<open>ShaderVersionToString\<close>.
\<close>

datatype ShaderTarget =
    Target_Undefined
  | VertexShader
  | FragmentShader
  | GeometryShader
  | TessellationControlShader
  | TessellationEvaluationShader
  | ComputeShader

datatype InputShaderVersion = HLSL3 | HLSL4 | HLSL5

datatype OutputShaderVersion =
    GLSL110 | GLSL120 | GLSL130 | GLSL140 | GLSL150 | GLSL330
  | GLSL400 | GLSL410 | GLSL420 | GLSL430 | GLSL440 | GLSL450 | GLSL

text \<open>\<^verbatim>\<open>versionIn_ <= InputShaderVersion::HLSL3\<close> compares the enumerators by their order
  of declaration.\<close>

fun InputShaderVersion_rank :: "InputShaderVersion \<Rightarrow> nat" where
  "InputShaderVersion_rank HLSL3 = 0"
| "InputShaderVersion_rank HLSL4 = 1"
| "InputShaderVersion_rank HLSL5 = 2"

record ShaderVersion =
  major :: nat
  minor :: nat

text \<open>\<^verbatim>\<open>GetShaderModel\<close> of HLSLAnalyzer.cpp.\<close>

fun GetShaderModel :: "InputShaderVersion \<Rightarrow> ShaderVersion" where
  "GetShaderModel HLSL3 = \<lparr>major = 3, minor = 0\<rparr>"
| "GetShaderModel HLSL4 = \<lparr>major = 4, minor = 0\<rparr>"
| "GetShaderModel HLSL5 = \<lparr>major = 5, minor = 0\<rparr>"

text \<open>Modelled from the spec: the comparison and the printing of \<^verbatim>\<open>ShaderVersion\<close>
  (its class is not among the sources): versions are ordered by major, then minor number, and
  print as \<^verbatim>\<open>major.minor\<close>.\<close>

definition ShaderVersion_less :: "ShaderVersion \<Rightarrow> ShaderVersion \<Rightarrow> bool" where
  "ShaderVersion_less a b \<longleftrightarrow> major a < major b \<or> (major a = major b \<and> minor a < minor b)"

text \<open>\<^verbatim>\<open>std::to_string\<close> on a non-negative and on a signed integer.\<close>

fun nat_to_string :: "nat \<Rightarrow> string" where
  "nat_to_string n =
     (if n < 10 then [char_of (48 + n)]
      else nat_to_string (n div 10) @ [char_of (48 + n mod 10)])"

definition to_string :: "int \<Rightarrow> string" where
  "to_string i = (if i < 0 then CHR ''-'' # nat_to_string (nat (- i)) else nat_to_string (nat i))"

definition ShaderVersion_ToString :: "ShaderVersion \<Rightarrow> string" where
  "ShaderVersion_ToString v = nat_to_string (major v) @ ''.'' @ nat_to_string (minor v)"

datatype ReportTypes = Types_Info | Types_Warning | Types_Error

datatype HLSLErr =
    Err_Unknown
  | ERR_BIND_INVALID
  | ERR_TARGET_INVALID
  | ERR_PACK_OFFSET_IN_INVALID_SCOPE
  | ERR_SEMANTICS

text \<open>The node a diagnostic of the analyzer points at. The source passes a pointer to the
  node; the model names the node by its place in the tree that the reporting function was
  given.\<close>

datatype AST_ref =
    Ref_None
  | Ref_This
  | Ref_SlotRegister nat
  | Ref_Parameter nat

record Report =
  rtype :: ReportTypes
  message :: string
  ast :: AST_ref
  errorCode :: HLSLErr

text \<open>What a C++ function can throw in the modelled code. \<^verbatim>\<open>Exception.cpp\<close> raises
  \<^verbatim>\<open>std::runtime_error\<close>, \<^verbatim>\<open>ASTRuntimeError\<close> and \<^verbatim>\<open>std::invalid_argument\<close>;
  the parser throws a \<^verbatim>\<open>Report\<close>; the constant-expression callbacks throw the
  variable access they were called with. \<^verbatim>\<open>fuel_exhausted\<close> is not an exception of the
  program: it is the outcome of a bounded run of the model that needed more recursion depth.\<close>

datatype exn =
    Report_exn Report
  | runtime_error string
  | invalid_argument string
  | ASTRuntimeError string
  | thrown_VarAccessExpr
  | fuel_exhausted

section \<open>The context analyzer (HLSLAnalyzer.cpp)\<close>

datatype ProgramFlag = isFragCoordUsed | hasSM3ScreenSpace

text \<open>The members of \<^verbatim>\<open>HLSLAnalyzer\<close> that \<^verbatim>\<open>DecorateASTPrimary\<close> stores before the walk
  and that nothing writes afterwards.\<close>

record HLSLAnalyzer =
  m_entryPoint :: string
  m_shaderTarget :: ShaderTarget
  m_versionIn :: InputShaderVersion
  m_shaderModel :: ShaderVersion
  m_preferWrappers :: bool

text \<open>What the walk writes: the reports of the report handler of the base class
  \<^verbatim>\<open>Analyzer\<close>, and the two fields of the root node \<^verbatim>\<open>program_\<close> that the analyzer sets
  (its flags and \<^verbatim>\<open>entryPointRef\<close>).\<close>

record Analyzer =
  reports :: "Report list"
  program_flags :: "ProgramFlag set"
  program_entryPointRef :: "nat option"

text \<open>Modelled from the spec: \<^verbatim>\<open>Analyzer::Error\<close> and \<^verbatim>\<open>Analyzer::Warning\<close> are declared in
  \<^verbatim>\<open>Analyzer.h\<close> and defined in a file that is not among the sources. Diagnostics are
  recorded, not thrown, until the stage finishes.\<close>

definition Analyzer_Error :: "string \<Rightarrow> AST_ref \<Rightarrow> HLSLErr \<Rightarrow> Analyzer \<Rightarrow> Analyzer" where
  "Analyzer_Error msg a c st =
     st\<lparr>reports := reports st @ [\<lparr>rtype = Types_Error, message = msg, ast = a, errorCode = c\<rparr>]\<rparr>"

definition Analyzer_Warning :: "string \<Rightarrow> AST_ref \<Rightarrow> Analyzer \<Rightarrow> Analyzer" where
  "Analyzer_Warning msg a st =
     st\<lparr>reports := reports st @ [\<lparr>rtype = Types_Warning, message = msg, ast = a, errorCode = Err_Unknown\<rparr>]\<rparr>"

subsection \<open>Intrinsic calls\<close>

text \<open>The enumerators of \<^verbatim>\<open>Intrinsic\<close> that HLSLAnalyzer.cpp names; the enumeration itself
  is declared in a header that is not among the sources, and \<^verbatim>\<open>Intrinsic_Other\<close> stands for
  its remaining members.\<close>

datatype (plugins only: code) Intrinsic =
    Intrinsic_Undefined
  | AsUInt_1 | AsUInt_3
  | Clip
  | Tex1D_2 | Tex1D_4
  | Tex2D_2 | Tex2D_4
  | Tex3D_2 | Tex3D_4
  | TexCube_2 | TexCube_4
  | Texture_Load_1 | Texture_Load_2 | Texture_Load_3
  | Texture_Sample_2 | Texture_Sample_3 | Texture_Sample_4 | Texture_Sample_5
  | Texture_SampleBias_3 | Texture_SampleBias_4 | Texture_SampleBias_5 | Texture_SampleBias_6
  | Texture_SampleCmp_3 | Texture_SampleCmp_4 | Texture_SampleCmp_5 | Texture_SampleCmp_6
  | Texture_SampleGrad_4 | Texture_SampleGrad_5 | Texture_SampleGrad_6 | Texture_SampleGrad_7
  | Texture_SampleLevel_3 | Texture_SampleLevel_4 | Texture_SampleLevel_5
  | Intrinsic_Other nat

text \<open>An entry of the static dispatch table \<^verbatim>\<open>HLSLIntrinsics()\<close>; the table itself is not
  among the sources, so the entry a call name maps to is a parameter of
  \<^verbatim>\<open>AnalyzeFunctionCallIntrinsic\<close>, as it is in the source.\<close>

record HLSLIntrinsicEntry =
  entry_intrinsic :: Intrinsic
  minShaderModel :: ShaderVersion

text \<open>The fields of a \<^verbatim>\<open>FunctionCall\<close> node that \<^verbatim>\<open>AnalyzeFunctionCallIntrinsic\<close> reads
  and writes: the printed name of the callee, the number of arguments, and the intrinsic id.\<close>

record FunctionCall_node =
  call_name :: string
  num_arguments :: nat
  intrinsic :: Intrinsic

record IntrinsicConversion =
  standardIntrinsic :: Intrinsic
  numArgs :: int
  overloadedIntrinsic :: Intrinsic

definition mk_conversion :: "Intrinsic \<Rightarrow> int \<Rightarrow> Intrinsic \<Rightarrow> IntrinsicConversion" where
  "mk_conversion s n ov = \<lparr>standardIntrinsic = s, numArgs = n, overloadedIntrinsic = ov\<rparr>"

definition intrinsicConversions :: "IntrinsicConversion list" where
  "intrinsicConversions =
    [ mk_conversion AsUInt_1              3 AsUInt_3,
      mk_conversion Tex1D_2               4 Tex1D_4,
      mk_conversion Tex2D_2               4 Tex2D_4,
      mk_conversion Tex3D_2               4 Tex3D_4,
      mk_conversion TexCube_2             4 TexCube_4,
      mk_conversion Texture_Load_1        2 Texture_Load_2,
      mk_conversion Texture_Load_1        3 Texture_Load_3,
      mk_conversion Texture_Sample_2      3 Texture_Sample_3,
      mk_conversion Texture_Sample_2      4 Texture_Sample_4,
      mk_conversion Texture_Sample_2      5 Texture_Sample_5,
      mk_conversion Texture_SampleBias_3  4 Texture_SampleBias_4,
      mk_conversion Texture_SampleBias_3  5 Texture_SampleBias_5,
      mk_conversion Texture_SampleBias_3  6 Texture_SampleBias_6,
      mk_conversion Texture_SampleCmp_3   4 Texture_SampleCmp_4,
      mk_conversion Texture_SampleCmp_3   5 Texture_SampleCmp_5,
      mk_conversion Texture_SampleCmp_3   6 Texture_SampleCmp_6,
      mk_conversion Texture_SampleGrad_4  5 Texture_SampleGrad_5,
      mk_conversion Texture_SampleGrad_4  6 Texture_SampleGrad_6,
      mk_conversion Texture_SampleGrad_4  7 Texture_SampleGrad_7,
      mk_conversion Texture_SampleLevel_3 4 Texture_SampleLevel_4,
      mk_conversion Texture_SampleLevel_3 5 Texture_SampleLevel_5 ]"

text \<open>The loop over \<^verbatim>\<open>intrinsicConversions\<close>: the first entry whose standard intrinsic and
  argument count match replaces the intrinsic, and the loop breaks.\<close>

fun convert_intrinsic :: "IntrinsicConversion list \<Rightarrow> FunctionCall_node \<Rightarrow> FunctionCall_node" where
  "convert_intrinsic [] c = c"
| "convert_intrinsic (conversion # rest) c =
     (if intrinsic c = standardIntrinsic conversion \<and> int (num_arguments c) = numArgs conversion
      then c\<lparr>intrinsic := overloadedIntrinsic conversion\<rparr>
      else convert_intrinsic rest c)"

definition AnalyzeFunctionCallIntrinsic ::
  "HLSLAnalyzer \<Rightarrow> FunctionCall_node \<Rightarrow> HLSLIntrinsicEntry \<Rightarrow> Analyzer \<Rightarrow> FunctionCall_node \<times> Analyzer" where
  "AnalyzeFunctionCallIntrinsic an c intr st =
     (let st1 =
        (if ShaderVersion_less (m_shaderModel an) (minShaderModel intr)
         then Analyzer_Warning
                (''intrinsic '' @ [CHR 0x27] @ call_name c @ [CHR 0x27] @ '' requires shader model ''
                   @ ShaderVersion_ToString (minShaderModel intr)
                   @ '', but only '' @ ShaderVersion_ToString (m_shaderModel an) @ '' is specified'')
                Ref_This st
         else st)
      in (convert_intrinsic intrinsicConversions (c\<lparr>intrinsic := entry_intrinsic intr\<rparr>), st1))"

text \<open>\<^verbatim>\<open>AnalyzeIntrinsicWrapperInlining\<close>: the flag \<^verbatim>\<open>canInlineIntrinsicWrapper\<close> is set
  on a call of the \<^verbatim>\<open>clip\<close> intrinsic.\<close>

definition AnalyzeIntrinsicWrapperInlining :: "FunctionCall_node \<Rightarrow> bool" where
  "AnalyzeIntrinsicWrapperInlining c \<longleftrightarrow> intrinsic c = Clip"

subsection \<open>Semantics and variable identifiers\<close>

text \<open>The enumerators of \<^verbatim>\<open>Semantic\<close> that HLSLAnalyzer.cpp names (\<^verbatim>\<open>Position\<close> is the
  system value \<^verbatim>\<open>SV_Position\<close>); \<^verbatim>\<open>Semantic_Other\<close> stands for the remaining members of
  the enumeration, which is declared in a header that is not among the sources. An
  \<^verbatim>\<open>IndexedSemantic\<close> pairs a semantic with its index and compares with a \<^verbatim>\<open>Semantic\<close>
  by the semantic alone.\<close>

datatype Semantic = Semantic_Undefined | Position | VertexPosition | Semantic_Other nat

record IndexedSemantic =
  semantic_kind :: Semantic
  Index :: int

definition AnalyzeSemantic :: "HLSLAnalyzer \<Rightarrow> IndexedSemantic \<Rightarrow> IndexedSemantic" where
  "AnalyzeSemantic an semantic =
     (if semantic_kind semantic = Position \<and> m_shaderTarget an = VertexShader
      then \<lparr>semantic_kind = VertexPosition, Index = Index semantic\<rparr>
      else semantic)"

text \<open>The fields of a \<^verbatim>\<open>VarDecl\<close> and of a \<^verbatim>\<open>VarIdent\<close> that the analysis of a variable
  identifier reads and writes. \<^verbatim>\<open>Symbol\<close> is the declaration node a \<^verbatim>\<open>symbolRef\<close> points
  at, by the node type that \<^verbatim>\<open>AnalyzeVarIdentWithSymbol\<close> switches on.\<close>

record VarDecl_node =
  vd_ident :: string
  vd_semantic :: IndexedSemantic

datatype Symbol =
    Sym_VarDecl VarDecl_node
  | Sym_TextureDecl
  | Sym_SamplerDecl
  | Sym_StructDecl
  | Sym_AliasDecl
  | Sym_Other

datatype VarIdent_node =
  VarIdent_node (vi_ident: string) (vi_numArrayIndices: nat)
                (vi_next: "VarIdent_node option") (vi_symbolRef: "Symbol option")

text \<open>The look-up of a structure member is a parameter: \<^verbatim>\<open>TypeDenoter::GetFromArray\<close>,
  \<^verbatim>\<open>As<StructTypeDenoter>\<close> and \<^verbatim>\<open>Analyzer::FetchFromStructDecl\<close> are not among the
  sources. Given the declaration, the number of array indices and the next identifier, it
  throws, or returns no member (the variable is not of a structure type, or the member was not
  found and an error was recorded), or returns the member's declaration.\<close>

type_synonym member_lookup =
  "VarDecl_node \<Rightarrow> nat \<Rightarrow> string \<Rightarrow> Analyzer \<Rightarrow> (exn + VarDecl_node option) \<times> Analyzer"

definition mark_fragment_coordinate :: "HLSLAnalyzer \<Rightarrow> VarDecl_node \<Rightarrow> Analyzer \<Rightarrow> Analyzer" where
  "mark_fragment_coordinate an varDecl st =
     (if semantic_kind (vd_semantic varDecl) = Position \<and> m_shaderTarget an = FragmentShader
      then st\<lparr>program_flags := insert isFragCoordUsed (program_flags st)\<rparr>
      else st)"

text \<open>\<^verbatim>\<open>VarIdent::ToString\<close> is not among the sources; here it is the dotted name.\<close>

fun VarIdent_ToString :: "VarIdent_node \<Rightarrow> string" where
  "VarIdent_ToString (VarIdent_node i n nxt sr) =
     i @ (case nxt of None \<Rightarrow> [] | Some v \<Rightarrow> ''.'' @ VarIdent_ToString v)"

text \<open>Both functions return the exception that left them (if any), the identifier with its
  decorations, and the analyzer's state.\<close>

fun AnalyzeVarIdentWithSymbol ::
      "HLSLAnalyzer \<Rightarrow> member_lookup \<Rightarrow> VarIdent_node \<Rightarrow> Symbol \<Rightarrow> Analyzer \<Rightarrow> exn option \<times> VarIdent_node \<times> Analyzer"
  and AnalyzeVarIdentWithSymbolVarDecl ::
      "HLSLAnalyzer \<Rightarrow> member_lookup \<Rightarrow> VarIdent_node \<Rightarrow> VarDecl_node \<Rightarrow> Analyzer \<Rightarrow> exn option \<times> VarIdent_node \<times> Analyzer"
where
  "AnalyzeVarIdentWithSymbol an lookup (VarIdent_node i n nxt sr) symbol st =
     (case symbol of
        Sym_VarDecl varDecl \<Rightarrow>
          AnalyzeVarIdentWithSymbolVarDecl an lookup (VarIdent_node i n nxt (Some symbol)) varDecl st
      | Sym_TextureDecl \<Rightarrow> (None, VarIdent_node i n nxt (Some symbol), st)
      | Sym_SamplerDecl \<Rightarrow> (None, VarIdent_node i n nxt (Some symbol), st)
      | Sym_StructDecl \<Rightarrow> (None, VarIdent_node i n nxt (Some symbol), st)
      | Sym_AliasDecl \<Rightarrow> (None, VarIdent_node i n nxt (Some symbol), st)
      | Sym_Other \<Rightarrow>
          (None, VarIdent_node i n nxt (Some symbol),
           Analyzer_Error (''invalid symbol reference to variable identifier '' @ [CHR 0x27] @
                           VarIdent_ToString (VarIdent_node i n nxt sr) @ [CHR 0x27])
             Ref_This Err_Unknown st))"
| "AnalyzeVarIdentWithSymbolVarDecl an lookup (VarIdent_node i n nxt sr) varDecl st =
     (case nxt of
        None \<Rightarrow> (None, VarIdent_node i n nxt sr, mark_fragment_coordinate an varDecl st)
      | Some nextIdent \<Rightarrow>
          (case lookup varDecl n (vi_ident nextIdent) st of
             (Inl e, st1) \<Rightarrow> (Some e, VarIdent_node i n nxt sr, st1)
           | (Inr None, st1) \<Rightarrow> (None, VarIdent_node i n nxt sr, mark_fragment_coordinate an varDecl st1)
           | (Inr (Some memberVarDecl), st1) \<Rightarrow>
               (case AnalyzeVarIdentWithSymbol an lookup nextIdent (Sym_VarDecl memberVarDecl) st1 of
                  (Some e, nextIdent1, st2) \<Rightarrow> (Some e, VarIdent_node i n (Some nextIdent1) sr, st2)
                | (None, nextIdent1, st2) \<Rightarrow>
                    (None, VarIdent_node i n (Some nextIdent1) sr, mark_fragment_coordinate an varDecl st2))))"

text \<open>\<^verbatim>\<open>AnalyzeVarIdent\<close>: the symbol table's \<^verbatim>\<open>Fetch\<close> is a parameter (the table is not
  among the sources). The two handlers catch \<^verbatim>\<open>ASTRuntimeError\<close> and \<^verbatim>\<open>std::exception\<close>
  and record an error; anything else leaves the function.\<close>

definition AnalyzeVarIdent ::
  "HLSLAnalyzer \<Rightarrow> (string \<Rightarrow> Analyzer \<Rightarrow> Symbol option) \<Rightarrow> member_lookup \<Rightarrow> VarIdent_node option
     \<Rightarrow> Analyzer \<Rightarrow> exn option \<times> VarIdent_node option \<times> Analyzer" where
  "AnalyzeVarIdent an Fetch lookup varIdent st =
     (case varIdent of
        None \<Rightarrow> (None, None, st)
      | Some v \<Rightarrow>
          (case Fetch (vi_ident v) st of
             None \<Rightarrow>
               (None, Some v,
                Analyzer_Error (''undeclared identifier: '' @ vi_ident v) Ref_This Err_Unknown st)
           | Some symbol \<Rightarrow>
               (case AnalyzeVarIdentWithSymbol an lookup v symbol st of
                  (None, v1, st1) \<Rightarrow> (None, Some v1, st1)
                | (Some (ASTRuntimeError msg), v1, st1) \<Rightarrow>
                    (None, Some v1, Analyzer_Error msg Ref_None Err_Unknown st1)
                | (Some (runtime_error msg), v1, st1) \<Rightarrow>
                    (None, Some v1, Analyzer_Error msg Ref_This Err_Unknown st1)
                | (Some (invalid_argument msg), v1, st1) \<Rightarrow>
                    (None, Some v1, Analyzer_Error msg Ref_This Err_Unknown st1)
                | (Some e, v1, st1) \<Rightarrow> (Some e, Some v1, st1))))"

subsection \<open>Uniform buffers\<close>

text \<open>Modelled from the spec: the register classes (\<^verbatim>\<open>t\<close> textures, \<^verbatim>\<open>s\<close> samplers,
  \<^verbatim>\<open>b\<close> constant buffers, \<^verbatim>\<open>u\<close> unordered access); \<^verbatim>\<open>RegisterType\<close> and
  \<^verbatim>\<open>CharToRegisterType\<close> are declared in a header that is not among the sources.\<close>

datatype RegisterType =
    RegisterType_Undefined
  | RegisterType_ConstantBuffer
  | RegisterType_TextureBuffer
  | RegisterType_Sampler
  | RegisterType_UnorderedAccessView

definition CharToRegisterType :: "char \<Rightarrow> RegisterType" where
  "CharToRegisterType c =
     (if c = CHR ''b'' then RegisterType_ConstantBuffer
      else if c = CHR ''t'' then RegisterType_TextureBuffer
      else if c = CHR ''s'' then RegisterType_Sampler
      else if c = CHR ''u'' then RegisterType_UnorderedAccessView
      else RegisterType_Undefined)"

record Register =
  shaderTarget :: ShaderTarget
  registerType :: RegisterType
  slot :: int

text \<open>A \<^verbatim>\<open>BufferDeclStmnt\<close> as its visitor sees it: the slot registers and the members. The
  visit of a member is a parameter. The back reference \<^verbatim>\<open>bufferDeclRef\<close> that the visitor
  stores in the members' declarations is a pointer to this statement and is not represented.\<close>

record 'm BufferDeclStmnt_node =
  slotRegisters :: "Register list"
  members :: "'m list"

fun report_target_specific_slots :: "nat \<Rightarrow> Register list \<Rightarrow> Analyzer \<Rightarrow> Analyzer" where
  "report_target_specific_slots i [] st = st"
| "report_target_specific_slots i (slotRegister # rest) st =
     report_target_specific_slots (Suc i) rest
       (if shaderTarget slotRegister \<noteq> Target_Undefined
        then Analyzer_Error ''user-defined constant buffer slots can not be target specific''
               (Ref_SlotRegister i) ERR_TARGET_INVALID st
        else st)"

fun Visit_members ::
  "('m \<Rightarrow> Analyzer \<Rightarrow> exn option \<times> 'm \<times> Analyzer) \<Rightarrow> 'm list \<Rightarrow> Analyzer
     \<Rightarrow> exn option \<times> 'm list \<times> Analyzer" where
  "Visit_members visit [] st = (None, [], st)"
| "Visit_members visit (member # rest) st =
     (case visit member st of
        (Some e, member1, st1) \<Rightarrow> (Some e, member1 # rest, st1)
      | (None, member1, st1) \<Rightarrow>
          (case Visit_members visit rest st1 of
             (r, rest1, st2) \<Rightarrow> (r, member1 # rest1, st2)))"

definition VisitBufferDeclStmnt ::
  "('m \<Rightarrow> Analyzer \<Rightarrow> exn option \<times> 'm \<times> Analyzer) \<Rightarrow> 'm BufferDeclStmnt_node \<Rightarrow> Analyzer
     \<Rightarrow> exn option \<times> 'm BufferDeclStmnt_node \<times> Analyzer" where
  "VisitBufferDeclStmnt visit a st =
     (let st1 =
        (if length (slotRegisters a) > 1
         then Analyzer_Error ''buffers can only be bound to one slot'' (Ref_SlotRegister 1)
                ERR_BIND_INVALID st
         else st);
          st2 = report_target_specific_slots 0 (slotRegisters a) st1
      in case Visit_members visit (members a) st2 of
           (r, members1, st3) \<Rightarrow> (r, a\<lparr>members := members1\<rparr>, st3))"

subsection \<open>Function declarations and the entry point\<close>

text \<open>A \<^verbatim>\<open>FunctionDecl\<close> as its visitor sees it: the identifier, the return semantic, the
  flag \<^verbatim>\<open>isEntryPoint\<close> of its flag set, the parameters, and its other children (attributes,
  return type, code block, and the input and output semantics that the entry-point analysis
  collects).\<close>

record ('p, 'c) FunctionDecl_node =
  fd_ident :: string
  fd_semantic :: IndexedSemantic
  fd_isEntryPoint :: bool
  fd_parameters :: "'p list"
  fd_children :: 'c

text \<open>What \<^verbatim>\<open>VisitFunctionDecl\<close> and \<^verbatim>\<open>AnalyzeEntryPoint\<close> call and the sources do not
  hold, or what works on the children only, is a parameter: the registration in the symbol
  table, the visits of the attributes and the return type, of the parameters and of the code
  block, the number of declarations of a parameter, the analysis of one entry-point parameter
  and of the return type (they work on type denoters), and the end-of-scope pass. Each visit
  may throw. None of them is given the function declaration's own fields.\<close>

record ('p, 'c) FunctionDecl_env =
  env_Register :: "string \<Rightarrow> nat \<Rightarrow> Analyzer \<Rightarrow> Analyzer"
  env_Visit_attribs_returnType :: "'c \<Rightarrow> Analyzer \<Rightarrow> exn option \<times> 'c \<times> Analyzer"
  env_Visit_parameters :: "'p list \<Rightarrow> Analyzer \<Rightarrow> exn option \<times> 'p list \<times> Analyzer"
  env_numVarDecls :: "'p \<Rightarrow> nat"
  env_AnalyzeEntryPointParameter :: "'p \<Rightarrow> 'c \<Rightarrow> Analyzer \<Rightarrow> exn option \<times> ('p \<times> 'c) \<times> Analyzer"
  env_AnalyzeEntryPointReturnType :: "'c \<Rightarrow> Analyzer \<Rightarrow> exn option \<times> 'c \<times> Analyzer"
  env_Visit_codeBlock :: "bool \<Rightarrow> 'c \<Rightarrow> Analyzer \<Rightarrow> exn option \<times> 'c \<times> Analyzer"
  env_AnalyzeEndOfScopes :: "'c \<Rightarrow> 'c"

text \<open>The loop of \<^verbatim>\<open>AnalyzeEntryPoint\<close> over the parameters; \<open>i\<close> is the position of the
  parameter, which the error report points at.\<close>

fun AnalyzeEntryPoint_parameters ::
  "('p, 'c) FunctionDecl_env \<Rightarrow> nat \<Rightarrow> 'p list \<Rightarrow> 'c \<Rightarrow> Analyzer
     \<Rightarrow> exn option \<times> ('p list \<times> 'c) \<times> Analyzer" where
  "AnalyzeEntryPoint_parameters env i [] c st = (None, ([], c), st)"
| "AnalyzeEntryPoint_parameters env i (param # rest) c st =
     (if env_numVarDecls env param = 1
      then (case env_AnalyzeEntryPointParameter env param c st of
              (Some e, (param1, c1), st1) \<Rightarrow> (Some e, (param1 # rest, c1), st1)
            | (None, (param1, c1), st1) \<Rightarrow>
                (case AnalyzeEntryPoint_parameters env (Suc i) rest c1 st1 of
                   (r, (rest1, c2), st2) \<Rightarrow> (r, (param1 # rest1, c2), st2)))
      else (case AnalyzeEntryPoint_parameters env (Suc i) rest c
                   (Analyzer_Error ''invalid number of variable declarations in function parameter''
                      (Ref_Parameter i) Err_Unknown st) of
              (r, (rest1, c2), st2) \<Rightarrow> (r, (param # rest1, c2), st2)))"

text \<open>\<^verbatim>\<open>AnalyzeEntryPoint\<close>; \<open>ref\<close> is the address of the declaration (its position among the
  global statements), which the root node's \<^verbatim>\<open>entryPointRef\<close> is set to.\<close>

definition AnalyzeEntryPoint ::
  "HLSLAnalyzer \<Rightarrow> ('p, 'c) FunctionDecl_env \<Rightarrow> nat \<Rightarrow> ('p, 'c) FunctionDecl_node \<Rightarrow> Analyzer
     \<Rightarrow> exn option \<times> ('p, 'c) FunctionDecl_node \<times> Analyzer" where
  "AnalyzeEntryPoint an env ref funcDecl st =
     (let st1 = st\<lparr>program_entryPointRef := Some ref\<rparr>;
          funcDecl1 = funcDecl\<lparr>fd_isEntryPoint := True\<rparr>
      in case AnalyzeEntryPoint_parameters env 0 (fd_parameters funcDecl1) (fd_children funcDecl1) st1 of
           (Some e, (ps, c), st2) \<Rightarrow> (Some e, funcDecl1\<lparr>fd_parameters := ps, fd_children := c\<rparr>, st2)
         | (None, (ps, c), st2) \<Rightarrow>
             (case env_AnalyzeEntryPointReturnType env c st2 of
                (Some e, c1, st3) \<Rightarrow> (Some e, funcDecl1\<lparr>fd_parameters := ps, fd_children := c1\<rparr>, st3)
              | (None, c1, st3) \<Rightarrow>
                  (None, funcDecl1\<lparr>fd_parameters := ps, fd_children := c1\<rparr>,
                   if m_shaderTarget an = FragmentShader
                      \<and> InputShaderVersion_rank (m_versionIn an) \<le> InputShaderVersion_rank HLSL3
                   then st3\<lparr>program_flags := insert hasSM3ScreenSpace (program_flags st3)\<rparr>
                   else st3)))"

definition VisitFunctionDecl ::
  "HLSLAnalyzer \<Rightarrow> ('p, 'c) FunctionDecl_env \<Rightarrow> nat \<Rightarrow> ('p, 'c) FunctionDecl_node \<Rightarrow> Analyzer
     \<Rightarrow> exn option \<times> ('p, 'c) FunctionDecl_node \<times> Analyzer" where
  "VisitFunctionDecl an env ref a st =
     (let isEntryPoint = (fd_ident a = m_entryPoint an);
          a1 = a\<lparr>fd_semantic := AnalyzeSemantic an (fd_semantic a)\<rparr>;
          st1 = env_Register env (fd_ident a1) ref st
      in case env_Visit_attribs_returnType env (fd_children a1) st1 of
           (Some e, c, st2) \<Rightarrow> (Some e, a1\<lparr>fd_children := c\<rparr>, st2)
         | (None, c, st2) \<Rightarrow>
        (case env_Visit_parameters env (fd_parameters a1) st2 of
           (Some e, ps, st3) \<Rightarrow> (Some e, a1\<lparr>fd_parameters := ps, fd_children := c\<rparr>, st3)
         | (None, ps, st3) \<Rightarrow>
        (case (if isEntryPoint
               then AnalyzeEntryPoint an env ref (a1\<lparr>fd_parameters := ps, fd_children := c\<rparr>) st3
               else (None, a1\<lparr>fd_parameters := ps, fd_children := c\<rparr>, st3)) of
           (Some e, a2, st4) \<Rightarrow> (Some e, a2, st4)
         | (None, a2, st4) \<Rightarrow>
        (case env_Visit_codeBlock env isEntryPoint (fd_children a2) st4 of
           (Some e, c1, st5) \<Rightarrow> (Some e, a2\<lparr>fd_children := c1\<rparr>, st5)
         | (None, c1, st5) \<Rightarrow>
             (None, a2\<lparr>fd_children := env_AnalyzeEndOfScopes env c1\<rparr>, st5)))))"

text \<open>\<^verbatim>\<open>VisitProgram\<close> visits the global statements in order; a function declaration goes to
  \<^verbatim>\<open>VisitFunctionDecl\<close>, and the visit of every other kind of statement is a parameter. An
  exception ends the walk and leaves the statements after it as they were.\<close>

datatype ('p, 'c, 'o) GlobalStmnt =
    FunctionDecl_stmnt "('p, 'c) FunctionDecl_node"
  | Other_stmnt 'o

fun Visit_globalStmnts ::
  "HLSLAnalyzer \<Rightarrow> ('p, 'c) FunctionDecl_env \<Rightarrow> ('o \<Rightarrow> Analyzer \<Rightarrow> exn option \<times> 'o \<times> Analyzer) \<Rightarrow> nat
     \<Rightarrow> ('p, 'c, 'o) GlobalStmnt list \<Rightarrow> Analyzer
     \<Rightarrow> exn option \<times> ('p, 'c, 'o) GlobalStmnt list \<times> Analyzer" where
  "Visit_globalStmnts an env other ref [] st = (None, [], st)"
| "Visit_globalStmnts an env other ref (FunctionDecl_stmnt a # rest) st =
     (case VisitFunctionDecl an env ref a st of
        (Some e, a1, st1) \<Rightarrow> (Some e, FunctionDecl_stmnt a1 # rest, st1)
      | (None, a1, st1) \<Rightarrow>
          (case Visit_globalStmnts an env other (Suc ref) rest st1 of
             (r, rest1, st2) \<Rightarrow> (r, FunctionDecl_stmnt a1 # rest1, st2)))"
| "Visit_globalStmnts an env other ref (Other_stmnt s # rest) st =
     (case other s st of
        (Some e, s1, st1) \<Rightarrow> (Some e, Other_stmnt s1 # rest, st1)
      | (None, s1, st1) \<Rightarrow>
          (case Visit_globalStmnts an env other (Suc ref) rest st1 of
             (r, rest1, st2) \<Rightarrow> (r, Other_stmnt s1 # rest1, st2)))"

definition VisitProgram ::
  "HLSLAnalyzer \<Rightarrow> ('p, 'c) FunctionDecl_env \<Rightarrow> ('o \<Rightarrow> Analyzer \<Rightarrow> exn option \<times> 'o \<times> Analyzer)
     \<Rightarrow> ('p, 'c, 'o) GlobalStmnt list \<Rightarrow> Analyzer
     \<Rightarrow> exn option \<times> ('p, 'c, 'o) GlobalStmnt list \<times> Analyzer" where
  "VisitProgram an env other globalStmnts st = Visit_globalStmnts an env other 0 globalStmnts st"

text \<open>The declarations that carry the entry-point flag.\<close>

fun entry_point_decls :: "('p, 'c, 'o) GlobalStmnt list \<Rightarrow> ('p, 'c) FunctionDecl_node list" where
  "entry_point_decls [] = []"
| "entry_point_decls (FunctionDecl_stmnt a # rest) =
     (if fd_isEntryPoint a then a # entry_point_decls rest else entry_point_decls rest)"
| "entry_point_decls (Other_stmnt s # rest) = entry_point_decls rest"

section \<open>The compile entry point (Xsc.cpp)\<close>

text \<open>The fields of the descriptors that \<^verbatim>\<open>CompileShaderPrimary\<close> and \<^verbatim>\<open>CompileShader\<close>
  read. A stream pointer is \<open>None\<close> when null; the output goes to the caller's stream or, under
  \<^verbatim>\<open>validateOnly\<close>, to the local \<^verbatim>\<open>dummyOutputStream\<close>.\<close>

record Options =
  preprocessOnly :: bool
  validateOnly :: bool
  optimize :: bool
  showAST :: bool
  showTimes :: bool

record 'src ShaderInput =
  in_sourceCode :: "'src option"
  in_filename :: string
  in_entryPoint :: string
  in_shaderTarget :: ShaderTarget
  in_shaderVersion :: InputShaderVersion

datatype 'out OutputStream = CallerStream 'out | dummyOutputStream

record 'out ShaderOutput =
  out_sourceCode :: "'out OutputStream option"
  out_shaderVersion :: OutputShaderVersion
  out_options :: Options

datatype Stage = Preprocessing | Parsing | ContextAnalysis | Optimization | CodeGeneration

text \<open>The stages are parameters: the preprocessor, the analyzer's \<^verbatim>\<open>DecorateAST\<close>, the
  optimizer and the generator are not among the sources, and the parser is modelled on its own
  below. A stage that fails returns a null pointer, or \<open>False\<close>.\<close>

record ('src, 'pp, 'prog) Stages =
  stage_Process :: "'src \<Rightarrow> string \<Rightarrow> 'pp option"
  stage_ParseSource :: "'pp \<Rightarrow> 'prog option"
  stage_DecorateAST :: "'prog \<Rightarrow> bool \<times> 'prog"
  stage_Optimize :: "'prog \<Rightarrow> 'prog"
  stage_GenerateCode :: "'prog \<Rightarrow> bool"

text \<open>What a call leaves behind: the value it returned or the exception that left it, the
  stages it ran, in order, and the reports that \<^verbatim>\<open>SubmitError\<close> sent to the log (none when the
  log is null). The statistics sink, the printed syntax tree and the timing reports are side
  channels and are not represented.\<close>

record CompileOutcome =
  returned :: "exn + bool"
  stages_run :: "Stage list"
  submitted :: "Report list"

definition SubmitError :: "bool \<Rightarrow> string \<Rightarrow> Stage list \<Rightarrow> CompileOutcome" where
  "SubmitError has_log msg stages =
     \<lparr>returned = Inr False, stages_run = stages,
      submitted = (if has_log
                   then [\<lparr>rtype = Types_Error, message = msg, ast = Ref_None, errorCode = Err_Unknown\<rparr>]
                   else [])\<rparr>"

definition thrown :: "exn \<Rightarrow> CompileOutcome" where
  "thrown e = \<lparr>returned = Inl e, stages_run = [], submitted = []\<rparr>"

definition CompileShaderPrimary ::
  "('src, 'pp, 'prog) Stages \<Rightarrow> 'src ShaderInput \<Rightarrow> 'out ShaderOutput \<Rightarrow> bool \<Rightarrow> CompileOutcome" where
  "CompileShaderPrimary stages inputDesc outputDesc has_log =
     (case in_sourceCode inputDesc of
        None \<Rightarrow> thrown (invalid_argument ''input stream must not be null'')
      | Some src \<Rightarrow>
     if out_sourceCode outputDesc = None
     then thrown (invalid_argument ''output stream must not be null'')
     else if out_shaderVersion outputDesc = GLSL110
     then thrown (invalid_argument (''output shader version '' @ [CHR 0x27] @ ''GLSL 1.10'' @ [CHR 0x27] @ '' is not supported''))
     else if out_shaderVersion outputDesc = GLSL120
     then thrown (invalid_argument (''output shader version '' @ [CHR 0x27] @ ''GLSL 1.20'' @ [CHR 0x27] @ '' is not supported''))
     else
     (case stage_Process stages src (in_filename inputDesc) of
        None \<Rightarrow> SubmitError has_log ''preprocessing input code failed'' [Preprocessing]
      | Some processedInput \<Rightarrow>
     if preprocessOnly (out_options outputDesc)
     then \<lparr>returned = Inr True, stages_run = [Preprocessing], submitted = []\<rparr>
     else
     (case stage_ParseSource stages processedInput of
        None \<Rightarrow> SubmitError has_log ''parsing input code failed'' [Preprocessing, Parsing]
      | Some program \<Rightarrow>
     (case stage_DecorateAST stages program of
        (False, program1) \<Rightarrow>
          SubmitError has_log ''analyzing input code failed'' [Preprocessing, Parsing, ContextAnalysis]
      | (True, program1) \<Rightarrow>
     (let ran = [Preprocessing, Parsing, ContextAnalysis]
                  @ (if optimize (out_options outputDesc) then [Optimization] else []);
          program2 = (if optimize (out_options outputDesc)
                      then stage_Optimize stages program1 else program1)
      in if \<not> stage_GenerateCode stages program2
         then SubmitError has_log ''generating output code failed'' (ran @ [CodeGeneration])
         else \<lparr>returned = Inr True, stages_run = ran @ [CodeGeneration], submitted = []\<rparr>)))))"

text \<open>\<^verbatim>\<open>CompileShader\<close> copies the output descriptor, redirects the output under
  \<^verbatim>\<open>validateOnly\<close> and calls the primary function. It has no handler: an exception of the
  primary function leaves \<^verbatim>\<open>CompileShader\<close> too.\<close>

definition CompileShader ::
  "('src, 'pp, 'prog) Stages \<Rightarrow> 'src ShaderInput \<Rightarrow> 'out ShaderOutput \<Rightarrow> bool \<Rightarrow> CompileOutcome" where
  "CompileShader stages inputDesc outputDesc has_log =
     (let outputDescCopy =
            (if validateOnly (out_options outputDesc)
             then outputDesc\<lparr>out_sourceCode := Some dummyOutputStream\<rparr>
             else outputDesc)
      in CompileShaderPrimary stages inputDesc outputDescCopy has_log)"

section \<open>Tokens (Token.h)\<close>

datatype (plugins only: code) Tokens =
    Tok_Undefined
  | Tok_Ident
  | Tok_BoolLiteral | Tok_IntLiteral | Tok_FloatLiteral | Tok_StringLiteral
  | Tok_AssignOp | Tok_BinaryOp | Tok_UnaryOp | Tok_TernaryOp
  | Tok_Dot | Tok_Colon | Tok_Semicolon | Tok_Comma
  | Tok_LBracket | Tok_RBracket | Tok_LCurly | Tok_RCurly | Tok_LParen | Tok_RParen
  | Tok_StringType | Tok_ScalarType | Tok_VectorType | Tok_MatrixType
  | Tok_Sampler | Tok_SamplerState | Tok_Texture | Tok_StorageBuffer | Tok_UniformBuffer
  | Tok_Vector | Tok_Matrix | Tok_Void
  | Tok_Reserved
  | Tok_Do | Tok_While | Tok_For | Tok_If | Tok_Else | Tok_Switch | Tok_Case | Tok_Default
  | Tok_Typedef | Tok_Struct | Tok_Register | Tok_PackOffset
  | Tok_CtrlTransfer | Tok_Return
  | Tok_InputModifier | Tok_StorageClass | Tok_TypeModifier | Tok_Inline
  | Tok_Technique | Tok_Pass | Tok_Compile
  | Tok_Directive | Tok_DirectiveConcat | Tok_Comment | Tok_WhiteSpaces | Tok_NewLines
  | Tok_LineBreak | Tok_VarArg | Tok_Misc
  | Tok_EndOfStream

text \<open>A token: its type, its spelling and the row of its source position. Columns and source
  areas are not represented.\<close>

record Token =
  tok_type :: Tokens
  tok_spell :: string
  tok_row :: nat

text \<open>\<^verbatim>\<open>Token::SpellContent\<close>, after its description in Token.h: the spelling without the
  quotes of a string literal.\<close>

definition SpellContent :: "Token \<Rightarrow> string" where
  "SpellContent t =
     (if tok_type t = Tok_StringLiteral \<and> length (tok_spell t) \<ge> 2
      then butlast (tl (tok_spell t)) else tok_spell t)"

section \<open>The syntax tree\<close>

text \<open>Modelled from the spec: the enumerations of operators and data types are declared in
  a header that is not among the sources. The operators are the ones that
  ConstExprEvaluator.cpp switches on, spelled as Token.h lists them; the data types are the
  six scalar types, their vectors and matrices of one to four components, and the string
  type.\<close>

datatype AssignOp =
    AssignOp_Undefined | AssignOp_Set | AssignOp_Add | AssignOp_Sub | AssignOp_Mul
  | AssignOp_Div | AssignOp_Mod | AssignOp_LShift | AssignOp_RShift
  | AssignOp_Or | AssignOp_And | AssignOp_Xor

datatype BinaryOp =
    BinaryOp_Undefined | BinaryOp_LogicalAnd | BinaryOp_LogicalOr
  | BinaryOp_Or | BinaryOp_Xor | BinaryOp_And | BinaryOp_LShift | BinaryOp_RShift
  | BinaryOp_Add | BinaryOp_Sub | BinaryOp_Mul | BinaryOp_Div | BinaryOp_Mod
  | BinaryOp_Equal | BinaryOp_NotEqual | BinaryOp_Less | BinaryOp_Greater
  | BinaryOp_LessEqual | BinaryOp_GreaterEqual

datatype UnaryOp =
    UnaryOp_Undefined | UnaryOp_LogicalNot | UnaryOp_Not | UnaryOp_Nop | UnaryOp_Negate
  | UnaryOp_Inc | UnaryOp_Dec

datatype CtrlTransfer = CtrlTransfer_Undefined | CtrlTransfer_Break | CtrlTransfer_Continue | CtrlTransfer_Discard

definition StringToAssignOp :: "string \<Rightarrow> exn + AssignOp" where
  "StringToAssignOp s =
     (case map_of
        [(''='', AssignOp_Set), (''+='', AssignOp_Add), (''-='', AssignOp_Sub),
         (''*='', AssignOp_Mul), (''/='', AssignOp_Div), (''%='', AssignOp_Mod),
         (''<<='', AssignOp_LShift), (''>>='', AssignOp_RShift),
         (''|='', AssignOp_Or), (''&='', AssignOp_And), (''^='', AssignOp_Xor)] s of
        Some op \<Rightarrow> Inr op
      | None \<Rightarrow> Inl (invalid_argument (''failed to map string to assign operator: '' @ s)))"

definition StringToBinaryOp :: "string \<Rightarrow> exn + BinaryOp" where
  "StringToBinaryOp s =
     (case map_of
        [(''&&'', BinaryOp_LogicalAnd), (''||'', BinaryOp_LogicalOr), (''|'', BinaryOp_Or),
         (''^'', BinaryOp_Xor), (''&'', BinaryOp_And), (''<<'', BinaryOp_LShift),
         (''>>'', BinaryOp_RShift), (''+'', BinaryOp_Add), (''-'', BinaryOp_Sub),
         (''*'', BinaryOp_Mul), (''/'', BinaryOp_Div), (''%'', BinaryOp_Mod),
         (''=='', BinaryOp_Equal), (''!='', BinaryOp_NotEqual), (''<'', BinaryOp_Less),
         (''>'', BinaryOp_Greater), (''<='', BinaryOp_LessEqual), (''>='', BinaryOp_GreaterEqual)] s of
        Some op \<Rightarrow> Inr op
      | None \<Rightarrow> Inl (invalid_argument (''failed to map string to binary operator: '' @ s)))"

definition StringToUnaryOp :: "string \<Rightarrow> exn + UnaryOp" where
  "StringToUnaryOp s =
     (case map_of
        [(''!'', UnaryOp_LogicalNot), (''~'', UnaryOp_Not), (''+'', UnaryOp_Nop),
         (''-'', UnaryOp_Negate), (''++'', UnaryOp_Inc), (''--'', UnaryOp_Dec)] s of
        Some op \<Rightarrow> Inr op
      | None \<Rightarrow> Inl (invalid_argument (''failed to map string to unary operator: '' @ s)))"

definition StringToCtrlTransfer :: "string \<Rightarrow> exn + CtrlTransfer" where
  "StringToCtrlTransfer s =
     (case map_of
        [(''break'', CtrlTransfer_Break), (''continue'', CtrlTransfer_Continue),
         (''discard'', CtrlTransfer_Discard)] s of
        Some t \<Rightarrow> Inr t
      | None \<Rightarrow> Inl (invalid_argument (''failed to map string to control transfer: '' @ s)))"

datatype ScalarKind = Kind_Bool | Kind_Int | Kind_UInt | Kind_Half | Kind_Float | Kind_Double

datatype DataType =
    DataType_Undefined
  | DataType_String
  | DataType_Scalar ScalarKind
  | DataType_Vector ScalarKind nat
  | DataType_Matrix ScalarKind nat nat

abbreviation "DataType_Bool \<equiv> DataType_Scalar Kind_Bool"
abbreviation "DataType_Int \<equiv> DataType_Scalar Kind_Int"
abbreviation "DataType_UInt \<equiv> DataType_Scalar Kind_UInt"
abbreviation "DataType_Half \<equiv> DataType_Scalar Kind_Half"
abbreviation "DataType_Float \<equiv> DataType_Scalar Kind_Float"
abbreviation "DataType_Double \<equiv> DataType_Scalar Kind_Double"
abbreviation "DataType_Float4 \<equiv> DataType_Vector Kind_Float 4"
abbreviation "DataType_Float4x4 \<equiv> DataType_Matrix Kind_Float 4 4"

definition dimension_of_char :: "char \<Rightarrow> nat option" where
  "dimension_of_char c =
     map_of [(CHR ''1'', 1), (CHR ''2'', 2), (CHR ''3'', 3), (CHR ''4'', 4)] c"

definition data_type_with_dimensions :: "ScalarKind \<Rightarrow> string \<Rightarrow> DataType option" where
  "data_type_with_dimensions k dims =
     (case dims of
        [] \<Rightarrow> Some (DataType_Scalar k)
      | [m] \<Rightarrow> map_option (DataType_Vector k) (dimension_of_char m)
      | [m, x, n] \<Rightarrow>
          (case (dimension_of_char m, dimension_of_char n) of
             (Some dm, Some dn) \<Rightarrow> if x = CHR ''x'' then Some (DataType_Matrix k dm dn) else None
           | _ \<Rightarrow> None)
      | _ \<Rightarrow> None)"

fun keyword_data_type :: "(string \<times> ScalarKind) list \<Rightarrow> string \<Rightarrow> DataType option" where
  "keyword_data_type [] s = None"
| "keyword_data_type ((name, k) # rest) s =
     (if take (length name) s = name
      then (case data_type_with_dimensions k (drop (length name) s) of
              Some t \<Rightarrow> Some t
            | None \<Rightarrow> keyword_data_type rest s)
      else keyword_data_type rest s)"

definition HLSLKeywordToDataType :: "string \<Rightarrow> exn + DataType" where
  "HLSLKeywordToDataType keyword =
     (if keyword = ''string'' then Inr DataType_String
      else case keyword_data_type
             [(''bool'', Kind_Bool), (''int'', Kind_Int), (''uint'', Kind_UInt),
              (''half'', Kind_Half), (''float'', Kind_Float), (''double'', Kind_Double)] keyword of
             Some t \<Rightarrow> Inr t
           | None \<Rightarrow> Inl (invalid_argument (''failed to map keyword to data type: '' @ keyword)))"

definition TokenToDataType :: "Token \<Rightarrow> DataType" where
  "TokenToDataType t =
     (if tok_type t = Tok_BoolLiteral then DataType_Bool
      else if tok_type t = Tok_IntLiteral then DataType_Int
      else if tok_type t = Tok_FloatLiteral then DataType_Float
      else if tok_type t = Tok_StringLiteral then DataType_String
      else DataType_Undefined)"

text \<open>The type denoters and the expression nodes. Every node of the source also carries a
  source area, a flag set and references that the analyzer fills in; the parser sets none of
  them and they are not represented. A \<^verbatim>\<open>StructTypeDenoter\<close> is made from a declaration
  (the flag is \<open>True\<close>) or from an identifier alone. The enumeration of the texture types
  is declared in a header that is not among the sources; an enumerator is represented by a
  number.\<close>

type_synonym BufferType = nat

datatype TypeDenoter =
    VoidTypeDenoter
  | BaseTypeDenoter DataType
  | TextureTypeDenoter BufferType
  | SamplerTypeDenoter
  | StructTypeDenoter string bool
  | AliasTypeDenoter string
  | ArrayTypeDenoter TypeDenoter "Expr list"
and Expr =
    NullExpr
  | ListExpr Expr Expr
  | LiteralExpr DataType string
  | TypeNameExpr TypeDenoter
  | TernaryExpr Expr Expr Expr
  | BinaryExpr Expr BinaryOp Expr
  | UnaryExpr UnaryOp Expr
  | PostUnaryExpr Expr UnaryOp
  | FunctionCallExpr FunctionCall
  | BracketExpr Expr
  | SuffixExpr Expr VarIdent
  | ArrayAccessExpr Expr "Expr list"
  | CastExpr Expr Expr
  | VarAccessExpr VarIdent AssignOp "Expr option"
  | InitializerExpr "Expr list"
and VarIdent =
    VarIdent (var_ident: string) (var_arrayIndices: "Expr list") (var_next: "VarIdent option")
and FunctionCall =
    FunctionCall (call_varIdent: "VarIdent option") (call_typeDenoter: "TypeDenoter option")
                 (arguments: "Expr list")

section \<open>The constant-expression evaluator (ConstExprEvaluator.cpp)\<close>

text \<open>Modelled from the spec: the class \<^verbatim>\<open>Variant\<close> is not among the sources. It is a tagged
  variant (Bool, Int, Real); an Int is a 64-bit integer and a Real is a double. Division by
  zero reports an error. Overflow semantics follow the underlying 64-bit integer or double:
  the quotient and the remainder of two Ints are the truncating signed ones of the machine (the
  one quotient that overflows, of the least integer by minus one, wraps here), and the
  quotient of two Reals is the double's. The arithmetic of doubles, the operators on operands
  of different tags, and the operators other than division are parameters.\<close>

datatype 'r Variant = Variant_Bool bool | Variant_Int "64 word" | Variant_Real 'r

record 'r Variant_ops =
  real_is_zero :: "'r \<Rightarrow> bool"
  real_divide :: "'r \<Rightarrow> 'r \<Rightarrow> 'r"
  real_FromString :: "string \<Rightarrow> 'r"
  other_binary :: "BinaryOp \<Rightarrow> 'r Variant \<Rightarrow> 'r Variant \<Rightarrow> 'r Variant"
  other_unary :: "UnaryOp \<Rightarrow> 'r Variant \<Rightarrow> 'r Variant"

fun ToBool :: "'r Variant_ops \<Rightarrow> 'r Variant \<Rightarrow> bool" where
  "ToBool ops (Variant_Bool b) = b"
| "ToBool ops (Variant_Int i) = (i \<noteq> 0)"
| "ToBool ops (Variant_Real r) = (\<not> real_is_zero ops r)"

definition Variant_is_zero :: "'r Variant_ops \<Rightarrow> 'r Variant \<Rightarrow> bool" where
  "Variant_is_zero ops v = (\<not> ToBool ops v)"

definition Variant_divide :: "'r Variant_ops \<Rightarrow> 'r Variant \<Rightarrow> 'r Variant \<Rightarrow> exn + 'r Variant" where
  "Variant_divide ops lhs rhs =
     (if Variant_is_zero ops rhs then Inl (runtime_error ''division by zero'')
      else Inr (case (lhs, rhs) of
                  (Variant_Int a, Variant_Int b) \<Rightarrow> Variant_Int (word_of_int (sint a sdiv sint b))
                | (Variant_Real a, Variant_Real b) \<Rightarrow> Variant_Real (real_divide ops a b)
                | _ \<Rightarrow> other_binary ops BinaryOp_Div lhs rhs))"

definition Variant_modulo :: "'r Variant_ops \<Rightarrow> 'r Variant \<Rightarrow> 'r Variant \<Rightarrow> exn + 'r Variant" where
  "Variant_modulo ops lhs rhs =
     (if Variant_is_zero ops rhs then Inl (runtime_error ''division by zero'')
      else Inr (case (lhs, rhs) of
                  (Variant_Int a, Variant_Int b) \<Rightarrow> Variant_Int (word_of_int (sint a smod sint b))
                | _ \<Rightarrow> other_binary ops BinaryOp_Mod lhs rhs))"

text \<open>Modelled from the spec: the template \<^verbatim>\<open>FromString\<close> of Helper.h is not among the sources.
  It reads a decimal number from the front of the string, as the extraction from a stream
  does, and yields 0 when there is none; the range of the target type is not represented.\<close>

fun FromString_digits :: "string \<Rightarrow> nat \<Rightarrow> nat" where
  "FromString_digits [] acc = acc"
| "FromString_digits (c # cs) acc =
     (if 48 \<le> (of_char c :: nat) \<and> (of_char c :: nat) \<le> 57
      then FromString_digits cs (10 * acc + ((of_char c :: nat) - 48))
      else acc)"

definition FromString_int :: "string \<Rightarrow> int" where
  "FromString_int s =
     (case s of
        [] \<Rightarrow> 0
      | c # cs \<Rightarrow> if c = CHR ''-'' then - int (FromString_digits cs 0) else int (FromString_digits s 0))"

text \<open>\<^verbatim>\<open>FromString<int>\<close>: the number as an \<^verbatim>\<open>int\<close> of 32 bits. What the template yields for a
  number outside the range of \<^verbatim>\<open>int\<close> is not known; the model keeps the low 32 bits.\<close>

definition FromString_int32 :: "string \<Rightarrow> 32 word" where
  "FromString_int32 s = word_of_int (FromString_int s)"

definition IllegalExpr :: "string \<Rightarrow> exn" where
  "IllegalExpr exprName = runtime_error (''illegal '' @ exprName @ '' in constant expression'')"

definition bindE :: "exn + 'a \<Rightarrow> ('a \<Rightarrow> exn + 'b) \<Rightarrow> exn + 'b" where
  "bindE m f = (case m of Inl e \<Rightarrow> Inl e | Inr x \<Rightarrow> f x)"

definition Pop :: "'r Variant list \<Rightarrow> exn + ('r Variant \<times> 'r Variant list)" where
  "Pop variantStack =
     (case variantStack of
        [] \<Rightarrow> Inl (runtime_error ''stack underflow in expression evaluator'')
      | v # rest \<Rightarrow> Inr (v, rest))"

text \<open>\<^verbatim>\<open>DataTypeToString\<close> and \<^verbatim>\<open>UnaryOpToString\<close> are not among the sources; here they give
  the keyword of the data type and the spelling of the operator.\<close>

definition ScalarKind_keyword :: "ScalarKind \<Rightarrow> string" where
  "ScalarKind_keyword k =
     (case k of
        Kind_Bool \<Rightarrow> ''bool'' | Kind_Int \<Rightarrow> ''int'' | Kind_UInt \<Rightarrow> ''uint''
      | Kind_Half \<Rightarrow> ''half'' | Kind_Float \<Rightarrow> ''float'' | Kind_Double \<Rightarrow> ''double'')"

definition DataTypeToString :: "DataType \<Rightarrow> string" where
  "DataTypeToString t =
     (case t of
        DataType_Undefined \<Rightarrow> ''<undefined>''
      | DataType_String \<Rightarrow> ''string''
      | DataType_Scalar k \<Rightarrow> ScalarKind_keyword k
      | DataType_Vector k n \<Rightarrow> ScalarKind_keyword k @ nat_to_string n
      | DataType_Matrix k n m \<Rightarrow> ScalarKind_keyword k @ nat_to_string n @ ''x'' @ nat_to_string m)"

definition UnaryOpToString :: "UnaryOp \<Rightarrow> string" where
  "UnaryOpToString op =
     (case op of
        UnaryOp_Undefined \<Rightarrow> ''<undefined>''
      | UnaryOp_LogicalNot \<Rightarrow> ''!''
      | UnaryOp_Not \<Rightarrow> ''~''
      | UnaryOp_Nop \<Rightarrow> ''+''
      | UnaryOp_Negate \<Rightarrow> ''-''
      | UnaryOp_Inc \<Rightarrow> ''++''
      | UnaryOp_Dec \<Rightarrow> ''--'')"

definition literal_value :: "'r Variant_ops \<Rightarrow> DataType \<Rightarrow> string \<Rightarrow> exn + 'r Variant" where
  "literal_value ops dataType v =
     (case dataType of
        DataType_Scalar Kind_Bool \<Rightarrow>
          (if v = ''true'' then Inr (Variant_Bool True)
           else if v = ''false'' then Inr (Variant_Bool False)
           else Inl (IllegalExpr (''boolean literal value '' @ [CHR 0x27] @ v @ [CHR 0x27])))
      | DataType_Scalar Kind_Int \<Rightarrow> Inr (Variant_Int (word_of_int (FromString_int v)))
      | DataType_Scalar Kind_UInt \<Rightarrow> Inr (Variant_Int (word_of_int (FromString_int v mod 2 ^ 32)))
      | DataType_Scalar Kind_Half \<Rightarrow> Inr (Variant_Real (real_FromString ops v))
      | DataType_Scalar Kind_Float \<Rightarrow> Inr (Variant_Real (real_FromString ops v))
      | DataType_Scalar Kind_Double \<Rightarrow> Inr (Variant_Real (real_FromString ops v))
      | _ \<Rightarrow> Inl (IllegalExpr (''literal type '' @ [CHR 0x27] @ DataTypeToString dataType @ [CHR 0x27])))"

text \<open>The switch of \<^verbatim>\<open>VisitBinaryExpr\<close>, of \<^verbatim>\<open>VisitUnaryExpr\<close> and of
  \<^verbatim>\<open>VisitPostUnaryExpr\<close> on the operator, given the popped operands.\<close>

definition binary_value :: "'r Variant_ops \<Rightarrow> BinaryOp \<Rightarrow> 'r Variant \<Rightarrow> 'r Variant \<Rightarrow> exn + 'r Variant" where
  "binary_value ops op lhs rhs =
     (case op of
        BinaryOp_Undefined \<Rightarrow> Inl (IllegalExpr ''binary operator'')
      | BinaryOp_LogicalAnd \<Rightarrow> Inr (Variant_Bool (ToBool ops lhs \<and> ToBool ops rhs))
      | BinaryOp_LogicalOr \<Rightarrow> Inr (Variant_Bool (ToBool ops lhs \<or> ToBool ops rhs))
      | BinaryOp_Div \<Rightarrow> Variant_divide ops lhs rhs
      | BinaryOp_Mod \<Rightarrow> Variant_modulo ops lhs rhs
      | _ \<Rightarrow> Inr (other_binary ops op lhs rhs))"

definition unary_value :: "'r Variant_ops \<Rightarrow> UnaryOp \<Rightarrow> 'r Variant \<Rightarrow> exn + 'r Variant" where
  "unary_value ops op rhs =
     (case op of
        UnaryOp_Undefined \<Rightarrow> Inl (IllegalExpr ''unary operator'')
      | UnaryOp_LogicalNot \<Rightarrow> Inr (Variant_Bool (\<not> ToBool ops rhs))
      | UnaryOp_Nop \<Rightarrow> Inr rhs
      | _ \<Rightarrow> Inr (other_unary ops op rhs))"

definition post_unary_value :: "UnaryOp \<Rightarrow> 'r Variant \<Rightarrow> exn + 'r Variant" where
  "post_unary_value op lhs =
     (case op of
        UnaryOp_Inc \<Rightarrow> Inr lhs
      | UnaryOp_Dec \<Rightarrow> Inr lhs
      | _ \<Rightarrow> Inl (IllegalExpr (''unary operator '' @ [CHR 0x27] @ UnaryOpToString op @ [CHR 0x27])))"

text \<open>The visitor. It works on the stack of variants. A node type that the evaluator does not
  override is walked as \<^verbatim>\<open>Visitor.cpp\<close> walks it (a suffix expression, an array access and
  the indices of a variable identifier). The callback is given the variable access.\<close>

fun VisitExpr ::
      "'r Variant_ops \<Rightarrow> (Expr \<Rightarrow> exn + 'r Variant) \<Rightarrow> Expr \<Rightarrow> 'r Variant list \<Rightarrow> exn + 'r Variant list"
  and VisitExprs ::
      "'r Variant_ops \<Rightarrow> (Expr \<Rightarrow> exn + 'r Variant) \<Rightarrow> Expr list \<Rightarrow> 'r Variant list \<Rightarrow> exn + 'r Variant list"
  and VisitVarIdent ::
      "'r Variant_ops \<Rightarrow> (Expr \<Rightarrow> exn + 'r Variant) \<Rightarrow> VarIdent \<Rightarrow> 'r Variant list \<Rightarrow> exn + 'r Variant list"
where
  "VisitExpr ops cb NullExpr stk = Inl (IllegalExpr ''dynamic array dimension'')"
| "VisitExpr ops cb (ListExpr firstExpr nextExpr) stk = VisitExpr ops cb firstExpr stk"
| "VisitExpr ops cb (LiteralExpr dataType v) stk =
     bindE (literal_value ops dataType v) (\<lambda>x. Inr (x # stk))"
| "VisitExpr ops cb (TypeNameExpr t) stk = Inl (IllegalExpr ''type specifier'')"
| "VisitExpr ops cb (TernaryExpr condExpr thenExpr elseExpr) stk =
     (case VisitExpr ops cb condExpr stk of
        Inl e \<Rightarrow> Inl e
      | Inr stk1 \<Rightarrow>
          (case Pop stk1 of
             Inl e \<Rightarrow> Inl e
           | Inr (cond, stk2) \<Rightarrow>
               if ToBool ops cond then VisitExpr ops cb thenExpr stk2
               else VisitExpr ops cb elseExpr stk2))"
| "VisitExpr ops cb (BinaryExpr lhsExpr op rhsExpr) stk =
     (case VisitExpr ops cb lhsExpr stk of
        Inl e \<Rightarrow> Inl e
      | Inr stk1 \<Rightarrow>
          (case VisitExpr ops cb rhsExpr stk1 of
             Inl e \<Rightarrow> Inl e
           | Inr stk2 \<Rightarrow>
               bindE (Pop stk2) (\<lambda>(rhs, stk3).
               bindE (Pop stk3) (\<lambda>(lhs, stk4).
               bindE (binary_value ops op lhs rhs) (\<lambda>x. Inr (x # stk4))))))"
| "VisitExpr ops cb (UnaryExpr op e) stk =
     (case VisitExpr ops cb e stk of
        Inl ex \<Rightarrow> Inl ex
      | Inr stk1 \<Rightarrow>
          bindE (Pop stk1) (\<lambda>(rhs, stk2).
          bindE (unary_value ops op rhs) (\<lambda>x. Inr (x # stk2))))"
| "VisitExpr ops cb (PostUnaryExpr e op) stk =
     (case VisitExpr ops cb e stk of
        Inl ex \<Rightarrow> Inl ex
      | Inr stk1 \<Rightarrow>
          bindE (Pop stk1) (\<lambda>(lhs, stk2).
          bindE (post_unary_value op lhs) (\<lambda>x. Inr (x # stk2))))"
| "VisitExpr ops cb (FunctionCallExpr c) stk = Inl (IllegalExpr ''function call'')"
| "VisitExpr ops cb (BracketExpr e) stk = VisitExpr ops cb e stk"
| "VisitExpr ops cb (SuffixExpr e varIdent) stk =
     (case VisitExpr ops cb e stk of
        Inl ex \<Rightarrow> Inl ex
      | Inr stk1 \<Rightarrow> VisitVarIdent ops cb varIdent stk1)"
| "VisitExpr ops cb (ArrayAccessExpr e indices) stk =
     (case VisitExpr ops cb e stk of
        Inl ex \<Rightarrow> Inl ex
      | Inr stk1 \<Rightarrow> VisitExprs ops cb indices stk1)"
| "VisitExpr ops cb (CastExpr typeExpr e) stk = VisitExpr ops cb e stk"
| "VisitExpr ops cb (VarAccessExpr varIdent op assignExpr) stk =
     bindE (cb (VarAccessExpr varIdent op assignExpr)) (\<lambda>x. Inr (x # stk))"
| "VisitExpr ops cb (InitializerExpr exprs) stk = Inl (IllegalExpr ''initializer list'')"
| "VisitExprs ops cb [] stk = Inr stk"
| "VisitExprs ops cb (e # es) stk =
     (case VisitExpr ops cb e stk of
        Inl ex \<Rightarrow> Inl ex
      | Inr stk1 \<Rightarrow> VisitExprs ops cb es stk1)"
| "VisitVarIdent ops cb (VarIdent i indices nxt) stk =
     (case VisitExprs ops cb indices stk of
        Inl ex \<Rightarrow> Inl ex
      | Inr stk1 \<Rightarrow>
          (case nxt of
             None \<Rightarrow> Inr stk1
           | Some n \<Rightarrow> VisitVarIdent ops cb n stk1))"

text \<open>\<^verbatim>\<open>EvaluateExpr\<close>: without a callback, a variable access evaluates to the integer 0.\<close>

definition EvaluateExpr ::
  "'r Variant_ops \<Rightarrow> Expr \<Rightarrow> (Expr \<Rightarrow> exn + 'r Variant) option \<Rightarrow> exn + 'r Variant" where
  "EvaluateExpr ops e onVarAccessCallback =
     (let cb = (case onVarAccessCallback of
                  Some f \<Rightarrow> f
                | None \<Rightarrow> (\<lambda>a. Inr (Variant_Int 0)))
      in bindE (VisitExpr ops cb e []) (\<lambda>stk. bindE (Pop stk) (\<lambda>(v, rest). Inr v)))"

section \<open>The parser (HLSLParser.cpp)\<close>

subsection \<open>State and control\<close>

text \<open>The state of a parser: the tokens that its scanner has not delivered yet, the current
  token \<^verbatim>\<open>Tkn()\<close> (the scanner's active token) and the scanner's previous token; the
  type-name symbol table, as its open scopes from the innermost; the stack of parsing states
  (each holds the one flag \<^verbatim>\<open>activeTemplate\<close>); the flag \<^verbatim>\<open>localScope_\<close>; the report
  handler's error flag and the reports that reached the log; the source origin that the last
  \<^verbatim>\<open>NextSourceOrigin\<close> installed (file name and line offset); and the arithmetic of the
  constant-expression evaluator.\<close>

text \<open>The keyword tables of \<^verbatim>\<open>HLSLKeywords.h\<close> are not among the sources and are parameters
  of the parser: each maps a spelling to its enumerator, or throws. The enumerations of the
  storage classes and of the uniform-buffer types are not among the sources either; their
  enumerators are numbers here.\<close>

type_synonym StorageClass = nat
type_synonym UniformBufferType = nat

record Keywords =
  HLSLKeywordToStorageClass :: "string \<Rightarrow> exn + StorageClass"
  HLSLKeywordToUniformBufferType :: "string \<Rightarrow> exn + UniformBufferType"
  HLSLKeywordToBufferType :: "string \<Rightarrow> exn + BufferType"
  HLSLKeywordToSemantic :: "string \<Rightarrow> exn + IndexedSemantic"

record 'r Parser =
  scanner_source :: "Token list"
  tkn :: Token
  previousToken :: Token
  typeNameSymbolTable :: "string list list"
  parsingStates :: "bool list"
  localScope :: bool
  hasErrors :: bool
  submitted_reports :: "Report list"
  sourceOrigin :: "string \<times> int"
  arithmetic :: "'r Variant_ops"
  keyword_tables :: Keywords

text \<open>A parsing function takes the state and returns a value or the exception that left it,
  with the state at that point.\<close>

type_synonym ('r, 'a) parser = "'r Parser \<Rightarrow> (exn + 'a) \<times> 'r Parser"

definition returnP :: "'a \<Rightarrow> ('r, 'a) parser" where
  "returnP x = (\<lambda>st. (Inr x, st))"

definition throwP :: "exn \<Rightarrow> ('r, 'a) parser" where
  "throwP e = (\<lambda>st. (Inl e, st))"

definition bindP :: "('r, 'a) parser \<Rightarrow> ('a \<Rightarrow> ('r, 'b) parser) \<Rightarrow> ('r, 'b) parser" where
  "bindP m f = (\<lambda>st. case m st of (Inl e, st1) \<Rightarrow> (Inl e, st1) | (Inr x, st1) \<Rightarrow> f x st1)"

definition thenP :: "('r, 'a) parser \<Rightarrow> ('r, 'b) parser \<Rightarrow> ('r, 'b) parser" where
  "thenP m k = bindP m (\<lambda>x. k)"

definition ifP :: "('r Parser \<Rightarrow> bool) \<Rightarrow> ('r, 'a) parser \<Rightarrow> ('r, 'a) parser \<Rightarrow> ('r, 'a) parser" where
  "ifP c p q = (\<lambda>st. if c st then p st else q st)"

definition whenP :: "('r Parser \<Rightarrow> bool) \<Rightarrow> ('r, 'a) parser \<Rightarrow> ('r, unit) parser" where
  "whenP c p = ifP c (thenP p (returnP ())) (returnP ())"

definition getP :: "('r Parser \<Rightarrow> 'a) \<Rightarrow> ('r, 'a) parser" where
  "getP f = (\<lambda>st. (Inr (f st), st))"

definition modifyP :: "('r Parser \<Rightarrow> 'r Parser) \<Rightarrow> ('r, unit) parser" where
  "modifyP f = (\<lambda>st. (Inr (), f st))"

definition liftE :: "exn + 'a \<Rightarrow> ('r, 'a) parser" where
  "liftE r = (\<lambda>st. (r, st))"

subsection \<open>The base class\<close>

text \<open>Modelled from the spec: the base class \<^verbatim>\<open>Parser\<close>, the scanner, the report handler
  and the symbol table are not among the sources. The parser is recursive-descent with one
  token of lookahead: \<^verbatim>\<open>Is\<close> tests the current token, \<^verbatim>\<open>Parser::AcceptIt\<close> returns it and
  fetches the next one, \<^verbatim>\<open>Accept\<close> accepts a token of the expected type (and spelling) and
  reports an unexpected token otherwise. At the end of the stream the scanner delivers
  \<^verbatim>\<open>EndOfStream\<close> tokens. An error sets the handler's error flag and leaves the parsing
  functions as a thrown \<^verbatim>\<open>Report\<close>, which \<^verbatim>\<open>ParseSource\<close> catches; a warning goes to the
  log. A type name is registered in the innermost scope and is found in any open scope.\<close>

definition Is :: "Tokens \<Rightarrow> 'r Parser \<Rightarrow> bool" where
  "Is t st \<longleftrightarrow> tok_type (tkn st) = t"

definition Is_spell :: "Tokens \<Rightarrow> string \<Rightarrow> 'r Parser \<Rightarrow> bool" where
  "Is_spell t s st \<longleftrightarrow> tok_type (tkn st) = t \<and> tok_spell (tkn st) = s"

definition Tkn :: "('r, Token) parser" where
  "Tkn = getP tkn"

definition Scanner_Next :: "'r Parser \<Rightarrow> Token \<times> Token list" where
  "Scanner_Next st =
     (case scanner_source st of
        [] \<Rightarrow> (\<lparr>tok_type = Tok_EndOfStream, tok_spell = [], tok_row = tok_row (tkn st)\<rparr>, [])
      | t # ts \<Rightarrow> (t, ts))"

definition Parser_AcceptIt :: "('r, Token) parser" where
  "Parser_AcceptIt =
     (\<lambda>st. (Inr (tkn st),
             st\<lparr>previousToken := tkn st, tkn := fst (Scanner_Next st),
                scanner_source := snd (Scanner_Next st)\<rparr>))"

definition error_report :: "string \<Rightarrow> HLSLErr \<Rightarrow> Report" where
  "error_report msg c = \<lparr>rtype = Types_Error, message = msg, ast = Ref_None, errorCode = c\<rparr>"

definition Error_code :: "string \<Rightarrow> HLSLErr \<Rightarrow> ('r, 'a) parser" where
  "Error_code msg c = (\<lambda>st. (Inl (Report_exn (error_report msg c)), st\<lparr>hasErrors := True\<rparr>))"

definition Error :: "string \<Rightarrow> ('r, 'a) parser" where
  "Error msg = Error_code msg Err_Unknown"

definition ErrorUnexpected :: "string \<Rightarrow> ('r, 'a) parser" where
  "ErrorUnexpected hint = Error (''unexpected token ('' @ hint @ '')'')"

definition ErrorUnexpected_Tokens :: "Tokens \<Rightarrow> ('r, 'a) parser" where
  "ErrorUnexpected_Tokens t = Error ''unexpected token''"

definition Warning :: "string \<Rightarrow> ('r, unit) parser" where
  "Warning msg =
     modifyP (\<lambda>st. st\<lparr>submitted_reports := submitted_reports st @
        [\<lparr>rtype = Types_Warning, message = msg, ast = Ref_None, errorCode = Err_Unknown\<rparr>]\<rparr>)"

definition ActiveParsingState :: "'r Parser \<Rightarrow> bool" where
  "ActiveParsingState st = (case parsingStates st of [] \<Rightarrow> False | activeTemplate # rest \<Rightarrow> activeTemplate)"

definition PushParsingState :: "bool \<Rightarrow> ('r, unit) parser" where
  "PushParsingState activeTemplate = modifyP (\<lambda>st. st\<lparr>parsingStates := activeTemplate # parsingStates st\<rparr>)"

definition PopParsingState :: "('r, unit) parser" where
  "PopParsingState = modifyP (\<lambda>st. st\<lparr>parsingStates := tl (parsingStates st)\<rparr>)"

text \<open>Modelled from the spec: a \<^verbatim>\<open>#line N "file"\<close> directive rewrites the row and the file
  for all subsequent tokens such that the next line's row equals N. The scanner and
  \<^verbatim>\<open>SourceCode::NextSourceOrigin\<close> are not among the sources. The origin holds the file name
  and the line offset that \<^verbatim>\<open>ProcessDirective\<close> passes; the position that the scanner reports
  for a token is the file name of the origin in force and the token's row in the scanned
  text plus the offset.\<close>

definition NextSourceOrigin :: "string \<Rightarrow> int \<Rightarrow> ('r, unit) parser" where
  "NextSourceOrigin filename lineOffset = modifyP (\<lambda>st. st\<lparr>sourceOrigin := (filename, lineOffset)\<rparr>)"

definition origin_row :: "string \<times> int \<Rightarrow> nat \<Rightarrow> int" where
  "origin_row origin r = int r + snd origin"

definition origin_filename :: "string \<times> int \<Rightarrow> string" where
  "origin_filename origin = fst origin"

definition reported_position :: "'r Parser \<Rightarrow> Token \<Rightarrow> string \<times> int" where
  "reported_position st t = (origin_filename (sourceOrigin st), origin_row (sourceOrigin st) (tok_row t))"

subsection \<open>Directives and the symbol table\<close>

text \<open>\<^verbatim>\<open>ProcessDirective\<close>. The line number, the current line and the offset are \<^verbatim>\<open>int\<close>s of
  32 bits; the current line is the row of the scanner's previous token, cast to \<^verbatim>\<open>int\<close>. An
  overflow of the subtraction, which the source leaves undefined, wraps here.\<close>

definition ProcessDirective :: "string \<Rightarrow> ('r, unit) parser" where
  "ProcessDirective ident =
     (if ident = ''line''
      then bindP (ifP (Is Tok_IntLiteral)
                    (bindP Parser_AcceptIt (\<lambda>t. returnP (FromString_int32 (tok_spell t))))
                    (ErrorUnexpected_Tokens Tok_IntLiteral)) (\<lambda>lineNo.
           bindP (ifP (Is Tok_StringLiteral)
                    (bindP Parser_AcceptIt (\<lambda>t. returnP (SpellContent t)))
                    (ErrorUnexpected_Tokens Tok_StringLiteral)) (\<lambda>filename.
           bindP (getP (\<lambda>st. (word_of_nat (tok_row (previousToken st)) :: 32 word))) (\<lambda>currentLine.
           NextSourceOrigin filename (sint (lineNo - currentLine - 1)))))
      else Error (''only '' @ [CHR 0x27] @ ''#line'' @ [CHR 0x27] @ ''-directives are allowed after pre-processing''))"

text \<open>\<^verbatim>\<open>HLSLParser::AcceptIt\<close> calls itself for every directive that follows the accepted
  token. Each call takes a token from the scanner, so the depth of the recursion is bounded by
  the number of tokens left; \<open>AcceptIt_bounded\<close> is the function with that bound made
  explicit, and \<open>AcceptIt\<close> starts it with a bound that is never reached.\<close>

fun AcceptIt_bounded :: "nat \<Rightarrow> ('r, Token) parser"
  and post_process_directives :: "nat \<Rightarrow> ('r, unit) parser"
where
  "AcceptIt_bounded 0 = throwP fuel_exhausted"
| "AcceptIt_bounded (Suc n) =
     bindP Parser_AcceptIt (\<lambda>t. thenP (post_process_directives n) (returnP t))"
| "post_process_directives 0 = ifP (Is Tok_Directive) (throwP fuel_exhausted) (returnP ())"
| "post_process_directives (Suc n) =
     ifP (Is Tok_Directive)
       (bindP (AcceptIt_bounded n) (\<lambda>d.
        thenP (ProcessDirective (tok_spell d)) (post_process_directives n)))
       (returnP ())"

definition AcceptIt :: "('r, Token) parser" where
  "AcceptIt = (\<lambda>st. AcceptIt_bounded (2 * length (scanner_source st) + 4) st)"

definition Accept :: "Tokens \<Rightarrow> ('r, Token) parser" where
  "Accept t = ifP (Is t) AcceptIt (ErrorUnexpected_Tokens t)"

definition Accept_spell :: "Tokens \<Rightarrow> string \<Rightarrow> ('r, Token) parser" where
  "Accept_spell t s = ifP (Is_spell t s) AcceptIt (ErrorUnexpected_Tokens t)"

definition OpenScope :: "('r, unit) parser" where
  "OpenScope = modifyP (\<lambda>st. st\<lparr>typeNameSymbolTable := [] # typeNameSymbolTable st\<rparr>)"

definition CloseScope :: "('r, unit) parser" where
  "CloseScope = modifyP (\<lambda>st. st\<lparr>typeNameSymbolTable := tl (typeNameSymbolTable st)\<rparr>)"

definition RegisterTypeName :: "string \<Rightarrow> ('r, unit) parser" where
  "RegisterTypeName ident =
     modifyP (\<lambda>st. st\<lparr>typeNameSymbolTable :=
        (case typeNameSymbolTable st of
           [] \<Rightarrow> []
         | scope # outer \<Rightarrow> (ident # scope) # outer)\<rparr>)"

definition IsRegisteredTypeName :: "string \<Rightarrow> 'r Parser \<Rightarrow> bool" where
  "IsRegisteredTypeName ident st \<longleftrightarrow> ident \<in> set (concat (typeNameSymbolTable st))"

subsection \<open>Helpers of the HLSL parser\<close>

definition Semi :: "('r, unit) parser" where
  "Semi = thenP (Accept Tok_Semicolon) (returnP ())"

definition IsBaseDataType :: "'r Parser \<Rightarrow> bool" where
  "IsBaseDataType st \<longleftrightarrow>
     Is Tok_ScalarType st \<or> Is Tok_VectorType st \<or> Is Tok_MatrixType st \<or> Is Tok_StringType st"

definition IsDataType :: "'r Parser \<Rightarrow> bool" where
  "IsDataType st \<longleftrightarrow>
     IsBaseDataType st \<or> Is Tok_Vector st \<or> Is Tok_Matrix st \<or>
     Is Tok_Texture st \<or> Is Tok_Sampler st \<or> Is Tok_SamplerState st"

definition IsLiteral :: "'r Parser \<Rightarrow> bool" where
  "IsLiteral st \<longleftrightarrow>
     Is Tok_BoolLiteral st \<or> Is Tok_IntLiteral st \<or> Is Tok_FloatLiteral st \<or> Is Tok_StringLiteral st"

definition IsArithmeticUnaryExpr :: "'r Parser \<Rightarrow> bool" where
  "IsArithmeticUnaryExpr st \<longleftrightarrow> Is_spell Tok_BinaryOp ''-'' st \<or> Is_spell Tok_BinaryOp ''+'' st"

definition MakeToTypeNameIfLhsOfCastExpr :: "Expr \<Rightarrow> 'r Parser \<Rightarrow> Expr option" where
  "MakeToTypeNameIfLhsOfCastExpr expr st =
     (case expr of
        TypeNameExpr t \<Rightarrow> Some expr
      | VarAccessExpr varIdent op assignExpr \<Rightarrow>
          if var_next varIdent = None \<and> IsRegisteredTypeName (var_ident varIdent) st
          then Some (TypeNameExpr (AliasTypeDenoter (var_ident varIdent)))
          else None
      | _ \<Rightarrow> None)"

definition ParseIdent :: "('r, string) parser" where
  "ParseIdent = bindP (Accept Tok_Ident) (\<lambda>t. returnP (tok_spell t))"

subsection \<open>Type denoters without sub-expressions\<close>

definition ParseDataType :: "string \<Rightarrow> ('r, DataType) parser" where
  "ParseDataType keyword =
     (case HLSLKeywordToDataType keyword of
        Inr t \<Rightarrow> returnP t
      | Inl (invalid_argument msg) \<Rightarrow> Error msg
      | Inl (runtime_error msg) \<Rightarrow> Error msg
      | Inl e \<Rightarrow> throwP e)"

definition ParseSamplerType :: "('r, string) parser" where
  "ParseSamplerType =
     ifP (\<lambda>st. Is Tok_Sampler st \<or> Is Tok_SamplerState st)
       (bindP AcceptIt (\<lambda>t. returnP (tok_spell t)))
       (ErrorUnexpected ''expected sampler type denoter or sampler state'')"

definition ParseVoidTypeDenoter :: "('r, TypeDenoter) parser" where
  "ParseVoidTypeDenoter = thenP (Accept Tok_Void) (returnP VoidTypeDenoter)"

definition ParseBaseTypeDenoter :: "('r, TypeDenoter) parser" where
  "ParseBaseTypeDenoter =
     ifP IsBaseDataType
       (bindP AcceptIt (\<lambda>t.
        bindP (ParseDataType (tok_spell t)) (\<lambda>dataType.
        returnP (BaseTypeDenoter dataType))))
       (ErrorUnexpected ''expected base type denoter'')"

definition ParseTextureTypeDenoter :: "('r, TypeDenoter) parser" where
  "ParseTextureTypeDenoter =
     bindP (Accept Tok_Texture) (\<lambda>t.
     bindP (getP keyword_tables) (\<lambda>k.
     bindP (liftE (HLSLKeywordToBufferType k (tok_spell t))) (\<lambda>textureType.
     returnP (TextureTypeDenoter textureType))))"

definition ParseSamplerTypeDenoter :: "('r, TypeDenoter) parser" where
  "ParseSamplerTypeDenoter = thenP ParseSamplerType (returnP SamplerTypeDenoter)"

definition ParseStructTypeDenoter :: "('r, TypeDenoter) parser" where
  "ParseStructTypeDenoter =
     thenP (whenP (Is Tok_Struct) AcceptIt)
       (bindP ParseIdent (\<lambda>ident. returnP (StructTypeDenoter ident False)))"

definition ParseAliasTypeDenoter :: "string \<Rightarrow> ('r, TypeDenoter) parser" where
  "ParseAliasTypeDenoter ident =
     bindP (if ident = [] then ParseIdent else returnP ident) (\<lambda>ident1.
     returnP (AliasTypeDenoter ident1))"

definition ParseLiteralExpr :: "('r, Expr) parser" where
  "ParseLiteralExpr =
     ifP IsLiteral
       (bindP Tkn (\<lambda>t.
        bindP AcceptIt (\<lambda>accepted.
        returnP (LiteralExpr (TokenToDataType t) (tok_spell accepted)))))
       (ErrorUnexpected ''expected literal expression'')"

text \<open>What \<^verbatim>\<open>ParseAndEvaluateConstExpr\<close> does with the parsed expression: it evaluates it
  with a callback that throws the variable access, turns a \<^verbatim>\<open>std::exception\<close> into an error
  with its message, and a thrown variable access into the error that a constant expression was
  expected.\<close>

definition evaluate_constant :: "Expr \<Rightarrow> ('r, 'r Variant) parser" where
  "evaluate_constant expr =
     bindP (getP arithmetic) (\<lambda>ops.
     case EvaluateExpr ops expr (Some (\<lambda>a. Inl thrown_VarAccessExpr)) of
       Inr v \<Rightarrow> returnP v
     | Inl (runtime_error msg) \<Rightarrow> Error msg
     | Inl (invalid_argument msg) \<Rightarrow> Error msg
     | Inl (ASTRuntimeError msg) \<Rightarrow> Error msg
     | Inl thrown_VarAccessExpr \<Rightarrow> Error ''expected constant expression''
     | Inl e \<Rightarrow> throwP e)"

subsection \<open>Expressions\<close>

text \<open>The functions that parse expressions call one another; the first argument bounds the
  depth of the calls and the number of turns of the loops, and a run that reaches the bound
  ends with \<open>fuel_exhausted\<close>. The arguments that the source leaves to their defaults are
  written out: \<^verbatim>\<open>ParseExpr\<close> allows no comma and has no initial expression,
  \<^verbatim>\<open>ParseArrayDimensionList\<close> allows no dynamic dimension, \<^verbatim>\<open>ParseTypeDenoter\<close> allows
  \<^verbatim>\<open>void\<close>.

  Modelled from the spec: \<^verbatim>\<open>ParseGenericExpr\<close> belongs to the base class and is not among
  the sources. Here it parses a primary expression, then any number of binary operators each
  followed by a primary expression, grouped from the left (the precedence of the operators
  is not represented), where \<^verbatim>\<open><\<close> and \<^verbatim>\<open>>\<close> are no binary operators inside a template,
  and then an optional ternary expression.\<close>

fun ParseExpr :: "nat \<Rightarrow> bool \<Rightarrow> Expr option \<Rightarrow> ('r, Expr) parser"
  and ParseGenericExpr :: "nat \<Rightarrow> ('r, Expr) parser"
  and ParseBinaryOperations :: "nat \<Rightarrow> Expr \<Rightarrow> ('r, Expr) parser"
  and ParsePrimaryExpr :: "nat \<Rightarrow> ('r, Expr) parser"
  and ParseLiteralOrSuffixExpr :: "nat \<Rightarrow> ('r, Expr) parser"
  and ParseTypeNameOrFunctionCallExpr :: "nat \<Rightarrow> ('r, Expr) parser"
  and ParseUnaryExpr :: "nat \<Rightarrow> ('r, Expr) parser"
  and ParseBracketOrCastExpr :: "nat \<Rightarrow> ('r, Expr) parser"
  and ParseSuffixExpr :: "nat \<Rightarrow> Expr \<Rightarrow> ('r, Expr) parser"
  and ParseArrayAccessExpr :: "nat \<Rightarrow> Expr \<Rightarrow> ('r, Expr) parser"
  and ParseVarAccessOrFunctionCallExpr :: "nat \<Rightarrow> ('r, Expr) parser"
  and ParseVarAccessExpr :: "nat \<Rightarrow> VarIdent option \<Rightarrow> ('r, Expr) parser"
  and ParseFunctionCallExpr :: "nat \<Rightarrow> VarIdent option \<Rightarrow> TypeDenoter option \<Rightarrow> ('r, Expr) parser"
  and ParseFunctionCall_VarIdent :: "nat \<Rightarrow> VarIdent option \<Rightarrow> ('r, FunctionCall) parser"
  and ParseFunctionCall_TypeDenoter :: "nat \<Rightarrow> TypeDenoter \<Rightarrow> ('r, FunctionCall) parser"
  and ParseInitializerExpr :: "nat \<Rightarrow> ('r, Expr) parser"
  and ParseVarIdent :: "nat \<Rightarrow> ('r, VarIdent) parser"
  and ParseArrayDimension :: "nat \<Rightarrow> bool \<Rightarrow> ('r, Expr) parser"
  and ParseArrayDimensionList :: "nat \<Rightarrow> bool \<Rightarrow> ('r, Expr list) parser"
  and ParseExprList :: "nat \<Rightarrow> Tokens \<Rightarrow> bool \<Rightarrow> ('r, Expr list) parser"
  and ParseExprList_loop :: "nat \<Rightarrow> Tokens \<Rightarrow> bool \<Rightarrow> ('r, Expr list) parser"
  and ParseArgumentList :: "nat \<Rightarrow> ('r, Expr list) parser"
  and ParseInitializerList :: "nat \<Rightarrow> ('r, Expr list) parser"
  and ParseTypeDenoter :: "nat \<Rightarrow> bool \<Rightarrow> ('r, TypeDenoter) parser"
  and ParseTypeDenoterPrimary :: "nat \<Rightarrow> ('r, TypeDenoter) parser"
  and ParseBaseVectorTypeDenoter :: "nat \<Rightarrow> ('r, TypeDenoter) parser"
  and ParseBaseMatrixTypeDenoter :: "nat \<Rightarrow> ('r, TypeDenoter) parser"
  and ParseAndEvaluateConstExpr :: "nat \<Rightarrow> ('r, 'r Variant) parser"
  and ParseAndEvaluateConstExprInt :: "nat \<Rightarrow> ('r, int) parser"
  and ParseAndEvaluateVectorDimension :: "nat \<Rightarrow> ('r, int) parser"
where
  "ParseExpr 0 = (\<lambda>allowComma initExpr. throwP fuel_exhausted)"
| "ParseExpr (Suc n) =
     (\<lambda>allowComma initExpr.
     bindP (case initExpr of Some e \<Rightarrow> returnP e | None \<Rightarrow> ParseGenericExpr n) (\<lambda>ast.
     bindP (ifP (Is Tok_UnaryOp)
              (bindP AcceptIt (\<lambda>t.
               bindP (liftE (StringToUnaryOp (tok_spell t))) (\<lambda>op.
               returnP (PostUnaryExpr ast op))))
              (returnP ast)) (\<lambda>ast1.
     ifP (\<lambda>st. allowComma \<and> Is Tok_Comma st)
       (thenP AcceptIt
          (bindP (ParseExpr n True None) (\<lambda>nextExpr.
           returnP (ListExpr ast1 nextExpr))))
       (returnP ast1))))"
| "ParseGenericExpr 0 = throwP fuel_exhausted"
| "ParseGenericExpr (Suc n) =
     bindP (ParsePrimaryExpr n) (\<lambda>lhs.
     bindP (ParseBinaryOperations n lhs) (\<lambda>ast.
     ifP (Is Tok_TernaryOp)
       (thenP AcceptIt
          (bindP (ParseExpr n False None) (\<lambda>thenExpr.
           thenP (Accept Tok_Colon)
          (bindP (ParseExpr n False None) (\<lambda>elseExpr.
           returnP (TernaryExpr ast thenExpr elseExpr))))))
       (returnP ast)))"
| "ParseBinaryOperations 0 = (\<lambda>lhs. throwP fuel_exhausted)"
| "ParseBinaryOperations (Suc n) =
     (\<lambda>lhs.
     ifP (\<lambda>st. Is Tok_BinaryOp st \<and>
                \<not> (ActiveParsingState st \<and> (tok_spell (tkn st) = ''<'' \<or> tok_spell (tkn st) = ''>'')))
       (bindP AcceptIt (\<lambda>t.
        bindP (liftE (StringToBinaryOp (tok_spell t))) (\<lambda>op.
        bindP (ParsePrimaryExpr n) (\<lambda>rhs.
        ParseBinaryOperations n (BinaryExpr lhs op rhs)))))
       (returnP lhs))"
| "ParsePrimaryExpr 0 = throwP fuel_exhausted"
| "ParsePrimaryExpr (Suc n) =
     ifP IsLiteral (ParseLiteralOrSuffixExpr n)
    (ifP (\<lambda>st. IsDataType st \<or> Is Tok_Struct st) (ParseTypeNameOrFunctionCallExpr n)
    (ifP (\<lambda>st. Is Tok_UnaryOp st \<or> IsArithmeticUnaryExpr st) (ParseUnaryExpr n)
    (ifP (Is Tok_LBracket) (ParseBracketOrCastExpr n)
    (ifP (Is Tok_LCurly) (ParseInitializerExpr n)
    (ifP (Is Tok_Ident) (ParseVarAccessOrFunctionCallExpr n)
    (ErrorUnexpected ''expected primary expression''))))))"
| "ParseLiteralOrSuffixExpr 0 = throwP fuel_exhausted"
| "ParseLiteralOrSuffixExpr (Suc n) =
     bindP ParseLiteralExpr (\<lambda>expr.
     ifP (Is Tok_Dot) (ParseSuffixExpr n expr) (returnP expr))"
| "ParseTypeNameOrFunctionCallExpr 0 = throwP fuel_exhausted"
| "ParseTypeNameOrFunctionCallExpr (Suc n) =
     ifP (\<lambda>st. \<not> IsDataType st \<and> \<not> Is Tok_Struct st)
       (ErrorUnexpected ''expected type name or function call expression'')
       (bindP (ParseTypeDenoter n True) (\<lambda>typeDenoter.
        ifP (Is Tok_LBracket)
          (ParseFunctionCallExpr n None (Some typeDenoter))
          (returnP (TypeNameExpr typeDenoter))))"
| "ParseUnaryExpr 0 = throwP fuel_exhausted"
| "ParseUnaryExpr (Suc n) =
     ifP (\<lambda>st. \<not> Is Tok_UnaryOp st \<and> \<not> IsArithmeticUnaryExpr st)
       (ErrorUnexpected ''expected unary expression operator'')
       (bindP AcceptIt (\<lambda>t.
        bindP (liftE (StringToUnaryOp (tok_spell t))) (\<lambda>op.
        bindP (ParsePrimaryExpr n) (\<lambda>expr.
        returnP (UnaryExpr op expr)))))"
| "ParseBracketOrCastExpr 0 = throwP fuel_exhausted"
| "ParseBracketOrCastExpr (Suc n) =
     thenP (Accept Tok_LBracket)
    (bindP (ifP ActiveParsingState
              (thenP (PushParsingState False)
                 (bindP (ParseExpr n True None) (\<lambda>expr.
                  thenP PopParsingState (returnP expr))))
              (ParseExpr n True None)) (\<lambda>expr.
     thenP (Accept Tok_RBracket)
    (bindP (getP (MakeToTypeNameIfLhsOfCastExpr expr)) (\<lambda>typeNameExpr.
     case typeNameExpr of
       Some typeExpr \<Rightarrow>
         bindP (ParsePrimaryExpr n) (\<lambda>operand. returnP (CastExpr typeExpr operand))
     | None \<Rightarrow>
         bindP (ifP (Is Tok_LParen)
                  (ParseArrayAccessExpr n (BracketExpr expr))
                  (returnP (BracketExpr expr))) (\<lambda>expr1.
         ifP (Is Tok_Dot) (ParseSuffixExpr n expr1) (returnP expr1))))))"
| "ParseSuffixExpr 0 = (\<lambda>expr. throwP fuel_exhausted)"
| "ParseSuffixExpr (Suc n) =
     (\<lambda>expr.
     thenP (Accept Tok_Dot)
    (bindP (ParseVarIdent n) (\<lambda>varIdent. returnP (SuffixExpr expr varIdent))))"
| "ParseArrayAccessExpr 0 = (\<lambda>expr. throwP fuel_exhausted)"
| "ParseArrayAccessExpr (Suc n) =
     (\<lambda>expr.
     bindP (ParseArrayDimensionList n False) (\<lambda>indices. returnP (ArrayAccessExpr expr indices)))"
| "ParseVarAccessOrFunctionCallExpr 0 = throwP fuel_exhausted"
| "ParseVarAccessOrFunctionCallExpr (Suc n) =
     bindP (ParseVarIdent n) (\<lambda>varIdent.
     ifP (Is Tok_LBracket)
       (ParseFunctionCallExpr n (Some varIdent) None)
       (ParseVarAccessExpr n (Some varIdent)))"
| "ParseVarAccessExpr 0 = (\<lambda>varIdent. throwP fuel_exhausted)"
| "ParseVarAccessExpr (Suc n) =
     (\<lambda>varIdent.
     bindP (case varIdent of Some v \<Rightarrow> returnP v | None \<Rightarrow> ParseVarIdent n) (\<lambda>v.
     ifP (Is Tok_AssignOp)
       (bindP AcceptIt (\<lambda>t.
        bindP (liftE (StringToAssignOp (tok_spell t))) (\<lambda>op.
        bindP (ParseExpr n False None) (\<lambda>assignExpr.
        returnP (VarAccessExpr v op (Some assignExpr))))))
       (returnP (VarAccessExpr v AssignOp_Undefined None))))"
| "ParseFunctionCallExpr 0 = (\<lambda>varIdent typeDenoter. throwP fuel_exhausted)"
| "ParseFunctionCallExpr (Suc n) =
     (\<lambda>varIdent typeDenoter.
     bindP (case typeDenoter of
              Some t \<Rightarrow> ParseFunctionCall_TypeDenoter n t
            | None \<Rightarrow> ParseFunctionCall_VarIdent n varIdent) (\<lambda>call.
     bindP (ifP (Is Tok_LParen)
              (ParseArrayAccessExpr n (FunctionCallExpr call))
              (returnP (FunctionCallExpr call))) (\<lambda>expr.
     ifP (Is Tok_Dot) (ParseSuffixExpr n expr) (returnP expr))))"
| "ParseFunctionCall_VarIdent 0 = (\<lambda>varIdent. throwP fuel_exhausted)"
| "ParseFunctionCall_VarIdent (Suc n) =
     (\<lambda>varIdent.
     bindP (case varIdent of
              Some v \<Rightarrow> returnP v
            | None \<Rightarrow>
                ifP IsDataType
                  (bindP AcceptIt (\<lambda>t. returnP (VarIdent (tok_spell t) [] None)))
                  (ParseVarIdent n)) (\<lambda>v.
     bindP (ParseArgumentList n) (\<lambda>args.
     returnP (FunctionCall (Some v) None args))))"
| "ParseFunctionCall_TypeDenoter 0 = (\<lambda>typeDenoter. throwP fuel_exhausted)"
| "ParseFunctionCall_TypeDenoter (Suc n) =
     (\<lambda>typeDenoter.
     bindP (ParseArgumentList n) (\<lambda>args.
     returnP (FunctionCall None (Some typeDenoter) args)))"
| "ParseInitializerExpr 0 = throwP fuel_exhausted"
| "ParseInitializerExpr (Suc n) =
     bindP (ParseInitializerList n) (\<lambda>exprs. returnP (InitializerExpr exprs))"
| "ParseVarIdent 0 = throwP fuel_exhausted"
| "ParseVarIdent (Suc n) =
     bindP ParseIdent (\<lambda>ident.
     bindP (ParseArrayDimensionList n False) (\<lambda>indices.
     ifP (Is Tok_Dot)
       (thenP AcceptIt
          (bindP (ParseVarIdent n) (\<lambda>nextIdent.
           returnP (VarIdent ident indices (Some nextIdent)))))
       (returnP (VarIdent ident indices None))))"
| "ParseArrayDimension 0 = (\<lambda>allowDynamicDimension. throwP fuel_exhausted)"
| "ParseArrayDimension (Suc n) =
     (\<lambda>allowDynamicDimension.
     thenP (Accept Tok_LParen)
    (bindP (ifP (Is Tok_RParen)
              (if \<not> allowDynamicDimension
               then Error ''explicit array dimension expected''
               else returnP NullExpr)
              (ParseExpr n False None)) (\<lambda>ast.
     thenP (Accept Tok_RParen) (returnP ast))))"
| "ParseArrayDimensionList 0 = (\<lambda>allowDynamicDimension. throwP fuel_exhausted)"
| "ParseArrayDimensionList (Suc n) =
     (\<lambda>allowDynamicDimension.
     ifP (Is Tok_LParen)
       (bindP (ParseArrayDimension n allowDynamicDimension) (\<lambda>dim.
        bindP (ParseArrayDimensionList n allowDynamicDimension) (\<lambda>dims.
        returnP (dim # dims))))
       (returnP []))"
| "ParseExprList 0 = (\<lambda>listTerminatorToken allowLastComma. throwP fuel_exhausted)"
| "ParseExprList (Suc n) =
     (\<lambda>listTerminatorToken allowLastComma.
     ifP (\<lambda>st. \<not> Is listTerminatorToken st)
       (ParseExprList_loop n listTerminatorToken allowLastComma)
       (returnP []))"
| "ParseExprList_loop 0 = (\<lambda>listTerminatorToken allowLastComma. throwP fuel_exhausted)"
| "ParseExprList_loop (Suc n) =
     (\<lambda>listTerminatorToken allowLastComma.
     bindP (ParseExpr n False None) (\<lambda>e.
     ifP (Is Tok_Comma)
       (thenP AcceptIt
          (ifP (\<lambda>st. allowLastComma \<and> Is listTerminatorToken st)
             (returnP [e])
             (bindP (ParseExprList_loop n listTerminatorToken allowLastComma) (\<lambda>es.
              returnP (e # es)))))
       (returnP [e])))"
| "ParseArgumentList 0 = throwP fuel_exhausted"
| "ParseArgumentList (Suc n) =
     thenP (Accept Tok_LBracket)
    (bindP (ParseExprList n Tok_RBracket False) (\<lambda>exprs.
     thenP (Accept Tok_RBracket) (returnP exprs)))"
| "ParseInitializerList 0 = throwP fuel_exhausted"
| "ParseInitializerList (Suc n) =
     thenP (Accept Tok_LCurly)
    (bindP (ParseExprList n Tok_RCurly True) (\<lambda>exprs.
     thenP (Accept Tok_RCurly) (returnP exprs)))"
| "ParseTypeDenoter 0 = (\<lambda>allowVoidType. throwP fuel_exhausted)"
| "ParseTypeDenoter (Suc n) =
     (\<lambda>allowVoidType.
     ifP (Is Tok_Void)
       (if allowVoidType then ParseVoidTypeDenoter
        else Error ([CHR 0x27] @ ''void'' @ [CHR 0x27] @ '' type not allowed in this context''))
       (bindP (ParseTypeDenoterPrimary n) (\<lambda>typeDenoter.
        ifP (Is Tok_LParen)
          (bindP (ParseArrayDimensionList n False) (\<lambda>arrayDims.
           returnP (ArrayTypeDenoter typeDenoter arrayDims)))
          (returnP typeDenoter))))"
| "ParseTypeDenoterPrimary 0 = throwP fuel_exhausted"
| "ParseTypeDenoterPrimary (Suc n) =
     ifP IsBaseDataType ParseBaseTypeDenoter
    (ifP (Is Tok_Vector) (ParseBaseVectorTypeDenoter n)
    (ifP (Is Tok_Matrix) (ParseBaseMatrixTypeDenoter n)
    (ifP (Is Tok_Ident) (ParseAliasTypeDenoter [])
    (ifP (Is Tok_Struct) ParseStructTypeDenoter
    (ifP (Is Tok_Texture) ParseTextureTypeDenoter
    (ifP (\<lambda>st. Is Tok_Sampler st \<or> Is Tok_SamplerState st) ParseSamplerTypeDenoter
    (ErrorUnexpected ''expected type denoter'')))))))"
| "ParseBaseVectorTypeDenoter 0 = throwP fuel_exhausted"
| "ParseBaseVectorTypeDenoter (Suc n) =
     thenP (Accept Tok_Vector)
    (bindP (ifP (Is_spell Tok_BinaryOp ''<'')
              (thenP AcceptIt
              (thenP (PushParsingState True)
              (bindP (Accept Tok_ScalarType) (\<lambda>t.
               thenP (Accept Tok_Comma)
              (bindP (ParseAndEvaluateVectorDimension n) (\<lambda>dim.
               thenP PopParsingState
              (thenP (Accept_spell Tok_BinaryOp ''>'')
              (returnP (tok_spell t @ to_string dim)))))))))
              (returnP ''float4'')) (\<lambda>vectorType.
     bindP (ParseDataType vectorType) (\<lambda>dataType.
     returnP (BaseTypeDenoter dataType))))"
| "ParseBaseMatrixTypeDenoter 0 = throwP fuel_exhausted"
| "ParseBaseMatrixTypeDenoter (Suc n) =
     thenP (Accept Tok_Matrix)
    (bindP (ifP (Is_spell Tok_BinaryOp ''<'')
              (thenP AcceptIt
              (thenP (PushParsingState True)
              (bindP (Accept Tok_ScalarType) (\<lambda>t.
               thenP (Accept Tok_Comma)
              (bindP (ParseAndEvaluateVectorDimension n) (\<lambda>dimM.
               thenP (Accept Tok_Comma)
              (bindP (ParseAndEvaluateVectorDimension n) (\<lambda>dimN.
               thenP PopParsingState
              (thenP (Accept_spell Tok_BinaryOp ''>'')
              (returnP (tok_spell t @ to_string dimM @ ''x'' @ to_string dimN)))))))))))
              (returnP ''float4x4'')) (\<lambda>matrixType.
     bindP (ParseDataType matrixType) (\<lambda>dataType.
     returnP (BaseTypeDenoter dataType))))"
| "ParseAndEvaluateConstExpr 0 = throwP fuel_exhausted"
| "ParseAndEvaluateConstExpr (Suc n) =
     bindP (ParseExpr n False None) (\<lambda>expr. evaluate_constant expr)"
| "ParseAndEvaluateConstExprInt 0 = throwP fuel_exhausted"
| "ParseAndEvaluateConstExprInt (Suc n) =
     bindP (ParseAndEvaluateConstExpr n) (\<lambda>v.
     case v of
       Variant_Int i \<Rightarrow> returnP (sint (ucast i :: 32 word))
     | _ \<Rightarrow> Error ''expected integral constant expression'')"
| "ParseAndEvaluateVectorDimension 0 = throwP fuel_exhausted"
| "ParseAndEvaluateVectorDimension (Suc n) =
     bindP (ParseAndEvaluateConstExprInt n) (\<lambda>v.
     if v < 1 \<or> v > 4
     then Error ''vector and matrix dimensions must be between 1 and 4''
     else returnP v)"

subsection \<open>Declarations and statements of the syntax tree\<close>

text \<open>The nodes for declarations and statements, with the fields that \<^verbatim>\<open>Visitor.cpp\<close> walks and
  the parser fills in. The comment of a statement, the source areas and the references from a
  declaration back to its statement are not represented. A code block is its list of
  statements.\<close>

datatype PackOffset = PackOffset string string

datatype Attribute = Attribute string "Expr list"

datatype SamplerValue = SamplerValue string Expr

datatype AliasDecl = AliasDecl string TypeDenoter

datatype TextureDecl = TextureDecl string "Expr list" "Register list"

datatype SamplerDecl = SamplerDecl string "Expr list" "Register list" string "SamplerValue list"

datatype VarDeclStmnt =
    VarDeclStmnt (stmnt_inputModifier: string) (stmnt_storageClasses: "StorageClass list")
      (stmnt_typeModifiers: "string list") (stmnt_varType: VarType) (stmnt_varDecls: "VarDecl list")
and VarType = VarType (type_denoter: TypeDenoter) (type_structDecl: "StructDecl option")
and VarDecl =
    VarDecl (decl_ident: string) (decl_arrayDims: "Expr list") (decl_semantic: IndexedSemantic)
      (decl_packOffset: "PackOffset option") (decl_annotations: "VarDeclStmnt list")
      (decl_initializer: "Expr option")
and StructDecl =
    StructDecl (struct_ident: string) (struct_baseStructName: string) (struct_members: "VarDeclStmnt list")

datatype Stmnt =
    NullStmnt
  | CodeBlockStmnt "Stmnt list"
  | ForLoopStmnt "Attribute list" Stmnt "Expr option" "Expr option" Stmnt
  | WhileLoopStmnt "Attribute list" Expr Stmnt
  | DoWhileLoopStmnt "Attribute list" Stmnt Expr
  | IfStmnt "Attribute list" Expr Stmnt "Stmnt option"
  | ElseStmnt Stmnt
  | SwitchStmnt "Attribute list" Expr "SwitchCase list"
  | ExprStmnt Expr
  | ReturnStmnt "Expr option"
  | CtrlTransferStmnt CtrlTransfer
  | VarDeclStatement VarDeclStmnt
  | StructDeclStmnt StructDecl
  | AliasDeclStmnt "StructDecl option" "AliasDecl list"
  | SamplerDeclStmnt string "SamplerDecl list"
  | TextureDeclStmnt BufferType "DataType option" "int option" "TextureDecl list"
  | BufferDeclStmnt UniformBufferType string "Register list" "VarDeclStmnt list"
  | FunctionDecl "Attribute list" VarType string "VarDeclStmnt list" IndexedSemantic
      "VarDeclStmnt list" "Stmnt list option"
and SwitchCase = SwitchCase "Expr option" "Stmnt list"

subsection \<open>Registers, pack offsets and semantics\<close>

definition HLSLShaderProfileToTarget :: "string \<Rightarrow> ShaderTarget" where
  "HLSLShaderProfileToTarget s =
     (if length s \<ge> 2
      then (let p = take 2 s
            in if p = ''vs'' then VertexShader
               else if p = ''hs'' then TessellationControlShader
               else if p = ''ds'' then TessellationEvaluationShader
               else if p = ''gs'' then GeometryShader
               else if p = ''ps'' then FragmentShader
               else if p = ''cs'' then ComputeShader
               else Target_Undefined)
      else Target_Undefined)"

text \<open>The handlers \<^verbatim>\<open>catch (const std::exception& e) { Error(e.what()); }\<close>: a standard
  exception becomes an error of the parser with its message; a thrown report passes.\<close>

definition catch_std_exception :: "('r, 'a) parser \<Rightarrow> ('r, 'a) parser" where
  "catch_std_exception p =
     (\<lambda>st. case p st of
             (Inl (runtime_error msg), st1) \<Rightarrow> Error msg st1
           | (Inl (invalid_argument msg), st1) \<Rightarrow> Error msg st1
           | (Inl (ASTRuntimeError msg), st1) \<Rightarrow> Error msg st1
           | r \<Rightarrow> r)"

text \<open>\<^verbatim>\<open>ParseRegister\<close>. The identifier is not empty, being the spelling of a token; of an
  empty one the model takes the character 0 where the source reads past the end.\<close>

definition ParseRegister :: "bool \<Rightarrow> ('r, Register) parser" where
  "ParseRegister parseColon =
     thenP (if parseColon then thenP (Accept Tok_Colon) (returnP ()) else returnP ())
    (thenP (Accept Tok_Register)
    (thenP (Accept Tok_LBracket)
    (bindP ParseIdent (\<lambda>typeIdent0.
     bindP (ifP (Is Tok_Comma)
              (thenP AcceptIt
                 (bindP ParseIdent (\<lambda>typeIdent. returnP (HLSLShaderProfileToTarget typeIdent0, typeIdent))))
              (returnP (Target_Undefined, typeIdent0))) (\<lambda>(target, typeIdent).
     let rt = CharToRegisterType (case typeIdent of [] \<Rightarrow> CHR 0x00 | c # cs \<Rightarrow> c);
         slot0 = FromString_int (drop 1 typeIdent)
     in thenP (if rt = RegisterType_Undefined
               then Warning (''unknown slot register: '' @ [CHR 0x27] @ take 1 typeIdent @ [CHR 0x27])
               else returnP ())
       (bindP (ifP (Is Tok_LParen)
                 (thenP AcceptIt
                    (bindP (Accept Tok_IntLiteral) (\<lambda>subComponent.
                     thenP (Accept Tok_RParen)
                       (returnP (slot0 + FromString_int (tok_spell subComponent))))))
                 (returnP slot0)) (\<lambda>slot1.
        thenP (Accept Tok_RBracket)
          (returnP \<lparr>shaderTarget = target, registerType = rt, slot = slot1\<rparr>))))))))"

definition ParsePackOffset :: "bool \<Rightarrow> ('r, PackOffset) parser" where
  "ParsePackOffset parseColon =
     thenP (if parseColon then thenP (Accept Tok_Colon) (returnP ()) else returnP ())
    (thenP (Accept Tok_PackOffset)
    (thenP (Accept Tok_LBracket)
    (bindP ParseIdent (\<lambda>registerName.
     bindP (ifP (Is Tok_Dot) (thenP AcceptIt ParseIdent) (returnP [])) (\<lambda>vectorComponent.
     thenP (Accept Tok_RBracket)
       (returnP (PackOffset registerName vectorComponent)))))))"

definition ParseSemantic :: "bool \<Rightarrow> ('r, IndexedSemantic) parser" where
  "ParseSemantic parseColon =
     thenP (if parseColon then thenP (Accept Tok_Colon) (returnP ()) else returnP ())
    (bindP ParseIdent (\<lambda>ident.
     bindP (getP keyword_tables) (\<lambda>k. liftE (HLSLKeywordToSemantic k ident))))"

definition ParseStorageClass :: "('r, StorageClass) parser" where
  "ParseStorageClass =
     catch_std_exception
       (bindP (Accept Tok_StorageClass) (\<lambda>t.
        bindP (getP keyword_tables) (\<lambda>k. liftE (HLSLKeywordToStorageClass k (tok_spell t)))))"

text \<open>The loops of the parser are recursive functions on the same bound as the calls.
  \<^verbatim>\<open>ParseRegisterList\<close> is called without its argument everywhere; the default of the header,
  which is not among the sources, is taken to be \<open>true\<close>.\<close>

fun ParseRegisterList_loop :: "nat \<Rightarrow> ('r, Register list) parser" where
  "ParseRegisterList_loop 0 = throwP fuel_exhausted"
| "ParseRegisterList_loop (Suc n) =
     ifP (Is Tok_Colon)
       (bindP (ParseRegister True) (\<lambda>r.
        bindP (ParseRegisterList_loop n) (\<lambda>rs. returnP (r # rs))))
       (returnP [])"

definition ParseRegisterList :: "nat \<Rightarrow> bool \<Rightarrow> ('r, Register list) parser" where
  "ParseRegisterList n parseFirstColon =
     bindP (ifP (\<lambda>st. parseFirstColon \<and> Is Tok_Register st)
              (bindP (ParseRegister False) (\<lambda>r. returnP [r]))
              (returnP [])) (\<lambda>first.
     bindP (ParseRegisterList_loop n) (\<lambda>rs. returnP (first @ rs)))"

subsection \<open>Attributes, samplers and aliases\<close>

definition ParseInitializer :: "nat \<Rightarrow> ('r, Expr) parser" where
  "ParseInitializer n = thenP (Accept_spell Tok_AssignOp ''='') (ParseExpr n False None)"

fun ParseAttribute_arguments :: "nat \<Rightarrow> ('r, Expr list) parser" where
  "ParseAttribute_arguments 0 = throwP fuel_exhausted"
| "ParseAttribute_arguments (Suc n) =
     bindP (ParseExpr n False None) (\<lambda>e.
     ifP (Is Tok_Comma)
       (thenP AcceptIt (bindP (ParseAttribute_arguments n) (\<lambda>es. returnP (e # es))))
       (returnP [e]))"

definition ParseAttribute :: "nat \<Rightarrow> ('r, Attribute) parser" where
  "ParseAttribute n =
     thenP (Accept Tok_LParen)
    (bindP ParseIdent (\<lambda>ident.
     bindP (ifP (Is Tok_LBracket)
              (thenP AcceptIt
                 (bindP (ifP (\<lambda>st. \<not> Is Tok_RBracket st) (ParseAttribute_arguments n) (returnP []))
                    (\<lambda>arguments. thenP (Accept Tok_RBracket) (returnP arguments))))
              (returnP [])) (\<lambda>arguments.
     thenP (Accept Tok_RParen) (returnP (Attribute ident arguments)))))"

fun ParseAttributeList :: "nat \<Rightarrow> ('r, Attribute list) parser" where
  "ParseAttributeList 0 = throwP fuel_exhausted"
| "ParseAttributeList (Suc n) =
     ifP (Is Tok_LParen)
       (bindP (ParseAttribute n) (\<lambda>a.
        bindP (ParseAttributeList n) (\<lambda>as. returnP (a # as))))
       (returnP [])"

definition ParseSamplerValue :: "nat \<Rightarrow> ('r, SamplerValue) parser" where
  "ParseSamplerValue n =
     bindP ParseIdent (\<lambda>name.
     thenP (Accept_spell Tok_AssignOp ''='')
    (bindP (ParseExpr n False None) (\<lambda>v.
     thenP Semi (returnP (SamplerValue name v)))))"

fun ParseSamplerValueList :: "nat \<Rightarrow> ('r, SamplerValue list) parser" where
  "ParseSamplerValueList 0 = throwP fuel_exhausted"
| "ParseSamplerValueList (Suc n) =
     ifP (\<lambda>st. \<not> Is Tok_RCurly st)
       (bindP (ParseSamplerValue n) (\<lambda>v.
        bindP (ParseSamplerValueList n) (\<lambda>vs. returnP (v # vs))))
       (returnP [])"

definition ParseSamplerStateTextureIdent :: "('r, string) parser" where
  "ParseSamplerStateTextureIdent =
     thenP (Accept_spell Tok_Texture ''texture'')
    (thenP (Accept_spell Tok_AssignOp ''='')
    (bindP (ifP (Is Tok_LBracket)
              (thenP AcceptIt (bindP ParseIdent (\<lambda>ident. thenP (Accept Tok_RBracket) (returnP ident))))
              (ifP (Is_spell Tok_BinaryOp ''<'')
                 (thenP AcceptIt
                    (bindP ParseIdent (\<lambda>ident. thenP (Accept_spell Tok_BinaryOp ''>'') (returnP ident))))
                 (ErrorUnexpected (''expected '' @ [CHR 0x27] @ ''<'' @ [CHR 0x27] @ '' or '' @
                                   [CHR 0x27] @ ''('' @ [CHR 0x27])))) (\<lambda>ident.
     thenP Semi (returnP ident))))"

definition ParseSamplerDecl :: "nat \<Rightarrow> ('r, SamplerDecl) parser" where
  "ParseSamplerDecl n =
     bindP ParseIdent (\<lambda>ident.
     bindP (ParseArrayDimensionList n False) (\<lambda>dims.
     bindP (ParseRegisterList n True) (\<lambda>slotRegisters.
     ifP (Is_spell Tok_AssignOp ''='')
       (thenP AcceptIt
       (thenP (Accept_spell Tok_SamplerState ''sampler_state'')
       (thenP (Accept Tok_LCurly)
       (bindP ParseSamplerStateTextureIdent (\<lambda>textureIdent.
        bindP (ParseSamplerValueList n) (\<lambda>samplerValues.
        thenP (Accept Tok_RCurly)
          (returnP (SamplerDecl ident dims slotRegisters textureIdent samplerValues))))))))
       (ifP (Is Tok_LCurly)
          (thenP AcceptIt
          (bindP (ParseSamplerValueList n) (\<lambda>samplerValues.
           thenP (Accept Tok_RCurly)
             (returnP (SamplerDecl ident dims slotRegisters [] samplerValues)))))
          (returnP (SamplerDecl ident dims slotRegisters [] []))))))"

fun ParseSamplerDeclList :: "nat \<Rightarrow> ('r, SamplerDecl list) parser" where
  "ParseSamplerDeclList 0 = throwP fuel_exhausted"
| "ParseSamplerDeclList (Suc n) =
     bindP (ParseSamplerDecl n) (\<lambda>d.
     ifP (Is Tok_Comma)
       (thenP AcceptIt (bindP (ParseSamplerDeclList n) (\<lambda>ds. returnP (d # ds))))
       (returnP [d]))"

definition ParseAliasDecl :: "nat \<Rightarrow> TypeDenoter \<Rightarrow> ('r, AliasDecl) parser" where
  "ParseAliasDecl n typeDenoter =
     bindP ParseIdent (\<lambda>ident.
     thenP (RegisterTypeName ident)
    (ifP (Is Tok_LParen)
       (bindP (ParseArrayDimensionList n False) (\<lambda>dims.
        returnP (AliasDecl ident (ArrayTypeDenoter typeDenoter dims))))
       (returnP (AliasDecl ident typeDenoter))))"

fun ParseAliasDeclList :: "nat \<Rightarrow> TypeDenoter \<Rightarrow> ('r, AliasDecl list) parser" where
  "ParseAliasDeclList 0 typeDenoter = throwP fuel_exhausted"
| "ParseAliasDeclList (Suc n) typeDenoter =
     bindP (ParseAliasDecl n typeDenoter) (\<lambda>d.
     ifP (Is Tok_Comma)
       (thenP AcceptIt (bindP (ParseAliasDeclList n typeDenoter) (\<lambda>ds. returnP (d # ds))))
       (returnP [d]))"

subsection \<open>Variable and structure declarations\<close>

definition MakeVarType :: "StructDecl \<Rightarrow> VarType" where
  "MakeVarType decl = VarType (StructTypeDenoter (struct_ident decl) True) (Some decl)"

definition no_semantic :: IndexedSemantic where
  "no_semantic = \<lparr>semantic_kind = Semantic_Undefined, Index = 0\<rparr>"

text \<open>The functions that parse variable and structure declarations call one another (the
  members of a structure and the annotations of a variable are variable declaration
  statements). \<^verbatim>\<open>ParseVarDeclSemantic\<close> is given the semantic and the pack offset of the
  declaration and returns them updated; it is called without its second argument, and the
  default of the header, which is not among the sources, is taken to be \<open>true\<close>.
  \<^verbatim>\<open>ParseStructDecl\<close> is called without arguments where a structure starts with its keyword,
  so its defaults are \<open>true\<close> and no token.\<close>

fun ParseVarDeclStmnt :: "nat \<Rightarrow> ('r, VarDeclStmnt) parser"
  and ParseVarDeclStmnt_loop :: "nat \<Rightarrow> ('r, StorageClass list \<times> string list \<times> VarType) parser"
  and ParseVarDeclList :: "nat \<Rightarrow> Token option \<Rightarrow> ('r, VarDecl list) parser"
  and ParseVarDecl :: "nat \<Rightarrow> Token option \<Rightarrow> ('r, VarDecl) parser"
  and ParseVarDeclSemantic ::
        "nat \<Rightarrow> IndexedSemantic \<Rightarrow> PackOffset option \<Rightarrow> bool \<Rightarrow> ('r, IndexedSemantic \<times> PackOffset option) parser"
  and ParseAnnotationList :: "nat \<Rightarrow> ('r, VarDeclStmnt list) parser"
  and ParseAnnotationList_loop :: "nat \<Rightarrow> ('r, VarDeclStmnt list) parser"
  and ParseStructDecl :: "nat \<Rightarrow> bool \<Rightarrow> Token option \<Rightarrow> ('r, StructDecl) parser"
  and ParseVarDeclStmntList :: "nat \<Rightarrow> ('r, VarDeclStmnt list) parser"
  and ParseVarDeclStmntList_loop :: "nat \<Rightarrow> ('r, VarDeclStmnt list) parser"
where
  "ParseVarDeclStmnt 0 = throwP fuel_exhausted"
| "ParseVarDeclStmnt (Suc n) =
     bindP (ParseVarDeclStmnt_loop n) (\<lambda>(classes, modifiers, t).
     bindP (ParseVarDeclList n None) (\<lambda>decls.
     thenP Semi (returnP (VarDeclStmnt [] classes modifiers t decls))))"
| "ParseVarDeclStmnt_loop 0 = throwP fuel_exhausted"
| "ParseVarDeclStmnt_loop (Suc n) =
     ifP (Is Tok_StorageClass)
       (bindP ParseStorageClass (\<lambda>c.
        bindP (ParseVarDeclStmnt_loop n) (\<lambda>(classes, modifiers, t). returnP (c # classes, modifiers, t))))
    (ifP (Is Tok_TypeModifier)
       (bindP AcceptIt (\<lambda>modifier.
        bindP (ParseVarDeclStmnt_loop n) (\<lambda>(classes, modifiers, t).
        returnP (classes, tok_spell modifier # modifiers, t))))
    (ifP (\<lambda>st. Is Tok_Ident st \<or> IsDataType st)
       (bindP (ParseTypeDenoter n True) (\<lambda>d. returnP ([], [], VarType d None)))
    (ifP (Is Tok_Struct)
       (bindP (ParseStructDecl n True None) (\<lambda>decl. returnP ([], [], MakeVarType decl)))
       (ErrorUnexpected []))))"
| "ParseVarDeclList 0 = (\<lambda>firstIdentTkn. throwP fuel_exhausted)"
| "ParseVarDeclList (Suc n) =
     (\<lambda>firstIdentTkn.
     bindP (ParseVarDecl n firstIdentTkn) (\<lambda>d.
     ifP (Is Tok_Comma)
       (thenP AcceptIt (bindP (ParseVarDeclList n None) (\<lambda>ds. returnP (d # ds))))
       (returnP [d])))"
| "ParseVarDecl 0 = (\<lambda>identTkn. throwP fuel_exhausted)"
| "ParseVarDecl (Suc n) =
     (\<lambda>identTkn.
     bindP (case identTkn of Some t \<Rightarrow> returnP (tok_spell t) | None \<Rightarrow> ParseIdent) (\<lambda>ident.
     bindP (ParseArrayDimensionList n True) (\<lambda>dims.
     bindP (ParseVarDeclSemantic n no_semantic None True) (\<lambda>(semantic, offset).
     bindP (ParseAnnotationList n) (\<lambda>annots.
     bindP (ifP (Is_spell Tok_AssignOp ''='')
              (bindP (ParseInitializer n) (\<lambda>e. returnP (Some e)))
              (returnP None)) (\<lambda>init.
     returnP (VarDecl ident dims semantic offset annots init)))))))"
| "ParseVarDeclSemantic 0 = (\<lambda>semantic offset allowPackOffset. throwP fuel_exhausted)"
| "ParseVarDeclSemantic (Suc n) =
     (\<lambda>semantic offset allowPackOffset.
     ifP (Is Tok_Colon)
       (thenP (Accept Tok_Colon)
       (ifP (Is Tok_Register)
          (thenP (Warning ''register is ignore for variable declarations'')
          (thenP (ParseRegister False)
                 (ParseVarDeclSemantic n semantic offset allowPackOffset)))
       (ifP (Is Tok_PackOffset)
          (bindP (ParsePackOffset False) (\<lambda>p.
           if \<not> allowPackOffset
           then Error_code ''packoffset is only allowed in a constant buffer''
                  ERR_PACK_OFFSET_IN_INVALID_SCOPE
           else ParseVarDeclSemantic n semantic (Some p) allowPackOffset))
          (bindP (ParseSemantic False) (\<lambda>s.
           ParseVarDeclSemantic n s offset allowPackOffset)))))
       (returnP (semantic, offset)))"
| "ParseAnnotationList 0 = throwP fuel_exhausted"
| "ParseAnnotationList (Suc n) =
     ifP (Is_spell Tok_BinaryOp ''<'')
       (thenP AcceptIt
       (bindP (ParseAnnotationList_loop n) (\<lambda>annots.
        thenP AcceptIt (returnP annots))))
       (returnP [])"
| "ParseAnnotationList_loop 0 = throwP fuel_exhausted"
| "ParseAnnotationList_loop (Suc n) =
     ifP (\<lambda>st. \<not> Is_spell Tok_BinaryOp ''>'' st)
       (bindP (ParseVarDeclStmnt n) (\<lambda>s.
        bindP (ParseAnnotationList_loop n) (\<lambda>ss. returnP (s # ss))))
       (returnP [])"
| "ParseStructDecl 0 = (\<lambda>parseStructTkn identTkn. throwP fuel_exhausted)"
| "ParseStructDecl (Suc n) =
     (\<lambda>parseStructTkn identTkn.
     thenP (if parseStructTkn then thenP (Accept Tok_Struct) (returnP ()) else returnP ())
    (bindP (ifP (\<lambda>st. Is Tok_Ident st \<or> identTkn \<noteq> None)
              (bindP (case identTkn of Some t \<Rightarrow> returnP (tok_spell t) | None \<Rightarrow> ParseIdent) (\<lambda>ident.
               thenP (RegisterTypeName ident)
              (bindP (ifP (Is Tok_Colon)
                        (thenP AcceptIt
                        (bindP ParseIdent (\<lambda>base.
                         if base = ident then Error ''recursive inheritance is not allowed''
                         else ifP (Is Tok_Comma) (Error ''multiple inheritance is not allowed'')
                                (returnP base))))
                        (returnP [])) (\<lambda>base.
               returnP (ident, base)))))
              (returnP ([], []))) (\<lambda>(ident, base).
     bindP (ParseVarDeclStmntList n) (\<lambda>ms.
     returnP (StructDecl ident base ms)))))"
| "ParseVarDeclStmntList 0 = throwP fuel_exhausted"
| "ParseVarDeclStmntList (Suc n) =
     thenP (Accept Tok_LCurly)
    (bindP (ParseVarDeclStmntList_loop n) (\<lambda>ms.
     thenP AcceptIt (returnP ms)))"
| "ParseVarDeclStmntList_loop 0 = throwP fuel_exhausted"
| "ParseVarDeclStmntList_loop (Suc n) =
     ifP (\<lambda>st. \<not> Is Tok_RCurly st)
       (bindP (ParseVarDeclStmnt n) (\<lambda>s.
        bindP (ParseVarDeclStmntList_loop n) (\<lambda>ss. returnP (s # ss))))
       (returnP [])"

text \<open>\<^verbatim>\<open>ParseTypeDenoterWithStructDeclOpt\<close> returns the type denoter and, through its reference
  argument, the structure declaration if there is one. It is called without its second
  argument; \<^verbatim>\<open>void\<close> functions are parsed through it, so the default allows \<^verbatim>\<open>void\<close>.\<close>

definition ParseTypeDenoterWithStructDeclOpt ::
  "nat \<Rightarrow> bool \<Rightarrow> ('r, TypeDenoter \<times> StructDecl option) parser" where
  "ParseTypeDenoterWithStructDeclOpt n allowVoidType =
     ifP (Is Tok_Struct)
       (thenP AcceptIt
       (ifP (Is Tok_LCurly)
          (bindP (ParseStructDecl n False None) (\<lambda>decl.
           returnP (StructTypeDenoter (struct_ident decl) True, Some decl)))
          (bindP (Accept Tok_Ident) (\<lambda>structIdentTkn.
           ifP (\<lambda>st. Is Tok_LCurly st \<or> Is Tok_Colon st)
             (bindP (ParseStructDecl n False (Some structIdentTkn)) (\<lambda>decl.
              returnP (StructTypeDenoter (struct_ident decl) True, Some decl)))
             (returnP (StructTypeDenoter (tok_spell structIdentTkn) False, None))))))
       (bindP (ParseTypeDenoter n allowVoidType) (\<lambda>d. returnP (d, None)))"

subsection \<open>Statements\<close>

definition ParseAliasDeclStmnt :: "nat \<Rightarrow> ('r, Stmnt) parser" where
  "ParseAliasDeclStmnt n =
     thenP (Accept Tok_Typedef)
    (bindP (ParseTypeDenoterWithStructDeclOpt n True) (\<lambda>(d, decl).
     bindP (ParseAliasDeclList n d) (\<lambda>aliasDecls.
     thenP Semi (returnP (AliasDeclStmnt decl aliasDecls)))))"

definition ParseSamplerDeclStmnt :: "nat \<Rightarrow> ('r, Stmnt) parser" where
  "ParseSamplerDeclStmnt n =
     bindP ParseSamplerType (\<lambda>samplerType.
     bindP (ParseSamplerDeclList n) (\<lambda>samplerDecls.
     thenP Semi (returnP (SamplerDeclStmnt samplerType samplerDecls))))"

definition ParseStructDeclOrVarDeclStmnt :: "nat \<Rightarrow> ('r, Stmnt) parser" where
  "ParseStructDeclOrVarDeclStmnt n =
     bindP (ParseStructDecl n True None) (\<lambda>decl.
     ifP (\<lambda>st. \<not> Is Tok_Semicolon st)
       (bindP (ParseVarDeclList n None) (\<lambda>decls.
        thenP Semi (returnP (VarDeclStatement (VarDeclStmnt [] [] [] (MakeVarType decl) decls)))))
       (thenP Semi (returnP (StructDeclStmnt decl))))"

definition ParseNullStmnt :: "('r, Stmnt) parser" where
  "ParseNullStmnt = thenP Semi (returnP NullStmnt)"

definition ParseCtrlTransferStmnt :: "('r, Stmnt) parser" where
  "ParseCtrlTransferStmnt =
     bindP (Accept Tok_CtrlTransfer) (\<lambda>t.
     bindP (liftE (StringToCtrlTransfer (tok_spell t))) (\<lambda>transfer.
     thenP Semi (returnP (CtrlTransferStmnt transfer))))"

definition ParseReturnStmnt :: "nat \<Rightarrow> ('r, Stmnt) parser" where
  "ParseReturnStmnt n =
     thenP (Accept Tok_Return)
    (bindP (ifP (\<lambda>st. \<not> Is Tok_Semicolon st)
              (bindP (ParseExpr n True None) (\<lambda>e. returnP (Some e)))
              (returnP None)) (\<lambda>e.
     thenP Semi (returnP (ReturnStmnt e))))"

definition ParseExprStmnt :: "nat \<Rightarrow> VarIdent option \<Rightarrow> ('r, Stmnt) parser" where
  "ParseExprStmnt n varIdent =
     bindP (case varIdent of
              Some v \<Rightarrow> ParseExpr n True (Some (VarAccessExpr v AssignOp_Undefined None))
            | None \<Rightarrow> ParseExpr n True None) (\<lambda>e.
     thenP Semi (returnP (ExprStmnt e)))"

definition ParseVarDeclOrAssignOrFunctionCallStmnt :: "nat \<Rightarrow> ('r, Stmnt) parser" where
  "ParseVarDeclOrAssignOrFunctionCallStmnt n =
     bindP (ParseVarIdent n) (\<lambda>varIdent.
     ifP (Is Tok_LBracket)
       (bindP (ParseFunctionCallExpr n (Some varIdent) None) (\<lambda>call.
        bindP (ParseExpr n True (Some call)) (\<lambda>e.
        thenP Semi (returnP (ExprStmnt e)))))
    (ifP (Is Tok_AssignOp)
       (bindP AcceptIt (\<lambda>t.
        bindP (liftE (StringToAssignOp (tok_spell t))) (\<lambda>op.
        bindP (ParseExpr n True None) (\<lambda>assignExpr.
        thenP Semi (returnP (ExprStmnt (VarAccessExpr varIdent op (Some assignExpr))))))))
    (ifP (\<lambda>st. Is_spell Tok_UnaryOp ''++'' st \<or> Is_spell Tok_UnaryOp ''--'' st)
       (ParseExprStmnt n (Some varIdent))
       (if var_next varIdent = None
        then bindP (ParseAliasTypeDenoter (var_ident varIdent)) (\<lambda>d.
             bindP (ParseVarDeclList n None) (\<lambda>decls.
             thenP Semi
               (returnP (VarDeclStatement (VarDeclStmnt [] [] []
                  (VarType (if var_arrayIndices varIdent \<noteq> []
                            then ArrayTypeDenoter d (var_arrayIndices varIdent) else d) None)
                  decls)))))
        else ErrorUnexpected ''expected variable declaration, assignment or function call statement''))))"

text \<open>The statements that contain statements.\<close>

fun ParseStmnt :: "nat \<Rightarrow> ('r, Stmnt) parser"
  and ParseCodeBlock :: "nat \<Rightarrow> ('r, Stmnt list) parser"
  and ParseStmntList :: "nat \<Rightarrow> ('r, Stmnt list) parser"
  and ParseCodeBlockStmnt :: "nat \<Rightarrow> ('r, Stmnt) parser"
  and ParseForLoopStmnt :: "nat \<Rightarrow> Attribute list \<Rightarrow> ('r, Stmnt) parser"
  and ParseWhileLoopStmnt :: "nat \<Rightarrow> Attribute list \<Rightarrow> ('r, Stmnt) parser"
  and ParseDoWhileLoopStmnt :: "nat \<Rightarrow> Attribute list \<Rightarrow> ('r, Stmnt) parser"
  and ParseIfStmnt :: "nat \<Rightarrow> Attribute list \<Rightarrow> ('r, Stmnt) parser"
  and ParseElseStmnt :: "nat \<Rightarrow> ('r, Stmnt) parser"
  and ParseSwitchStmnt :: "nat \<Rightarrow> Attribute list \<Rightarrow> ('r, Stmnt) parser"
  and ParseSwitchCaseList :: "nat \<Rightarrow> ('r, SwitchCase list) parser"
  and ParseSwitchCase :: "nat \<Rightarrow> ('r, SwitchCase) parser"
  and ParseSwitchCase_stmnts :: "nat \<Rightarrow> ('r, Stmnt list) parser"
where
  "ParseStmnt 0 = throwP fuel_exhausted"
| "ParseStmnt (Suc n) =
     bindP (ifP (Is Tok_LParen) (ParseAttributeList n) (returnP [])) (\<lambda>attribs.
     ifP (Is Tok_Semicolon) ParseNullStmnt
    (ifP (Is Tok_LCurly) (ParseCodeBlockStmnt n)
    (ifP (Is Tok_Return) (ParseReturnStmnt n)
    (ifP (Is Tok_Ident) (ParseVarDeclOrAssignOrFunctionCallStmnt n)
    (ifP (Is Tok_For) (ParseForLoopStmnt n attribs)
    (ifP (Is Tok_While) (ParseWhileLoopStmnt n attribs)
    (ifP (Is Tok_Do) (ParseDoWhileLoopStmnt n attribs)
    (ifP (Is Tok_If) (ParseIfStmnt n attribs)
    (ifP (Is Tok_Switch) (ParseSwitchStmnt n attribs)
    (ifP (Is Tok_CtrlTransfer) ParseCtrlTransferStmnt
    (ifP (Is Tok_Struct) (ParseStructDeclOrVarDeclStmnt n)
    (ifP (Is Tok_Typedef) (ParseAliasDeclStmnt n)
    (ifP (\<lambda>st. Is Tok_Sampler st \<or> Is Tok_SamplerState st) (ParseSamplerDeclStmnt n)
    (ifP (\<lambda>st. Is Tok_TypeModifier st \<or> Is Tok_StorageClass st \<or> IsDataType st)
       (bindP (ParseVarDeclStmnt n) (\<lambda>s. returnP (VarDeclStatement s)))
       (ParseExprStmnt n None)))))))))))))))"
| "ParseCodeBlock 0 = throwP fuel_exhausted"
| "ParseCodeBlock (Suc n) =
     thenP (Accept Tok_LCurly)
    (thenP OpenScope
    (bindP (ParseStmntList n) (\<lambda>stmnts.
     thenP CloseScope
    (thenP (Accept Tok_RCurly) (returnP stmnts)))))"
| "ParseStmntList 0 = throwP fuel_exhausted"
| "ParseStmntList (Suc n) =
     ifP (\<lambda>st. \<not> Is Tok_RCurly st)
       (bindP (ParseStmnt n) (\<lambda>s.
        bindP (ParseStmntList n) (\<lambda>ss. returnP (s # ss))))
       (returnP [])"
| "ParseCodeBlockStmnt 0 = throwP fuel_exhausted"
| "ParseCodeBlockStmnt (Suc n) = bindP (ParseCodeBlock n) (\<lambda>b. returnP (CodeBlockStmnt b))"
| "ParseForLoopStmnt 0 = (\<lambda>attribs. throwP fuel_exhausted)"
| "ParseForLoopStmnt (Suc n) =
     (\<lambda>attribs.
     thenP (Accept Tok_For)
    (thenP (Accept Tok_LBracket)
    (bindP (ParseStmnt n) (\<lambda>initSmnt.
     bindP (ifP (\<lambda>st. \<not> Is Tok_Semicolon st)
              (bindP (ParseExpr n True None) (\<lambda>e. returnP (Some e)))
              (returnP None)) (\<lambda>condition.
     thenP Semi
    (bindP (ifP (\<lambda>st. \<not> Is Tok_RBracket st)
              (bindP (ParseExpr n True None) (\<lambda>e. returnP (Some e)))
              (returnP None)) (\<lambda>iteration.
     thenP (Accept Tok_RBracket)
    (bindP (ParseStmnt n) (\<lambda>bodyStmnt.
     returnP (ForLoopStmnt attribs initSmnt condition iteration bodyStmnt))))))))))"
| "ParseWhileLoopStmnt 0 = (\<lambda>attribs. throwP fuel_exhausted)"
| "ParseWhileLoopStmnt (Suc n) =
     (\<lambda>attribs.
     thenP (Accept Tok_While)
    (thenP (Accept Tok_LBracket)
    (bindP (ParseExpr n True None) (\<lambda>condition.
     thenP (Accept Tok_RBracket)
    (bindP (ParseStmnt n) (\<lambda>bodyStmnt.
     returnP (WhileLoopStmnt attribs condition bodyStmnt)))))))"
| "ParseDoWhileLoopStmnt 0 = (\<lambda>attribs. throwP fuel_exhausted)"
| "ParseDoWhileLoopStmnt (Suc n) =
     (\<lambda>attribs.
     thenP (Accept Tok_Do)
    (bindP (ParseStmnt n) (\<lambda>bodyStmnt.
     thenP (Accept Tok_While)
    (thenP (Accept Tok_LBracket)
    (bindP (ParseExpr n True None) (\<lambda>condition.
     thenP (Accept Tok_RBracket)
    (thenP Semi
       (returnP (DoWhileLoopStmnt attribs bodyStmnt condition)))))))))"
| "ParseIfStmnt 0 = (\<lambda>attribs. throwP fuel_exhausted)"
| "ParseIfStmnt (Suc n) =
     (\<lambda>attribs.
     thenP (Accept Tok_If)
    (thenP (Accept Tok_LBracket)
    (bindP (ParseExpr n True None) (\<lambda>condition.
     thenP (Accept Tok_RBracket)
    (bindP (ParseStmnt n) (\<lambda>bodyStmnt.
     bindP (ifP (Is Tok_Else)
              (bindP (ParseElseStmnt n) (\<lambda>e. returnP (Some e)))
              (returnP None)) (\<lambda>elseStmnt.
     returnP (IfStmnt attribs condition bodyStmnt elseStmnt))))))))"
| "ParseElseStmnt 0 = throwP fuel_exhausted"
| "ParseElseStmnt (Suc n) =
     thenP (Accept Tok_Else)
    (bindP (ParseStmnt n) (\<lambda>bodyStmnt. returnP (ElseStmnt bodyStmnt)))"
| "ParseSwitchStmnt 0 = (\<lambda>attribs. throwP fuel_exhausted)"
| "ParseSwitchStmnt (Suc n) =
     (\<lambda>attribs.
     thenP (Accept Tok_Switch)
    (thenP (Accept Tok_LBracket)
    (bindP (ParseExpr n True None) (\<lambda>selector.
     thenP (Accept Tok_RBracket)
    (thenP (Accept Tok_LCurly)
    (bindP (ParseSwitchCaseList n) (\<lambda>cases.
     thenP (Accept Tok_RCurly)
       (returnP (SwitchStmnt attribs selector cases)))))))))"
| "ParseSwitchCaseList 0 = throwP fuel_exhausted"
| "ParseSwitchCaseList (Suc n) =
     ifP (\<lambda>st. Is Tok_Case st \<or> Is Tok_Default st)
       (bindP (ParseSwitchCase n) (\<lambda>c.
        bindP (ParseSwitchCaseList n) (\<lambda>cs. returnP (c # cs))))
       (returnP [])"
| "ParseSwitchCase 0 = throwP fuel_exhausted"
| "ParseSwitchCase (Suc n) =
     bindP (ifP (Is Tok_Case)
              (thenP (Accept Tok_Case) (bindP (ParseExpr n False None) (\<lambda>e. returnP (Some e))))
              (thenP (Accept Tok_Default) (returnP None))) (\<lambda>e.
     thenP (Accept Tok_Colon)
    (bindP (ParseSwitchCase_stmnts n) (\<lambda>stmnts.
     returnP (SwitchCase e stmnts))))"
| "ParseSwitchCase_stmnts 0 = throwP fuel_exhausted"
| "ParseSwitchCase_stmnts (Suc n) =
     ifP (\<lambda>st. \<not> Is Tok_Case st \<and> \<not> Is Tok_Default st \<and> \<not> Is Tok_RCurly st)
       (bindP (ParseStmnt n) (\<lambda>s.
        bindP (ParseSwitchCase_stmnts n) (\<lambda>ss. returnP (s # ss))))
       (returnP [])"

subsection \<open>Running a parser\<close>

text \<open>\<open>run\<close> applies a parsing function to a state, and \<open>continue\<close> is the second half of
  \<open>bindP\<close>. They only name the two steps, so that a run on given tokens can be followed
  call by call.\<close>

definition run :: "('r, 'a) parser \<Rightarrow> 'r Parser \<Rightarrow> (exn + 'a) \<times> 'r Parser" where
  "run p st = p st"

definition continue :: "(exn + 'a) \<times> 'r Parser \<Rightarrow> ('a \<Rightarrow> ('r, 'b) parser) \<Rightarrow> (exn + 'b) \<times> 'r Parser" where
  "continue r f = (case r of (Inl e, st1) \<Rightarrow> (Inl e, st1) | (Inr x, st1) \<Rightarrow> run (f x) st1)"

text \<open>The states inside \<^verbatim>\<open>ParseBracketOrCastExpr\<close>: the one in which the expression inside the
  bracket is parsed (after the opening bracket, with the template flag cleared if it was set),
  the one after that expression (with the parsing state popped again), and the one after the
  closing bracket, in which the symbol table is asked.\<close>

definition bracket_opened :: "'r Parser \<Rightarrow> 'r Parser" where
  "bracket_opened st =
     (let st1 = snd (Accept Tok_LBracket st)
      in if ActiveParsingState st1 then st1\<lparr>parsingStates := False # parsingStates st1\<rparr> else st1)"

definition bracket_contents :: "nat \<Rightarrow> 'r Parser \<Rightarrow> 'r Parser" where
  "bracket_contents n st =
     (let st2 = snd (ParseExpr n True None (bracket_opened st))
      in if ActiveParsingState (snd (Accept Tok_LBracket st))
         then st2\<lparr>parsingStates := tl (parsingStates st2)\<rparr> else st2)"

definition bracket_closed :: "nat \<Rightarrow> 'r Parser \<Rightarrow> 'r Parser" where
  "bracket_closed n st = snd (Accept Tok_RBracket (bracket_contents n st))"

section \<open>The specification's tables and example inputs\<close>

text \<open>The upgrade table of the specification (section 4.D, intrinsic overload
  disambiguation), written from the specification's words: the id a call with \<open>argc\<close>
  arguments of the base intrinsic \<open>b\<close> is upgraded to.\<close>

definition spec_upgrade :: "Intrinsic \<Rightarrow> nat \<Rightarrow> Intrinsic" where
  "spec_upgrade b argc =
     (case b of
        AsUInt_1 \<Rightarrow> (if argc = 3 then AsUInt_3 else b)
      | Tex1D_2 \<Rightarrow> (if argc = 4 then Tex1D_4 else b)
      | Tex2D_2 \<Rightarrow> (if argc = 4 then Tex2D_4 else b)
      | Tex3D_2 \<Rightarrow> (if argc = 4 then Tex3D_4 else b)
      | TexCube_2 \<Rightarrow> (if argc = 4 then TexCube_4 else b)
      | Texture_Load_1 \<Rightarrow> (if argc = 2 then Texture_Load_2 else if argc = 3 then Texture_Load_3 else b)
      | Texture_Sample_2 \<Rightarrow>
          (if argc = 3 then Texture_Sample_3 else if argc = 4 then Texture_Sample_4
           else if argc = 5 then Texture_Sample_5 else b)
      | Texture_SampleBias_3 \<Rightarrow>
          (if argc = 4 then Texture_SampleBias_4 else if argc = 5 then Texture_SampleBias_5
           else if argc = 6 then Texture_SampleBias_6 else b)
      | Texture_SampleCmp_3 \<Rightarrow>
          (if argc = 4 then Texture_SampleCmp_4 else if argc = 5 then Texture_SampleCmp_5
           else if argc = 6 then Texture_SampleCmp_6 else b)
      | Texture_SampleGrad_4 \<Rightarrow>
          (if argc = 5 then Texture_SampleGrad_5 else if argc = 6 then Texture_SampleGrad_6
           else if argc = 7 then Texture_SampleGrad_7 else b)
      | Texture_SampleLevel_3 \<Rightarrow>
          (if argc = 4 then Texture_SampleLevel_4 else if argc = 5 then Texture_SampleLevel_5 else b)
      | _ \<Rightarrow> b)"

text \<open>The errors that the claim about uniform buffers expects for a list of slot registers:
  one for a second register, then one for each register that names a shader target.\<close>

definition bind_error :: Report where
  "bind_error = \<lparr>rtype = Types_Error, message = ''buffers can only be bound to one slot'',
                  ast = Ref_SlotRegister 1, errorCode = ERR_BIND_INVALID\<rparr>"

definition target_error :: "nat \<Rightarrow> Report" where
  "target_error i = \<lparr>rtype = Types_Error,
                      message = ''user-defined constant buffer slots can not be target specific'',
                      ast = Ref_SlotRegister i, errorCode = ERR_TARGET_INVALID\<rparr>"

definition spec_slot_errors :: "Register list \<Rightarrow> Report list" where
  "spec_slot_errors regs =
     (if length regs > 1 then [bind_error] else [])
     @ map (\<lambda>(i, r). target_error i)
           (filter (\<lambda>(i, r). shaderTarget r \<noteq> Target_Undefined) (enumerate 0 regs))"

text \<open>Example inputs: an analyzer for a fragment and for a vertex shader with entry point
  \<^verbatim>\<open>main\<close>, and the state before the walk.\<close>

definition fragment_analyzer :: HLSLAnalyzer where
  "fragment_analyzer =
     \<lparr>m_entryPoint = ''main'', m_shaderTarget = FragmentShader, m_versionIn = HLSL5,
      m_shaderModel = GetShaderModel HLSL5, m_preferWrappers = False\<rparr>"

definition vertex_analyzer :: HLSLAnalyzer where
  "vertex_analyzer = fragment_analyzer\<lparr>m_shaderTarget := VertexShader\<rparr>"

definition initial_state :: Analyzer where
  "initial_state = \<lparr>reports = [], program_flags = {}, program_entryPointRef = None\<rparr>"

definition no_visit :: "'a \<Rightarrow> Analyzer \<Rightarrow> exn option \<times> 'a \<times> Analyzer" where
  "no_visit a st = (None, a, st)"

definition no_member_lookup :: member_lookup where
  "no_member_lookup varDecl n ident st = (Inr None, st)"

definition throwing_lookup :: member_lookup where
  "throwing_lookup varDecl n ident st = (Inl (runtime_error ''array index out of range''), st)"

definition indexed_member_access :: VarIdent_node where
  "indexed_member_access = VarIdent_node ''pos'' 1 (Some (VarIdent_node ''x'' 0 None None)) None"

definition SV_Position_decl :: VarDecl_node where
  "SV_Position_decl = \<lparr>vd_ident = ''pos'', vd_semantic = \<lparr>semantic_kind = Position, Index = 0\<rparr>\<rparr>"

text \<open>More example inputs: a symbol table that knows one variable, stages that all succeed, the
  descriptors of a call, an environment whose visits do nothing, and a program with two
  functions named \<^verbatim>\<open>main\<close> (overloads) and a helper.\<close>

definition fetch_SV_Position :: "string \<Rightarrow> Analyzer \<Rightarrow> Symbol option" where
  "fetch_SV_Position ident st = (if ident = ''pos'' then Some (Sym_VarDecl SV_Position_decl) else None)"

definition example_stages :: "(unit, unit, unit) Stages" where
  "example_stages =
     \<lparr>stage_Process = (\<lambda>src name. Some ()), stage_ParseSource = (\<lambda>pp. Some ()),
      stage_DecorateAST = (\<lambda>prog. (True, prog)), stage_Optimize = (\<lambda>prog. prog),
      stage_GenerateCode = (\<lambda>prog. True)\<rparr>"

definition example_input :: "unit ShaderInput" where
  "example_input =
     \<lparr>in_sourceCode = Some (), in_filename = ''test.hlsl'', in_entryPoint = ''main'',
      in_shaderTarget = VertexShader, in_shaderVersion = HLSL5\<rparr>"

definition example_output :: "OutputShaderVersion \<Rightarrow> unit ShaderOutput" where
  "example_output v =
     \<lparr>out_sourceCode = Some (CallerStream ()), out_shaderVersion = v,
      out_options = \<lparr>preprocessOnly = False, validateOnly = False, optimize = False,
                     showAST = False, showTimes = False\<rparr>\<rparr>"

definition example_env :: "(nat, unit) FunctionDecl_env" where
  "example_env =
     \<lparr>env_Register = (\<lambda>ident ref st. st),
      env_Visit_attribs_returnType = no_visit,
      env_Visit_parameters = no_visit,
      env_numVarDecls = (\<lambda>p. 1),
      env_AnalyzeEntryPointParameter = (\<lambda>p c st. (None, (p, c), st)),
      env_AnalyzeEntryPointReturnType = no_visit,
      env_Visit_codeBlock = (\<lambda>isEntryPoint. no_visit),
      env_AnalyzeEndOfScopes = (\<lambda>c. c)\<rparr>"

definition function_decl :: "string \<Rightarrow> nat list \<Rightarrow> (nat, unit) FunctionDecl_node" where
  "function_decl ident params =
     \<lparr>fd_ident = ident, fd_semantic = \<lparr>semantic_kind = Semantic_Undefined, Index = 0\<rparr>,
      fd_isEntryPoint = False, fd_parameters = params, fd_children = ()\<rparr>"

definition two_mains :: "(nat, unit, unit) GlobalStmnt list" where
  "two_mains = [FunctionDecl_stmnt (function_decl ''main'' [0]),
                FunctionDecl_stmnt (function_decl ''helper'' []),
                FunctionDecl_stmnt (function_decl ''main'' [0, 1])]"

text \<open>Example inputs of the parser: a token on a row, a parser at the start of a token list
  with a given table of type names, the text \<^verbatim>\<open>(X)-(1);\<close>, and a line with a directive
  between two statements. The depth bound of the examples is larger than any of them needs.\<close>

definition token_at :: "nat \<Rightarrow> Tokens \<Rightarrow> string \<Rightarrow> Token" where
  "token_at r t s = \<lparr>tok_type = t, tok_spell = s, tok_row = r\<rparr>"

definition example_arithmetic :: "unit Variant_ops" where
  "example_arithmetic =
     \<lparr>real_is_zero = (\<lambda>r. True), real_divide = (\<lambda>a b. ()), real_FromString = (\<lambda>s. ()),
      other_binary = (\<lambda>op a b. a), other_unary = (\<lambda>op a. a)\<rparr>"

definition example_keywords :: Keywords where
  "example_keywords =
     \<lparr>HLSLKeywordToStorageClass = (\<lambda>s. Inr 0), HLSLKeywordToUniformBufferType = (\<lambda>s. Inr 0),
      HLSLKeywordToBufferType = (\<lambda>s. Inr 0),
      HLSLKeywordToSemantic = (\<lambda>s. Inr \<lparr>semantic_kind = Semantic_Other 0, Index = 0\<rparr>)\<rparr>"

definition parser_at :: "Token list \<Rightarrow> string list list \<Rightarrow> unit Parser" where
  "parser_at ts table =
     \<lparr>scanner_source = tl ts, tkn = hd ts, previousToken = token_at 0 Tok_Undefined [],
      typeNameSymbolTable = table, parsingStates = [], localScope = False, hasErrors = False,
      submitted_reports = [], sourceOrigin = ([], 0), arithmetic = example_arithmetic,
      keyword_tables = example_keywords\<rparr>"

definition cast_text :: "Token list" where
  "cast_text = [token_at 1 Tok_LBracket ''('', token_at 1 Tok_Ident ''X'', token_at 1 Tok_RBracket '')'',
                token_at 1 Tok_BinaryOp ''-'', token_at 1 Tok_LBracket ''('', token_at 1 Tok_IntLiteral ''1'',
                token_at 1 Tok_RBracket '')'', token_at 1 Tok_Semicolon '';'']"

definition example_depth :: nat where
  "example_depth = Suc (Suc (Suc (Suc (Suc (Suc (Suc (Suc (Suc (Suc (Suc (Suc 0)))))))))))"

definition directive_text :: "string \<Rightarrow> Token list" where
  "directive_text d =
     [token_at 3 Tok_Semicolon '';'', token_at 4 Tok_Directive d, token_at 4 Tok_IntLiteral ''10'',
      token_at 4 Tok_StringLiteral (CHR 0x22 # ''a.hlsl'' @ [CHR 0x22]), token_at 5 Tok_Ident ''x'',
      token_at 7 Tok_Ident ''y'']"

text \<open>The expression that an expression starts with: the first of a comma list, the operand of
  a post-unary operator, and what a suffix or an array access is applied to.\<close>

fun head_expr :: "Expr \<Rightarrow> Expr" where
  "head_expr (ListExpr firstExpr nextExpr) = head_expr firstExpr"
| "head_expr (PostUnaryExpr e op) = head_expr e"
| "head_expr (SuffixExpr e v) = head_expr e"
| "head_expr (ArrayAccessExpr e indices) = head_expr e"
| "head_expr e = e"

text \<open>Statements that start with an identifier: \<^verbatim>\<open>a = 1;\<close> (or another token in place of
  \<^verbatim>\<open>=\<close>), \<^verbatim>\<open>f();\<close>, \<^verbatim>\<open>i++;\<close>, \<^verbatim>\<open>X y;\<close> and \<^verbatim>\<open>a.b c;\<close>.\<close>

definition statement_text :: "Tokens \<Rightarrow> string \<Rightarrow> Token list" where
  "statement_text t s =
     [token_at 1 Tok_Ident ''a'', token_at 1 t s, token_at 1 Tok_IntLiteral ''1'',
      token_at 1 Tok_Semicolon '';'']"

definition call_text :: "Token list" where
  "call_text =
     [token_at 1 Tok_Ident ''f'', token_at 1 Tok_LBracket ''('', token_at 1 Tok_RBracket '')'',
      token_at 1 Tok_Semicolon '';'']"

definition increment_text :: "Token list" where
  "increment_text =
     [token_at 1 Tok_Ident ''i'', token_at 1 Tok_UnaryOp ''++'', token_at 1 Tok_Semicolon '';'']"

definition declaration_text :: "Token list" where
  "declaration_text =
     [token_at 1 Tok_Ident ''X'', token_at 1 Tok_Ident ''y'', token_at 1 Tok_Semicolon '';'']"

definition dotted_text :: "Token list" where
  "dotted_text =
     [token_at 1 Tok_Ident ''a'', token_at 1 Tok_Dot ''.'', token_at 1 Tok_Ident ''b'',
      token_at 1 Tok_Ident ''c'', token_at 1 Tok_Semicolon '';'']"

section \<open>Properties\<close>

subsection \<open>Intrinsic overload selection\<close>

lemma convert_intrinsic_num_arguments [simp]:
  "num_arguments (convert_intrinsic cs c) = num_arguments c"
  by (induction cs) auto

lemma convert_intrinsic_call_name [simp]:
  "call_name (convert_intrinsic cs c) = call_name c"
  by (induction cs) auto

lemma convert_intrinsic_table:
  "intrinsic (convert_intrinsic intrinsicConversions c) = spec_upgrade (intrinsic c) (num_arguments c)"
  by (cases "intrinsic c") (simp_all add: intrinsicConversions_def mk_conversion_def spec_upgrade_def)

text \<open>
  Claim C2. For every intrinsic call, the analyzer records the id of the dispatch-table entry
  and then upgrades it by the (base intrinsic, argument count) table: the id it leaves in the
  node is the one the specification's table gives for the entry's id and the number of
  arguments, and a call with any other argument count, or of any other intrinsic, keeps the
  base id. The name and the arguments of the call are untouched.
\<close>

theorem intrinsic_overload_selection:
  "intrinsic (fst (AnalyzeFunctionCallIntrinsic an c intr st))
     = spec_upgrade (entry_intrinsic intr) (num_arguments c)
   \<and> num_arguments (fst (AnalyzeFunctionCallIntrinsic an c intr st)) = num_arguments c
   \<and> call_name (fst (AnalyzeFunctionCallIntrinsic an c intr st)) = call_name c"
  by (simp add: AnalyzeFunctionCallIntrinsic_def Let_def convert_intrinsic_table)

theorem intrinsic_overload_selection_witness:
  "intrinsic (fst (AnalyzeFunctionCallIntrinsic fragment_analyzer
      \<lparr>call_name = ''tex.Sample'', num_arguments = 4, intrinsic = Intrinsic_Undefined\<rparr>
      \<lparr>entry_intrinsic = Texture_Sample_2, minShaderModel = GetShaderModel HLSL4\<rparr>
      initial_state)) = Texture_Sample_4"
  using intrinsic_overload_selection [of fragment_analyzer
      "\<lparr>call_name = ''tex.Sample'', num_arguments = 4, intrinsic = Intrinsic_Undefined\<rparr>"
      "\<lparr>entry_intrinsic = Texture_Sample_2, minShaderModel = GetShaderModel HLSL4\<rparr>"
      initial_state]
  by (simp add: spec_upgrade_def)

text \<open>The rows of the table, one by one, and two calls that keep their id.\<close>

lemma spec_upgrade_rows:
  "spec_upgrade AsUInt_1 3 = AsUInt_3"
  "spec_upgrade Tex1D_2 4 = Tex1D_4" "spec_upgrade Tex2D_2 4 = Tex2D_4"
  "spec_upgrade Tex3D_2 4 = Tex3D_4" "spec_upgrade TexCube_2 4 = TexCube_4"
  "spec_upgrade Texture_Load_1 2 = Texture_Load_2" "spec_upgrade Texture_Load_1 3 = Texture_Load_3"
  "spec_upgrade Texture_Sample_2 3 = Texture_Sample_3" "spec_upgrade Texture_Sample_2 4 = Texture_Sample_4"
  "spec_upgrade Texture_Sample_2 5 = Texture_Sample_5"
  "spec_upgrade Texture_SampleBias_3 4 = Texture_SampleBias_4"
  "spec_upgrade Texture_SampleBias_3 5 = Texture_SampleBias_5"
  "spec_upgrade Texture_SampleBias_3 6 = Texture_SampleBias_6"
  "spec_upgrade Texture_SampleCmp_3 4 = Texture_SampleCmp_4"
  "spec_upgrade Texture_SampleCmp_3 5 = Texture_SampleCmp_5"
  "spec_upgrade Texture_SampleCmp_3 6 = Texture_SampleCmp_6"
  "spec_upgrade Texture_SampleGrad_4 5 = Texture_SampleGrad_5"
  "spec_upgrade Texture_SampleGrad_4 6 = Texture_SampleGrad_6"
  "spec_upgrade Texture_SampleGrad_4 7 = Texture_SampleGrad_7"
  "spec_upgrade Texture_SampleLevel_3 4 = Texture_SampleLevel_4"
  "spec_upgrade Texture_SampleLevel_3 5 = Texture_SampleLevel_5"
  "spec_upgrade AsUInt_1 1 = AsUInt_1" "spec_upgrade Clip 3 = Clip"
  by (simp_all add: spec_upgrade_def)

subsection \<open>Rejected output versions\<close>

text \<open>
  Claim C3. When \<^verbatim>\<open>CompileShader\<close> is called with output version GLSL 1.10 or GLSL 1.20, the
  call ends with a \<^verbatim>\<open>std::invalid_argument\<close> (the configuration error), no stage has run and
  nothing was sent to the log; with both streams present the exception is the one that names
  the version. With both streams present and any other output version, no exception leaves
  the call, and preprocessing is the first stage that runs.
\<close>

theorem rejected_output_versions:
  "(out_shaderVersion outputDesc = GLSL110 \<or> out_shaderVersion outputDesc = GLSL120 \<longrightarrow>
      (\<exists>msg. returned (CompileShader stages inputDesc outputDesc has_log) = Inl (invalid_argument msg))
      \<and> stages_run (CompileShader stages inputDesc outputDesc has_log) = []
      \<and> submitted (CompileShader stages inputDesc outputDesc has_log) = [])
   \<and> (in_sourceCode inputDesc \<noteq> None \<and> out_sourceCode outputDesc \<noteq> None \<longrightarrow>
        (out_shaderVersion outputDesc = GLSL110 \<longrightarrow>
           returned (CompileShader stages inputDesc outputDesc has_log)
             = Inl (invalid_argument (''output shader version '' @ [CHR 0x27] @ ''GLSL 1.10'' @ [CHR 0x27] @ '' is not supported'')))
      \<and> (out_shaderVersion outputDesc = GLSL120 \<longrightarrow>
           returned (CompileShader stages inputDesc outputDesc has_log)
             = Inl (invalid_argument (''output shader version '' @ [CHR 0x27] @ ''GLSL 1.20'' @ [CHR 0x27] @ '' is not supported'')))
      \<and> (out_shaderVersion outputDesc \<noteq> GLSL110 \<and> out_shaderVersion outputDesc \<noteq> GLSL120 \<longrightarrow>
           (\<exists>b. returned (CompileShader stages inputDesc outputDesc has_log) = Inr b)
           \<and> stages_run (CompileShader stages inputDesc outputDesc has_log) \<noteq> []
           \<and> hd (stages_run (CompileShader stages inputDesc outputDesc has_log)) = Preprocessing))"
  by (auto simp: CompileShader_def CompileShaderPrimary_def thrown_def SubmitError_def Let_def
           split: option.splits prod.splits bool.splits)

theorem rejected_output_versions_witness:
  "returned (CompileShader example_stages example_input (example_output GLSL120) True)
     = Inl (invalid_argument (''output shader version '' @ [CHR 0x27] @ ''GLSL 1.20'' @ [CHR 0x27] @ '' is not supported''))
   \<and> stages_run (CompileShader example_stages example_input (example_output GLSL120) True) = []
   \<and> returned (CompileShader example_stages example_input (example_output GLSL130) True) = Inr True
   \<and> stages_run (CompileShader example_stages example_input (example_output GLSL130) True)
       = [Preprocessing, Parsing, ContextAnalysis, CodeGeneration]"
  using rejected_output_versions [of "example_output GLSL120" example_stages example_input True]
        rejected_output_versions [of "example_output GLSL130" example_stages example_input True]
  by (simp add: example_output_def example_input_def example_stages_def CompileShader_def
        CompileShaderPrimary_def)

subsection \<open>Semantic remap\<close>

lemma AnalyzeVarIdentWithSymbolVarDecl_marks:
  assumes "AnalyzeVarIdentWithSymbolVarDecl an lookup v varDecl st = (None, v1, st1)"
    and "semantic_kind (vd_semantic varDecl) = Position" and "m_shaderTarget an = FragmentShader"
  shows "isFragCoordUsed \<in> program_flags st1"
  using assms
  by (cases v) (auto simp: mark_fragment_coordinate_def split: option.splits prod.splits sum.splits)

text \<open>
  Claim C5, as amended. A semantic equal to \<^verbatim>\<open>SV_Position\<close> is rewritten to
  \<^verbatim>\<open>VertexPosition\<close>, with its index, if and only if the target is the vertex shader; for any
  other target, and for any other semantic, it is left as it is. When the target is the
  fragment shader and a variable identifier's declaration carries the \<^verbatim>\<open>Position\<close> semantic,
  the analysis of the identifier has set the program's flag \<^verbatim>\<open>isFragCoordUsed\<close> whenever it ends
  without an exception from the look-up of a structure member, and so for every un-dotted
  identifier that the symbol table resolves to such a declaration. When that look-up throws a
  standard exception, \<^verbatim>\<open>AnalyzeVarIdent\<close> records the error and returns, and the analyzer has
  not set the flag: the state is the one the look-up left, with the error added.
\<close>

theorem semantic_remap:
  "(semantic_kind s = Position \<longrightarrow>
      (semantic_kind (AnalyzeSemantic an s) = VertexPosition \<longleftrightarrow> m_shaderTarget an = VertexShader)
      \<and> Index (AnalyzeSemantic an s) = Index s)
   \<and> (m_shaderTarget an \<noteq> VertexShader \<or> semantic_kind s \<noteq> Position \<longrightarrow> AnalyzeSemantic an s = s)
   \<and> (m_shaderTarget an = FragmentShader \<and> semantic_kind (vd_semantic varDecl) = Position
        \<and> AnalyzeVarIdentWithSymbolVarDecl an lookup v varDecl st = (None, v1, st1)
      \<longrightarrow> isFragCoordUsed \<in> program_flags st1)
   \<and> (m_shaderTarget an = FragmentShader \<and> semantic_kind (vd_semantic varDecl) = Position
        \<and> Fetch (vi_ident v) st = Some (Sym_VarDecl varDecl) \<and> vi_next v = None
      \<longrightarrow> fst (AnalyzeVarIdent an Fetch lookup (Some v) st) = None
          \<and> isFragCoordUsed \<in> program_flags (snd (snd (AnalyzeVarIdent an Fetch lookup (Some v) st))))
   \<and> (Fetch (vi_ident v) st = Some (Sym_VarDecl varDecl) \<and> vi_next v = Some member
        \<and> lookup varDecl (vi_numArrayIndices v) (vi_ident member) st = (Inl (runtime_error msg), st2)
      \<longrightarrow> fst (AnalyzeVarIdent an Fetch lookup (Some v) st) = None
          \<and> snd (snd (AnalyzeVarIdent an Fetch lookup (Some v) st)) =
              Analyzer_Error msg Ref_This Err_Unknown st2
          \<and> program_flags (snd (snd (AnalyzeVarIdent an Fetch lookup (Some v) st))) = program_flags st2)"
proof (intro conjI impI)
  assume "m_shaderTarget an = FragmentShader \<and> semantic_kind (vd_semantic varDecl) = Position
        \<and> AnalyzeVarIdentWithSymbolVarDecl an lookup v varDecl st = (None, v1, st1)"
  then show "isFragCoordUsed \<in> program_flags st1"
    using AnalyzeVarIdentWithSymbolVarDecl_marks by blast
next
  assume a: "m_shaderTarget an = FragmentShader \<and> semantic_kind (vd_semantic varDecl) = Position
        \<and> Fetch (vi_ident v) st = Some (Sym_VarDecl varDecl) \<and> vi_next v = None"
  then show "fst (AnalyzeVarIdent an Fetch lookup (Some v) st) = None"
    by (cases v) (simp add: AnalyzeVarIdent_def)
  from a show "isFragCoordUsed \<in> program_flags (snd (snd (AnalyzeVarIdent an Fetch lookup (Some v) st)))"
    by (cases v) (simp add: AnalyzeVarIdent_def mark_fragment_coordinate_def)
next
  assume a: "Fetch (vi_ident v) st = Some (Sym_VarDecl varDecl) \<and> vi_next v = Some member
        \<and> lookup varDecl (vi_numArrayIndices v) (vi_ident member) st = (Inl (runtime_error msg), st2)"
  then show "fst (AnalyzeVarIdent an Fetch lookup (Some v) st) = None"
    by (cases v) (simp add: AnalyzeVarIdent_def)
  from a show r: "snd (snd (AnalyzeVarIdent an Fetch lookup (Some v) st)) =
      Analyzer_Error msg Ref_This Err_Unknown st2"
    by (cases v) (simp add: AnalyzeVarIdent_def)
  show "program_flags (snd (snd (AnalyzeVarIdent an Fetch lookup (Some v) st))) = program_flags st2"
    unfolding r by (simp add: Analyzer_Error_def)
qed (auto simp: AnalyzeSemantic_def)

text \<open>The claim as it was written fails for an access to a member of an indexed variable whose
  look-up throws: the declaration of \<open>pos\<close> carries the \<^verbatim>\<open>Position\<close> semantic and the target is
  the fragment shader, but the analysis of \<^verbatim>\<open>pos[i].x\<close> returns without the flag.\<close>

theorem semantic_remap_counterexample:
  "m_shaderTarget fragment_analyzer = FragmentShader \<and>
   fetch_SV_Position (vi_ident indexed_member_access) initial_state = Some (Sym_VarDecl SV_Position_decl) \<and>
   semantic_kind (vd_semantic SV_Position_decl) = Position \<and>
   fst (AnalyzeVarIdent fragment_analyzer fetch_SV_Position throwing_lookup
          (Some indexed_member_access) initial_state) = None \<and>
   isFragCoordUsed \<notin> program_flags (snd (snd (AnalyzeVarIdent fragment_analyzer fetch_SV_Position
          throwing_lookup (Some indexed_member_access) initial_state)))"
  by (simp add: fragment_analyzer_def fetch_SV_Position_def SV_Position_decl_def indexed_member_access_def
      throwing_lookup_def initial_state_def AnalyzeVarIdent_def Analyzer_Error_def)

theorem semantic_remap_witness:
  "semantic_kind (AnalyzeSemantic vertex_analyzer \<lparr>semantic_kind = Position, Index = 3\<rparr>) = VertexPosition
   \<and> Index (AnalyzeSemantic vertex_analyzer \<lparr>semantic_kind = Position, Index = 3\<rparr>) = 3
   \<and> AnalyzeSemantic fragment_analyzer \<lparr>semantic_kind = Position, Index = 3\<rparr>
       = \<lparr>semantic_kind = Position, Index = 3\<rparr>
   \<and> isFragCoordUsed \<in> program_flags (snd (snd (AnalyzeVarIdent fragment_analyzer fetch_SV_Position
         no_member_lookup (Some (VarIdent_node ''pos'' 0 None None)) initial_state)))
   \<and> isFragCoordUsed \<in> program_flags (snd (snd (AnalyzeVarIdentWithSymbolVarDecl fragment_analyzer
         no_member_lookup (VarIdent_node ''pos'' 0 (Some (VarIdent_node ''x'' 0 None None)) None)
         SV_Position_decl initial_state)))
   \<and> program_flags (snd (snd (AnalyzeVarIdent fragment_analyzer fetch_SV_Position throwing_lookup
         (Some indexed_member_access) initial_state))) = {}"
  using semantic_remap [where s = "\<lparr>semantic_kind = Position, Index = 3\<rparr>" and an = vertex_analyzer]
        semantic_remap [where s = "\<lparr>semantic_kind = Position, Index = 3\<rparr>" and an = fragment_analyzer
           and varDecl = SV_Position_decl and lookup = no_member_lookup
           and v = "VarIdent_node ''pos'' 0 None None" and st = initial_state and Fetch = fetch_SV_Position]
        semantic_remap [where an = fragment_analyzer
           and varDecl = SV_Position_decl and lookup = no_member_lookup
           and v = "VarIdent_node ''pos'' 0 (Some (VarIdent_node ''x'' 0 None None)) None" and st = initial_state
           and ?v1.0 = "VarIdent_node ''pos'' 0 (Some (VarIdent_node ''x'' 0 None None)) None"
           and ?st1.0 = "initial_state\<lparr>program_flags := {isFragCoordUsed}\<rparr>"]
        semantic_remap [where an = fragment_analyzer
           and varDecl = SV_Position_decl and lookup = throwing_lookup
           and v = indexed_member_access and st = initial_state and Fetch = fetch_SV_Position
           and member = "VarIdent_node ''x'' 0 None None" and msg = "''array index out of range''"
           and ?st2.0 = initial_state]
  by (simp add: vertex_analyzer_def fragment_analyzer_def SV_Position_decl_def fetch_SV_Position_def
      no_member_lookup_def throwing_lookup_def indexed_member_access_def initial_state_def
      mark_fragment_coordinate_def AnalyzeVarIdent_def Analyzer_Error_def)

subsection \<open>Slot registers of uniform buffers\<close>

lemma report_target_specific_slots_reports:
  "report_target_specific_slots i regs st =
     st\<lparr>reports := reports st @
        map (\<lambda>(i, r). target_error i)
           (filter (\<lambda>(i, r). shaderTarget r \<noteq> Target_Undefined) (enumerate i regs))\<rparr>"
  by (induction regs arbitrary: i st) (simp_all add: Analyzer_Error_def target_error_def)

lemma validate_slots:
  "report_target_specific_slots 0 regs
     (if length regs > 1
      then Analyzer_Error ''buffers can only be bound to one slot'' (Ref_SlotRegister 1) ERR_BIND_INVALID st
      else st)
   = st\<lparr>reports := reports st @ spec_slot_errors regs\<rparr>"
  by (simp add: report_target_specific_slots_reports spec_slot_errors_def Analyzer_Error_def bind_error_def)

text \<open>
  Claim C10. The visit of a uniform-buffer declaration first adds to the reports exactly the
  expected errors for its slot registers and then visits the members: an error that points at
  the second slot register when more than one is attached, and an error for every attached
  register that names a shader target; for a buffer with at most one register that names no
  target, the check adds nothing.
\<close>

theorem buffer_slot_validation:
  "VisitBufferDeclStmnt visit a st =
     (case Visit_members visit (members a) (st\<lparr>reports := reports st @ spec_slot_errors (slotRegisters a)\<rparr>) of
        (r, members1, st3) \<Rightarrow> (r, a\<lparr>members := members1\<rparr>, st3))
   \<and> (length (slotRegisters a) > 1 \<longrightarrow> bind_error \<in> set (spec_slot_errors (slotRegisters a)))
   \<and> (\<forall>i < length (slotRegisters a). shaderTarget (slotRegisters a ! i) \<noteq> Target_Undefined \<longrightarrow>
        target_error i \<in> set (spec_slot_errors (slotRegisters a)))
   \<and> (length (slotRegisters a) \<le> 1 \<and> (\<forall>r \<in> set (slotRegisters a). shaderTarget r = Target_Undefined)
        \<longrightarrow> spec_slot_errors (slotRegisters a) = [])"
proof (intro conjI)
  show "VisitBufferDeclStmnt visit a st =
     (case Visit_members visit (members a) (st\<lparr>reports := reports st @ spec_slot_errors (slotRegisters a)\<rparr>) of
        (r, members1, st3) \<Rightarrow> (r, a\<lparr>members := members1\<rparr>, st3))"
    unfolding VisitBufferDeclStmnt_def Let_def validate_slots ..
next
  show "length (slotRegisters a) > 1 \<longrightarrow> bind_error \<in> set (spec_slot_errors (slotRegisters a))"
    by (simp add: spec_slot_errors_def)
next
  show "\<forall>i < length (slotRegisters a). shaderTarget (slotRegisters a ! i) \<noteq> Target_Undefined \<longrightarrow>
        target_error i \<in> set (spec_slot_errors (slotRegisters a))"
  proof (intro allI impI)
    fix i assume i: "i < length (slotRegisters a)"
      and t: "shaderTarget (slotRegisters a ! i) \<noteq> Target_Undefined"
    have "(i, slotRegisters a ! i) \<in> set (enumerate 0 (slotRegisters a))"
      using i by (simp add: in_set_enumerate_eq)
    then show "target_error i \<in> set (spec_slot_errors (slotRegisters a))"
      using t unfolding spec_slot_errors_def
      by (auto simp: image_iff intro!: bexI[of _ "(i, slotRegisters a ! i)"])
  qed
next
  show "length (slotRegisters a) \<le> 1 \<and> (\<forall>r \<in> set (slotRegisters a). shaderTarget r = Target_Undefined)
        \<longrightarrow> spec_slot_errors (slotRegisters a) = []"
    by (auto simp: spec_slot_errors_def filter_empty_conv in_set_enumerate_eq)
qed

theorem buffer_slot_validation_witness:
  "reports (snd (snd (VisitBufferDeclStmnt no_visit
       \<lparr>slotRegisters = [\<lparr>shaderTarget = Target_Undefined, registerType = RegisterType_ConstantBuffer, slot = 0\<rparr>,
                         \<lparr>shaderTarget = VertexShader, registerType = RegisterType_ConstantBuffer, slot = 1\<rparr>],
        members = ([] :: unit list)\<rparr> initial_state)))
     = [bind_error, target_error 1]
   \<and> reports (snd (snd (VisitBufferDeclStmnt no_visit
       \<lparr>slotRegisters = [\<lparr>shaderTarget = Target_Undefined, registerType = RegisterType_ConstantBuffer, slot = 0\<rparr>],
        members = ([] :: unit list)\<rparr> initial_state))) = []"
  using buffer_slot_validation [of no_visit
       "\<lparr>slotRegisters = [\<lparr>shaderTarget = Target_Undefined, registerType = RegisterType_ConstantBuffer, slot = 0\<rparr>,
                         \<lparr>shaderTarget = VertexShader, registerType = RegisterType_ConstantBuffer, slot = 1\<rparr>],
        members = ([] :: unit list)\<rparr>" initial_state]
    buffer_slot_validation [of no_visit
       "\<lparr>slotRegisters = [\<lparr>shaderTarget = Target_Undefined, registerType = RegisterType_ConstantBuffer, slot = 0\<rparr>],
        members = ([] :: unit list)\<rparr>" initial_state]
  by (simp add: spec_slot_errors_def initial_state_def enumerate_eq_zip upt_rec)

subsection \<open>The entry-point flag\<close>

lemma AnalyzeEntryPoint_flag:
  "AnalyzeEntryPoint an env ref a st = (r, a1, st1) \<Longrightarrow> fd_isEntryPoint a1 \<and> fd_ident a1 = fd_ident a"
  by (auto simp: AnalyzeEntryPoint_def Let_def split: prod.splits option.splits)

lemma VisitFunctionDecl_flag:
  assumes "VisitFunctionDecl an env ref a st = (r, a1, st1)"
  shows "fd_ident a1 = fd_ident a"
    and "fd_isEntryPoint a1 \<Longrightarrow> fd_isEntryPoint a \<or> fd_ident a = m_entryPoint an"
    and "r = None \<Longrightarrow> fd_ident a = m_entryPoint an \<Longrightarrow> fd_isEntryPoint a1"
  using assms
  by (auto simp: VisitFunctionDecl_def Let_def split: prod.splits option.splits if_splits
           dest!: AnalyzeEntryPoint_flag)

lemma Visit_globalStmnts_flags:
  "Visit_globalStmnts an env other ref prog st = (r, prog1, st1) \<Longrightarrow>
     (entry_point_decls prog = [] \<longrightarrow> (\<forall>a \<in> set (entry_point_decls prog1). fd_ident a = m_entryPoint an))
   \<and> (r = None \<longrightarrow> (\<forall>a. FunctionDecl_stmnt a \<in> set prog1 \<and> fd_ident a = m_entryPoint an \<longrightarrow> fd_isEntryPoint a))
   \<and> length prog1 = length prog"
proof (induction an env other ref prog st arbitrary: r prog1 st1 rule: Visit_globalStmnts.induct)
  case (1 an env other ref st)
  then show ?case by simp
next
  case (2 an env other ref a rest st)
  obtain r0 a1 st0 where v: "VisitFunctionDecl an env ref a st = (r0, a1, st0)"
    by (cases "VisitFunctionDecl an env ref a st") auto
  note f = VisitFunctionDecl_flag[OF v]
  show ?case
  proof (cases r0)
    case (Some e)
    with 2(2) v have "prog1 = FunctionDecl_stmnt a1 # rest" "r = Some e" by auto
    then show ?thesis using f by (auto split: if_splits)
  next
    case None
    obtain r2 rest1 st2 where w: "Visit_globalStmnts an env other (Suc ref) rest st0 = (r2, rest1, st2)"
      by (cases "Visit_globalStmnts an env other (Suc ref) rest st0") auto
    from 2(1)[OF v[symmetric] None refl w]
    have ih: "(entry_point_decls rest = [] \<longrightarrow> (\<forall>a \<in> set (entry_point_decls rest1). fd_ident a = m_entryPoint an))
       \<and> (r2 = None \<longrightarrow> (\<forall>a. FunctionDecl_stmnt a \<in> set rest1 \<and> fd_ident a = m_entryPoint an \<longrightarrow> fd_isEntryPoint a))
       \<and> length rest1 = length rest" by simp
    from 2(2) v None w have "prog1 = FunctionDecl_stmnt a1 # rest1" "r = r2" by auto
    then show ?thesis using f ih None by (auto split: if_splits)
  qed
next
  case (3 an env other ref s rest st)
  obtain r0 s1 st0 where v: "other s st = (r0, s1, st0)" by (cases "other s st") auto
  show ?case
  proof (cases r0)
    case (Some e)
    with 3(2) v show ?thesis by auto
  next
    case None
    obtain r2 rest1 st2 where w: "Visit_globalStmnts an env other (Suc ref) rest st0 = (r2, rest1, st2)"
      by (cases "Visit_globalStmnts an env other (Suc ref) rest st0") auto
    from 3(1)[OF v[symmetric] None refl w]
    have ih: "(entry_point_decls rest = [] \<longrightarrow> (\<forall>a \<in> set (entry_point_decls rest1). fd_ident a = m_entryPoint an))
       \<and> (r2 = None \<longrightarrow> (\<forall>a. FunctionDecl_stmnt a \<in> set rest1 \<and> fd_ident a = m_entryPoint an \<longrightarrow> fd_isEntryPoint a))
       \<and> length rest1 = length rest" by simp
    from 3(2) v None w have "prog1 = Other_stmnt s1 # rest1" "r = r2" by auto
    then show ?thesis using ih by auto
  qed
qed

text \<open>
  Claim C6, as amended. After the analysis of a program in which no declaration carried the
  flag, every function declaration that carries \<^verbatim>\<open>isEntryPoint\<close> has the configured
  entry-point name as its identifier; and when the walk ended without an exception, every
  function declaration of that name carries it. The flag is not limited to one node: two
  declarations of the entry point's name (overloads, or a forward declaration and its
  definition) are both flagged.
\<close>

theorem entry_point_flag:
  "VisitProgram an env other prog st = (r, prog1, st1) \<Longrightarrow>
     (entry_point_decls prog = [] \<longrightarrow> (\<forall>a \<in> set (entry_point_decls prog1). fd_ident a = m_entryPoint an))
   \<and> (r = None \<longrightarrow> (\<forall>a. FunctionDecl_stmnt a \<in> set prog1 \<and> fd_ident a = m_entryPoint an \<longrightarrow> fd_isEntryPoint a))
   \<and> length prog1 = length prog"
  unfolding VisitProgram_def by (rule Visit_globalStmnts_flags)

lemma two_mains_run:
  "VisitProgram fragment_analyzer example_env no_visit two_mains initial_state =
     (None,
      [FunctionDecl_stmnt ((function_decl ''main'' [0])\<lparr>fd_isEntryPoint := True\<rparr>),
       FunctionDecl_stmnt (function_decl ''helper'' []),
       FunctionDecl_stmnt ((function_decl ''main'' [0, 1])\<lparr>fd_isEntryPoint := True\<rparr>)],
      initial_state\<lparr>program_entryPointRef := Some 2\<rparr>)"
  by (simp add: VisitProgram_def two_mains_def VisitFunctionDecl_def AnalyzeEntryPoint_def
        example_env_def no_visit_def function_decl_def fragment_analyzer_def Let_def
        AnalyzeSemantic_def initial_state_def)

theorem entry_point_flag_counterexample:
  "\<not> length (entry_point_decls (fst (snd (VisitProgram fragment_analyzer example_env no_visit two_mains initial_state)))) \<le> 1"
  by (simp add: two_mains_run function_decl_def)

theorem entry_point_flag_witness:
  "entry_point_decls two_mains = []
   \<and> map fd_ident (entry_point_decls (fst (snd (VisitProgram fragment_analyzer example_env no_visit two_mains initial_state))))
       = [''main'', ''main'']
   \<and> m_entryPoint fragment_analyzer = ''main''"
proof -
  have a: "entry_point_decls two_mains = []"
    by (simp add: two_mains_def function_decl_def)
  have b: "m_entryPoint fragment_analyzer = ''main''"
    by (simp add: fragment_analyzer_def)
  have c: "map fd_ident (entry_point_decls (fst (snd (VisitProgram fragment_analyzer example_env no_visit two_mains initial_state))))
       = [''main'', ''main'']"
    using entry_point_flag [OF two_mains_run] by (simp add: two_mains_run function_decl_def)
  from a b c show ?thesis by blast
qed

subsection \<open>Following a run of the parser\<close>

text \<open>The equations of a parsing function are used only where the function is run on a
  state: \<open>run\<close> marks those places, and the rules below move it through the combinators, so
  that a run on given tokens is computed step by step and nothing is unfolded under a
  binder.\<close>

lemmas parser_monad_defs =
  bindP_def thenP_def ifP_def whenP_def getP_def modifyP_def liftE_def returnP_def throwP_def

lemma run_entry: "p st = run p st"
  by (simp add: run_def)

lemma continue_Inl: "continue (Inl e, st) f = (Inl e, st)"
  by (simp add: continue_def)

lemma continue_Inr: "continue (Inr x, st) f = run (f x) st"
  by (simp add: continue_def)

lemma run_returnP: "run (returnP x) st = (Inr x, st)"
  by (simp add: run_def returnP_def)

lemma run_throwP: "run (throwP e) st = (Inl e, st)"
  by (simp add: run_def throwP_def)

lemma run_bindP: "run (bindP m f) st = continue (run m st) f"
  by (simp add: run_def bindP_def continue_def split: prod.splits sum.splits)

lemma run_thenP: "run (thenP m k) st = continue (run m st) (\<lambda>x. k)"
  by (simp add: thenP_def run_bindP)

lemma run_ifP: "run (ifP c p q) st = (if c st then run p st else run q st)"
  by (simp add: run_def ifP_def)

lemma run_whenP: "run (whenP c p) st = (if c st then continue (run p st) (\<lambda>x. returnP ()) else (Inr (), st))"
  by (simp add: whenP_def run_ifP run_thenP run_returnP)

lemma run_getP: "run (getP f) st = (Inr (f st), st)"
  by (simp add: run_def getP_def)

lemma run_modifyP: "run (modifyP f) st = (Inr (), f st)"
  by (simp add: run_def modifyP_def)

lemma run_liftE: "run (liftE r) st = (r, st)"
  by (simp add: run_def liftE_def)

lemma run_if: "run (if b then p else q) st = (if b then run p st else run q st)"
  by simp

lemma run_Parser_AcceptIt:
  "run Parser_AcceptIt st =
     (Inr (tkn st), st\<lparr>previousToken := tkn st, tkn := fst (Scanner_Next st),
                        scanner_source := snd (Scanner_Next st)\<rparr>)"
  by (simp add: run_def Parser_AcceptIt_def)

lemma run_Error_code:
  "run (Error_code msg c) st = (Inl (Report_exn (error_report msg c)), st\<lparr>hasErrors := True\<rparr>)"
  by (simp add: run_def Error_code_def)

lemma post_process_directives_plain:
  "\<not> Is Tok_Directive st \<Longrightarrow> post_process_directives n st = (Inr (), st)"
  by (cases n) (simp_all add: parser_monad_defs)

lemma AcceptIt_plain:
  assumes "tok_type (fst (Scanner_Next st)) \<noteq> Tok_Directive"
  shows "AcceptIt st = Parser_AcceptIt st"
proof -
  obtain m where f: "2 * length (scanner_source st) + 4 = Suc m"
    by (simp add: numeral_eq_Suc)
  obtain t st1 where p: "Parser_AcceptIt st = (Inr t, st1)"
    by (simp add: Parser_AcceptIt_def split: prod.splits)
  with assms have "\<not> Is Tok_Directive st1" by (auto simp add: Is_def Parser_AcceptIt_def)
  then show ?thesis
    unfolding AcceptIt_def f by (simp add: bindP_def thenP_def returnP_def p post_process_directives_plain)
qed

lemma run_AcceptIt:
  "tok_type (fst (Scanner_Next st)) \<noteq> Tok_Directive \<Longrightarrow> run AcceptIt st = run Parser_AcceptIt st"
  by (simp add: run_def AcceptIt_plain)

declare ParseExpr.simps [simp del] ParseGenericExpr.simps [simp del] ParseBinaryOperations.simps [simp del] ParsePrimaryExpr.simps [simp del] ParseLiteralOrSuffixExpr.simps [simp del] ParseTypeNameOrFunctionCallExpr.simps [simp del] ParseUnaryExpr.simps [simp del] ParseBracketOrCastExpr.simps [simp del] ParseSuffixExpr.simps [simp del] ParseArrayAccessExpr.simps [simp del] ParseVarAccessOrFunctionCallExpr.simps [simp del] ParseVarAccessExpr.simps [simp del] ParseFunctionCallExpr.simps [simp del] ParseFunctionCall_VarIdent.simps [simp del] ParseFunctionCall_TypeDenoter.simps [simp del] ParseInitializerExpr.simps [simp del] ParseVarIdent.simps [simp del] ParseArrayDimension.simps [simp del] ParseArrayDimensionList.simps [simp del] ParseExprList.simps [simp del] ParseExprList_loop.simps [simp del] ParseArgumentList.simps [simp del] ParseInitializerList.simps [simp del] ParseTypeDenoter.simps [simp del] ParseTypeDenoterPrimary.simps [simp del] ParseBaseVectorTypeDenoter.simps [simp del] ParseBaseMatrixTypeDenoter.simps [simp del] ParseAndEvaluateConstExpr.simps [simp del] ParseAndEvaluateConstExprInt.simps [simp del] ParseAndEvaluateVectorDimension.simps [simp del]

lemmas ParseExpr_run = ParseExpr.simps [THEN fun_cong, THEN fun_cong, THEN arg_cong [where f = run]]
lemmas ParseGenericExpr_run = ParseGenericExpr.simps [THEN arg_cong [where f = run]]
lemmas ParseBinaryOperations_run = ParseBinaryOperations.simps [THEN fun_cong, THEN arg_cong [where f = run]]
lemmas ParsePrimaryExpr_run = ParsePrimaryExpr.simps [THEN arg_cong [where f = run]]
lemmas ParseLiteralOrSuffixExpr_run = ParseLiteralOrSuffixExpr.simps [THEN arg_cong [where f = run]]
lemmas ParseTypeNameOrFunctionCallExpr_run = ParseTypeNameOrFunctionCallExpr.simps [THEN arg_cong [where f = run]]
lemmas ParseUnaryExpr_run = ParseUnaryExpr.simps [THEN arg_cong [where f = run]]
lemmas ParseBracketOrCastExpr_run = ParseBracketOrCastExpr.simps [THEN arg_cong [where f = run]]
lemmas ParseSuffixExpr_run = ParseSuffixExpr.simps [THEN fun_cong, THEN arg_cong [where f = run]]
lemmas ParseArrayAccessExpr_run = ParseArrayAccessExpr.simps [THEN fun_cong, THEN arg_cong [where f = run]]
lemmas ParseVarAccessOrFunctionCallExpr_run = ParseVarAccessOrFunctionCallExpr.simps [THEN arg_cong [where f = run]]
lemmas ParseVarAccessExpr_run = ParseVarAccessExpr.simps [THEN fun_cong, THEN arg_cong [where f = run]]
lemmas ParseFunctionCallExpr_run = ParseFunctionCallExpr.simps [THEN fun_cong, THEN fun_cong, THEN arg_cong [where f = run]]
lemmas ParseFunctionCall_VarIdent_run = ParseFunctionCall_VarIdent.simps [THEN fun_cong, THEN arg_cong [where f = run]]
lemmas ParseFunctionCall_TypeDenoter_run = ParseFunctionCall_TypeDenoter.simps [THEN fun_cong, THEN arg_cong [where f = run]]
lemmas ParseInitializerExpr_run = ParseInitializerExpr.simps [THEN arg_cong [where f = run]]
lemmas ParseVarIdent_run = ParseVarIdent.simps [THEN arg_cong [where f = run]]
lemmas ParseArrayDimension_run = ParseArrayDimension.simps [THEN fun_cong, THEN arg_cong [where f = run]]
lemmas ParseArrayDimensionList_run = ParseArrayDimensionList.simps [THEN fun_cong, THEN arg_cong [where f = run]]
lemmas ParseExprList_run = ParseExprList.simps [THEN fun_cong, THEN fun_cong, THEN arg_cong [where f = run]]
lemmas ParseExprList_loop_run = ParseExprList_loop.simps [THEN fun_cong, THEN fun_cong, THEN arg_cong [where f = run]]
lemmas ParseArgumentList_run = ParseArgumentList.simps [THEN arg_cong [where f = run]]
lemmas ParseInitializerList_run = ParseInitializerList.simps [THEN arg_cong [where f = run]]
lemmas ParseTypeDenoter_run = ParseTypeDenoter.simps [THEN fun_cong, THEN arg_cong [where f = run]]
lemmas ParseTypeDenoterPrimary_run = ParseTypeDenoterPrimary.simps [THEN arg_cong [where f = run]]
lemmas ParseBaseVectorTypeDenoter_run = ParseBaseVectorTypeDenoter.simps [THEN arg_cong [where f = run]]
lemmas ParseBaseMatrixTypeDenoter_run = ParseBaseMatrixTypeDenoter.simps [THEN arg_cong [where f = run]]
lemmas ParseAndEvaluateConstExpr_run = ParseAndEvaluateConstExpr.simps [THEN arg_cong [where f = run]]
lemmas ParseAndEvaluateConstExprInt_run = ParseAndEvaluateConstExprInt.simps [THEN arg_cong [where f = run]]
lemmas ParseAndEvaluateVectorDimension_run = ParseAndEvaluateVectorDimension.simps [THEN arg_cong [where f = run]]

lemmas expr_parser_run =
  ParseExpr_run
  ParseGenericExpr_run
  ParseBinaryOperations_run
  ParsePrimaryExpr_run
  ParseLiteralOrSuffixExpr_run
  ParseTypeNameOrFunctionCallExpr_run
  ParseUnaryExpr_run
  ParseBracketOrCastExpr_run
  ParseSuffixExpr_run
  ParseArrayAccessExpr_run
  ParseVarAccessOrFunctionCallExpr_run
  ParseVarAccessExpr_run
  ParseFunctionCallExpr_run
  ParseFunctionCall_VarIdent_run
  ParseFunctionCall_TypeDenoter_run
  ParseInitializerExpr_run
  ParseVarIdent_run
  ParseArrayDimension_run
  ParseArrayDimensionList_run
  ParseExprList_run
  ParseExprList_loop_run
  ParseArgumentList_run
  ParseInitializerList_run
  ParseTypeDenoter_run
  ParseTypeDenoterPrimary_run
  ParseBaseVectorTypeDenoter_run
  ParseBaseMatrixTypeDenoter_run
  ParseAndEvaluateConstExpr_run
  ParseAndEvaluateConstExprInt_run
  ParseAndEvaluateVectorDimension_run

lemmas expr_parser_entry =
  run_entry [where p = "ParseExpr n a0 a1" for n a0 a1]
  run_entry [where p = "ParseGenericExpr n" for n]
  run_entry [where p = "ParseBinaryOperations n a0" for n a0]
  run_entry [where p = "ParsePrimaryExpr n" for n]
  run_entry [where p = "ParseLiteralOrSuffixExpr n" for n]
  run_entry [where p = "ParseTypeNameOrFunctionCallExpr n" for n]
  run_entry [where p = "ParseUnaryExpr n" for n]
  run_entry [where p = "ParseBracketOrCastExpr n" for n]
  run_entry [where p = "ParseSuffixExpr n a0" for n a0]
  run_entry [where p = "ParseArrayAccessExpr n a0" for n a0]
  run_entry [where p = "ParseVarAccessOrFunctionCallExpr n" for n]
  run_entry [where p = "ParseVarAccessExpr n a0" for n a0]
  run_entry [where p = "ParseFunctionCallExpr n a0 a1" for n a0 a1]
  run_entry [where p = "ParseFunctionCall_VarIdent n a0" for n a0]
  run_entry [where p = "ParseFunctionCall_TypeDenoter n a0" for n a0]
  run_entry [where p = "ParseInitializerExpr n" for n]
  run_entry [where p = "ParseVarIdent n" for n]
  run_entry [where p = "ParseArrayDimension n a0" for n a0]
  run_entry [where p = "ParseArrayDimensionList n a0" for n a0]
  run_entry [where p = "ParseExprList n a0 a1" for n a0 a1]
  run_entry [where p = "ParseExprList_loop n a0 a1" for n a0 a1]
  run_entry [where p = "ParseArgumentList n" for n]
  run_entry [where p = "ParseInitializerList n" for n]
  run_entry [where p = "ParseTypeDenoter n a0" for n a0]
  run_entry [where p = "ParseTypeDenoterPrimary n" for n]
  run_entry [where p = "ParseBaseVectorTypeDenoter n" for n]
  run_entry [where p = "ParseBaseMatrixTypeDenoter n" for n]
  run_entry [where p = "ParseAndEvaluateConstExpr n" for n]
  run_entry [where p = "ParseAndEvaluateConstExprInt n" for n]
  run_entry [where p = "ParseAndEvaluateVectorDimension n" for n]

lemmas monad_entry =
  run_entry [where p = "bindP m f" for m f]
  run_entry [where p = "thenP m k" for m k]
  run_entry [where p = "ifP c p q" for c p q]
  run_entry [where p = "whenP c p" for c p]
  run_entry [where p = "returnP x" for x]
  run_entry [where p = "throwP x" for x]
  run_entry [where p = "Error_code m c" for m c]
  run_entry [where p = AcceptIt]

lemmas parser_run =
  monad_entry expr_parser_entry Let_def
  run_returnP run_throwP run_bindP run_thenP run_ifP run_whenP run_getP run_modifyP run_liftE
  run_Parser_AcceptIt run_Error_code run_AcceptIt run_if continue_Inl continue_Inr
  expr_parser_run
  Accept_def Accept_spell_def Error_def ErrorUnexpected_def ErrorUnexpected_Tokens_def
  Warning_def PushParsingState_def PopParsingState_def ParseIdent_def ParseLiteralExpr_def Tkn_def
  Is_def Is_spell_def Scanner_Next_def
  IsLiteral_def IsDataType_def IsBaseDataType_def IsArithmeticUnaryExpr_def
  MakeToTypeNameIfLhsOfCastExpr_def IsRegisteredTypeName_def ActiveParsingState_def
  TokenToDataType_def StringToUnaryOp_def StringToBinaryOp_def StringToAssignOp_def
  error_report_def

subsection \<open>Division in constant expressions\<close>

text \<open>The quotient of two 64-bit integers, rounded towards zero, fits into 64 bits unless the
  least integer is divided by minus one.\<close>

lemma sdiv_in_range:
  fixes a b :: int
  assumes a: "- (2 ^ 63) \<le> a" "a < 2 ^ 63" and b: "b \<noteq> 0" and ov: "\<not> (a = - (2 ^ 63) \<and> b = - 1)"
  shows "- (2 ^ 63) \<le> a sdiv b \<and> a sdiv b < 2 ^ 63"
proof -
  define q where "q = \<bar>a\<bar> div \<bar>b\<bar>"
  have q0: "0 \<le> q" unfolding q_def by (simp add: div_int_pos_iff)
  have le: "q \<le> \<bar>a\<bar>" unfolding q_def using b int_div_le_self by force
  have lt: "q < \<bar>a\<bar>" if "\<bar>b\<bar> \<noteq> 1" "a \<noteq> 0" unfolding q_def using that b
    by (metis zabs_less_one_iff int_div_less_self zero_less_abs_iff linorder_neqE_linordered_idom)
  have s: "a sdiv b = sgn a * sgn b * q" unfolding q_def by (simp add: signed_divide_int_def)
  show ?thesis
    using s q0 le lt a b ov
    by (cases "a = 0"; cases "a < 0"; cases "b < 0"; simp add: sgn_if; linarith)
qed

lemma sint_signed_quotient:
  fixes a b :: "64 word"
  assumes "b \<noteq> 0" and "\<not> (sint a = - (2 ^ 63) \<and> sint b = - 1)"
  shows "sint (word_of_int (sint a sdiv sint b) :: 64 word) = sint a sdiv sint b"
proof -
  have "- (2 ^ 63) \<le> sint a" "sint a < 2 ^ 63"
    using sint_ge [of a] sint_lt [of a] by simp_all
  moreover have "sint b \<noteq> 0" using assms(1) by (simp add: signed_eq_0_iff)
  ultimately have "- (2 ^ 63) \<le> sint a sdiv sint b \<and> sint a sdiv sint b < 2 ^ 63"
    using assms(2) by (intro sdiv_in_range) simp_all
  then show ?thesis
    by (simp add: sint_sbintrunc' signed_take_bit_int_eq_self)
qed

lemma divide_by_zero_visit:
  assumes "VisitExpr ops cb lhsExpr stk = Inr (lhs # stk)"
      and "VisitExpr ops cb rhsExpr (lhs # stk) = Inr (rhs # lhs # stk)"
      and "op = BinaryOp_Div \<or> op = BinaryOp_Mod"
      and "Variant_is_zero ops rhs"
  shows "VisitExpr ops cb (BinaryExpr lhsExpr op rhsExpr) stk = Inl (runtime_error ''division by zero'')"
  using assms by (auto simp add: bindE_def Pop_def binary_value_def Variant_divide_def Variant_modulo_def)

lemma divide_visit:
  assumes "VisitExpr ops cb lhsExpr stk = Inr (lhs # stk)"
      and "VisitExpr ops cb rhsExpr (lhs # stk) = Inr (rhs # lhs # stk)"
      and "\<not> Variant_is_zero ops rhs"
  shows "VisitExpr ops cb (BinaryExpr lhsExpr BinaryOp_Div rhsExpr) stk =
           Inr ((case (lhs, rhs) of
                  (Variant_Int a, Variant_Int b) \<Rightarrow> Variant_Int (word_of_int (sint a sdiv sint b))
                | (Variant_Real a, Variant_Real b) \<Rightarrow> Variant_Real (real_divide ops a b)
                | _ \<Rightarrow> other_binary ops BinaryOp_Div lhs rhs) # stk)"
  using assms by (simp add: bindE_def Pop_def binary_value_def Variant_divide_def)

text \<open>
  Claim C8. Let the operands of a division or a remainder evaluate to \<open>lhs\<close> and \<open>rhs\<close>. If
  \<open>rhs\<close> is zero, the evaluation of the binary expression ends with the error
  ``division by zero'' and pushes no value; as a whole expression it makes \<^verbatim>\<open>EvaluateExpr\<close> end
  with that error, which \<^verbatim>\<open>ParseAndEvaluateConstExpr\<close> reports as an error of the parser. If
  \<open>rhs\<close> is not zero, the quotient of two Ints is a 64-bit integer, equal to the truncating
  quotient of the operands unless that overflows, and the quotient of two Reals is the
  double's.
\<close>

theorem division_by_zero:
  assumes "VisitExpr ops cb lhsExpr stk = Inr (lhs # stk)"
      and "VisitExpr ops cb rhsExpr (lhs # stk) = Inr (rhs # lhs # stk)"
      and "op = BinaryOp_Div \<or> op = BinaryOp_Mod"
  shows "(Variant_is_zero ops rhs \<longrightarrow>
            VisitExpr ops cb (BinaryExpr lhsExpr op rhsExpr) stk = Inl (runtime_error ''division by zero'') \<and>
            (stk = [] \<longrightarrow>
               EvaluateExpr ops (BinaryExpr lhsExpr op rhsExpr) (Some cb) = Inl (runtime_error ''division by zero'') \<and>
               (\<forall>st :: 'r Parser. arithmetic st = ops \<and> cb = (\<lambda>a. Inl thrown_VarAccessExpr) \<longrightarrow>
                  evaluate_constant (BinaryExpr lhsExpr op rhsExpr) st =
                    (Inl (Report_exn (error_report ''division by zero'' Err_Unknown)), st\<lparr>hasErrors := True\<rparr>)))) \<and>
         (\<not> Variant_is_zero ops rhs \<longrightarrow>
            (\<forall>a b. lhs = Variant_Int a \<and> rhs = Variant_Int b \<longrightarrow>
               (\<exists>q. VisitExpr ops cb (BinaryExpr lhsExpr BinaryOp_Div rhsExpr) stk = Inr (Variant_Int q # stk) \<and>
                    (\<not> (sint a = - (2 ^ 63) \<and> sint b = - 1) \<longrightarrow> sint q = sint a sdiv sint b))) \<and>
            (\<forall>a b. lhs = Variant_Real a \<and> rhs = Variant_Real b \<longrightarrow>
               VisitExpr ops cb (BinaryExpr lhsExpr BinaryOp_Div rhsExpr) stk =
                 Inr (Variant_Real (real_divide ops a b) # stk)))"
proof (intro conjI impI allI)
  assume z: "Variant_is_zero ops rhs"
  show v: "VisitExpr ops cb (BinaryExpr lhsExpr op rhsExpr) stk = Inl (runtime_error ''division by zero'')"
    using assms z by (rule divide_by_zero_visit)
  { assume "stk = []"
    with v show e: "EvaluateExpr ops (BinaryExpr lhsExpr op rhsExpr) (Some cb) = Inl (runtime_error ''division by zero'')"
      by (simp add: EvaluateExpr_def bindE_def del: VisitExpr.simps)
    fix st :: "'r Parser"
    assume "arithmetic st = ops \<and> cb = (\<lambda>a. Inl thrown_VarAccessExpr)"
    with e show "evaluate_constant (BinaryExpr lhsExpr op rhsExpr) st =
        (Inl (Report_exn (error_report ''division by zero'' Err_Unknown)), st\<lparr>hasErrors := True\<rparr>)"
      by (simp add: evaluate_constant_def bindP_def getP_def Error_def Error_code_def del: VisitExpr.simps) }
next
  fix a b
  assume nz: "\<not> Variant_is_zero ops rhs" and ab: "lhs = Variant_Int a \<and> rhs = Variant_Int b"
  from nz ab have b0: "b \<noteq> 0" by (simp add: Variant_is_zero_def)
  have "VisitExpr ops cb (BinaryExpr lhsExpr BinaryOp_Div rhsExpr) stk =
          Inr (Variant_Int (word_of_int (sint a sdiv sint b)) # stk)"
    using divide_visit [OF assms(1,2) nz] ab by simp
  then show "\<exists>q. VisitExpr ops cb (BinaryExpr lhsExpr BinaryOp_Div rhsExpr) stk = Inr (Variant_Int q # stk) \<and>
      (\<not> (sint a = - (2 ^ 63) \<and> sint b = - 1) \<longrightarrow> sint q = sint a sdiv sint b)"
    using sint_signed_quotient [OF b0] by (intro exI [of _ "word_of_int (sint a sdiv sint b)"]) simp
next
  fix a b
  assume nz: "\<not> Variant_is_zero ops rhs" and ab: "lhs = Variant_Real a \<and> rhs = Variant_Real b"
  show "VisitExpr ops cb (BinaryExpr lhsExpr BinaryOp_Div rhsExpr) stk = Inr (Variant_Real (real_divide ops a b) # stk)"
    using divide_visit [OF assms(1,2) nz] ab by simp
qed

text \<open>For instance, 7 / 0 is an error and -7 / 2 is -3.\<close>

theorem division_by_zero_witness:
  "VisitExpr example_arithmetic (\<lambda>a. Inl thrown_VarAccessExpr)
     (BinaryExpr (LiteralExpr DataType_Int ''7'') BinaryOp_Div (LiteralExpr DataType_Int ''0'')) [] =
     Inl (runtime_error ''division by zero'') \<and>
   (\<exists>q. VisitExpr example_arithmetic (\<lambda>a. Inl thrown_VarAccessExpr)
      (BinaryExpr (LiteralExpr DataType_Int ''-7'') BinaryOp_Div (LiteralExpr DataType_Int ''2'')) [] = Inr [Variant_Int q] \<and>
      sint q = - 3)"
  using division_by_zero [of example_arithmetic "\<lambda>a. Inl thrown_VarAccessExpr" "LiteralExpr DataType_Int ''7''" "[]"
          "Variant_Int 7" "LiteralExpr DataType_Int ''0''" "Variant_Int 0" BinaryOp_Div]
        division_by_zero [of example_arithmetic "\<lambda>a. Inl thrown_VarAccessExpr" "LiteralExpr DataType_Int ''-7''" "[]"
          "Variant_Int (- 7)" "LiteralExpr DataType_Int ''2''" "Variant_Int 2" BinaryOp_Div]
  by (simp add: bindE_def literal_value_def FromString_int_def Variant_is_zero_def signed_divide_int_def)

subsection \<open>Directives after preprocessing\<close>

lemma ProcessDirective_other:
  "ident \<noteq> ''line'' \<Longrightarrow>
   ProcessDirective ident st =
     (Inl (Report_exn (error_report
        (''only '' @ [CHR 0x27] @ ''#line'' @ [CHR 0x27] @ ''-directives are allowed after pre-processing'')
        Err_Unknown)), st\<lparr>hasErrors := True\<rparr>)"
  by (simp add: ProcessDirective_def Error_def Error_code_def)

lemma line_offset_in_range:
  fixes N :: int and r :: nat
  assumes "0 \<le> N" "N < 2 ^ 31" "r < 2 ^ 31"
  shows "sint ((word_of_int N :: 32 word) - word_of_nat r - 1) = N - int r - 1"
proof -
  have "(word_of_int N :: 32 word) - word_of_nat r - 1 = word_of_int (N - int r - 1)"
    by simp
  moreover have "- (2 ^ 31) \<le> N - int r - 1" "N - int r - 1 < 2 ^ 31"
    using assms by simp_all
  ultimately show ?thesis
    by (simp only: sint_sbintrunc') (simp add: signed_take_bit_int_eq_self)
qed

lemma ProcessDirective_line:
  assumes "Is Tok_IntLiteral st" and "scanner_source st = s # rest" and "tok_type s = Tok_StringLiteral"
  shows "ProcessDirective ''line'' st =
           (Inr (), (snd (Parser_AcceptIt (snd (Parser_AcceptIt st))))
                      \<lparr>sourceOrigin :=
                         (SpellContent s,
                          sint (FromString_int32 (tok_spell (tkn st)) - word_of_nat (tok_row s) - 1))\<rparr>)"
  using assms
  by (simp add: ProcessDirective_def parser_monad_defs Parser_AcceptIt_def Scanner_Next_def Is_def
      NextSourceOrigin_def)

lemma AcceptIt_other_directive:
  assumes "scanner_source st = d # t # rest" and "tok_type d = Tok_Directive" and "tok_spell d \<noteq> ''line''"
      and "tok_type t \<noteq> Tok_Directive"
  shows "AcceptIt st =
           (Inl (Report_exn (error_report
              (''only '' @ [CHR 0x27] @ ''#line'' @ [CHR 0x27] @ ''-directives are allowed after pre-processing'')
              Err_Unknown)),
            st\<lparr>previousToken := d, tkn := t, scanner_source := rest, hasErrors := True\<rparr>)"
proof -
  obtain m where f: "2 * length (scanner_source st) + 4 = Suc (Suc (Suc m))"
    using assms(1) by (simp add: numeral_eq_Suc)
  show ?thesis
    unfolding AcceptIt_def f using assms
    by (simp add: parser_monad_defs Parser_AcceptIt_def Scanner_Next_def Is_def ProcessDirective_other
        post_process_directives_plain)
qed

lemma AcceptIt_line_directive:
  assumes "scanner_source st = d # i # s # t # rest" and "tok_type d = Tok_Directive" and "tok_spell d = ''line''"
      and "tok_type i = Tok_IntLiteral" and "tok_type s = Tok_StringLiteral" and "tok_type t \<noteq> Tok_Directive"
  shows "AcceptIt st =
           (Inr (tkn st),
            st\<lparr>previousToken := s, tkn := t, scanner_source := rest,
               sourceOrigin :=
                 (SpellContent s, sint (FromString_int32 (tok_spell i) - word_of_nat (tok_row s) - 1))\<rparr>)"
proof -
  obtain m where f: "2 * length (scanner_source st) + 4 = Suc (Suc (Suc m))"
    using assms(1) by (simp add: numeral_eq_Suc)
  show ?thesis
    unfolding AcceptIt_def f using assms
    by (simp add: parser_monad_defs Parser_AcceptIt_def Scanner_Next_def Is_def ProcessDirective_line
        post_process_directives_plain)
qed

text \<open>
  Claim C7. \<^verbatim>\<open>ProcessDirective\<close> ends with an error for every directive that is not
  \<^verbatim>\<open>line\<close>. For \<^verbatim>\<open>line\<close>, followed by an integer literal that reads as a number \<open>N\<close> in the
  range of \<^verbatim>\<open>int\<close> and a string literal, on a row in that range, it passes to
  \<^verbatim>\<open>NextSourceOrigin\<close> the literal's content as the file name and the offset \<open>N\<close> minus the row
  of the directive minus one, and records no error; with that origin the position reported for
  every token is in that file, and a token \<open>k\<close> lines after the line that follows the directive
  is reported on row \<open>N + k\<close>. The same holds in the token stream, where \<^verbatim>\<open>AcceptIt\<close> meets the
  directive behind the token it accepts.
\<close>

theorem line_directive:
  fixes st :: "'r Parser"
  shows
  "(ident \<noteq> ''line'' \<longrightarrow>
      (\<exists>r. ProcessDirective ident st = (Inl (Report_exn r), st\<lparr>hasErrors := True\<rparr>) \<and>
           rtype r = Types_Error)) \<and>
   (Is Tok_IntLiteral st \<and> scanner_source st = s # rest \<and> tok_type s = Tok_StringLiteral \<and>
    0 \<le> FromString_int (tok_spell (tkn st)) \<and> FromString_int (tok_spell (tkn st)) < 2 ^ 31 \<and>
    tok_row s < 2 ^ 31 \<longrightarrow>
      (\<exists>st'. ProcessDirective ''line'' st = (Inr (), st') \<and>
             sourceOrigin st' = (SpellContent s, FromString_int (tok_spell (tkn st)) - int (tok_row s) - 1) \<and>
             (\<forall>u k. tok_row u = tok_row s + 1 + k \<longrightarrow>
                    reported_position st' u = (SpellContent s, FromString_int (tok_spell (tkn st)) + int k)) \<and>
             hasErrors st' = hasErrors st)) \<and>
   (scanner_source st = d # t # rest \<and> tok_type d = Tok_Directive \<and> tok_spell d \<noteq> ''line'' \<and>
    tok_type t \<noteq> Tok_Directive \<longrightarrow>
      (\<exists>r st'. AcceptIt st = (Inl (Report_exn r), st') \<and> rtype r = Types_Error \<and> hasErrors st')) \<and>
   (scanner_source st = d # i # s # t # rest \<and> tok_type d = Tok_Directive \<and> tok_spell d = ''line'' \<and>
    tok_type i = Tok_IntLiteral \<and> tok_type s = Tok_StringLiteral \<and> tok_type t \<noteq> Tok_Directive \<and>
    0 \<le> FromString_int (tok_spell i) \<and> FromString_int (tok_spell i) < 2 ^ 31 \<and> tok_row s < 2 ^ 31 \<longrightarrow>
      (\<exists>st'. AcceptIt st = (Inr (tkn st), st') \<and> tkn st' = t \<and> scanner_source st' = rest \<and>
             sourceOrigin st' = (SpellContent s, FromString_int (tok_spell i) - int (tok_row s) - 1) \<and>
             (\<forall>u k. tok_row u = tok_row s + 1 + k \<longrightarrow>
                    reported_position st' u = (SpellContent s, FromString_int (tok_spell i) + int k)) \<and>
             hasErrors st' = hasErrors st))"
proof (intro conjI impI)
  assume "ident \<noteq> ''line''"
  then show "\<exists>r. ProcessDirective ident st = (Inl (Report_exn r), st\<lparr>hasErrors := True\<rparr>) \<and> rtype r = Types_Error"
    by (simp add: ProcessDirective_other error_report_def)
next
  assume a: "Is Tok_IntLiteral st \<and> scanner_source st = s # rest \<and> tok_type s = Tok_StringLiteral \<and>
    0 \<le> FromString_int (tok_spell (tkn st)) \<and> FromString_int (tok_spell (tkn st)) < 2 ^ 31 \<and>
    tok_row s < 2 ^ 31"
  then have o: "sint (FromString_int32 (tok_spell (tkn st)) - word_of_nat (tok_row s) - 1) =
      FromString_int (tok_spell (tkn st)) - int (tok_row s) - 1"
    unfolding FromString_int32_def by (intro line_offset_in_range) simp_all
  from a show "\<exists>st'. ProcessDirective ''line'' st = (Inr (), st') \<and>
             sourceOrigin st' = (SpellContent s, FromString_int (tok_spell (tkn st)) - int (tok_row s) - 1) \<and>
             (\<forall>u k. tok_row u = tok_row s + 1 + k \<longrightarrow>
                    reported_position st' u = (SpellContent s, FromString_int (tok_spell (tkn st)) + int k)) \<and>
             hasErrors st' = hasErrors st"
    by (simp add: ProcessDirective_line o reported_position_def origin_filename_def origin_row_def
        Parser_AcceptIt_def)
next
  assume "scanner_source st = d # t # rest \<and> tok_type d = Tok_Directive \<and> tok_spell d \<noteq> ''line'' \<and>
    tok_type t \<noteq> Tok_Directive"
  then show "\<exists>r st'. AcceptIt st = (Inl (Report_exn r), st') \<and> rtype r = Types_Error \<and> hasErrors st'"
    by (simp add: AcceptIt_other_directive error_report_def)
next
  assume a: "scanner_source st = d # i # s # t # rest \<and> tok_type d = Tok_Directive \<and> tok_spell d = ''line'' \<and>
    tok_type i = Tok_IntLiteral \<and> tok_type s = Tok_StringLiteral \<and> tok_type t \<noteq> Tok_Directive \<and>
    0 \<le> FromString_int (tok_spell i) \<and> FromString_int (tok_spell i) < 2 ^ 31 \<and> tok_row s < 2 ^ 31"
  then have o: "sint (FromString_int32 (tok_spell i) - word_of_nat (tok_row s) - 1) =
      FromString_int (tok_spell i) - int (tok_row s) - 1"
    unfolding FromString_int32_def by (intro line_offset_in_range) simp_all
  from a show "\<exists>st'. AcceptIt st = (Inr (tkn st), st') \<and> tkn st' = t \<and> scanner_source st' = rest \<and>
             sourceOrigin st' = (SpellContent s, FromString_int (tok_spell i) - int (tok_row s) - 1) \<and>
             (\<forall>u k. tok_row u = tok_row s + 1 + k \<longrightarrow>
                    reported_position st' u = (SpellContent s, FromString_int (tok_spell i) + int k)) \<and>
             hasErrors st' = hasErrors st"
    by (simp add: AcceptIt_line_directive o reported_position_def origin_filename_def origin_row_def)
qed

text \<open>For instance, after \<^verbatim>\<open>#line 10 "a.hlsl"\<close> on row 4, the tokens on rows 5 and 7 are
  reported on rows 10 and 12 of a.hlsl, and \<^verbatim>\<open>#pragma\<close> is an error.\<close>

theorem line_directive_witness:
  "fst (AcceptIt (parser_at (directive_text ''line'') [])) = Inr (token_at 3 Tok_Semicolon '';'') \<and>
   tkn (snd (AcceptIt (parser_at (directive_text ''line'') []))) = token_at 5 Tok_Ident ''x'' \<and>
   sourceOrigin (snd (AcceptIt (parser_at (directive_text ''line'') []))) = (''a.hlsl'', 5) \<and>
   reported_position (snd (AcceptIt (parser_at (directive_text ''line'') []))) (token_at 5 Tok_Ident ''x'') =
     (''a.hlsl'', 10) \<and>
   reported_position (snd (AcceptIt (parser_at (directive_text ''line'') []))) (token_at 7 Tok_Ident ''y'') =
     (''a.hlsl'', 12) \<and>
   (\<exists>r. fst (AcceptIt (parser_at (directive_text ''pragma'') [])) = Inl (Report_exn r) \<and> rtype r = Types_Error) \<and>
   hasErrors (snd (AcceptIt (parser_at (directive_text ''pragma'') []))) \<and>
   (\<exists>r st'. ProcessDirective ''pragma'' (parser_at (tl (tl (directive_text ''pragma''))) []) = (Inl (Report_exn r), st') \<and>
      rtype r = Types_Error) \<and>
   fst (ProcessDirective ''line'' (parser_at (tl (tl (directive_text ''line''))) [])) = Inr ()"
  using line_directive [where ident = "''pragma''" and st = "parser_at (tl (tl (directive_text ''pragma''))) []"
          and s = "token_at 4 Tok_StringLiteral (CHR 0x22 # ''a.hlsl'' @ [CHR 0x22])"
          and rest = "[token_at 5 Tok_Ident ''x'', token_at 7 Tok_Ident ''y'']"]
        line_directive [where ident = "''pragma''" and st = "parser_at (directive_text ''pragma'') []"
          and d = "token_at 4 Tok_Directive ''pragma''" and t = "token_at 4 Tok_IntLiteral ''10''"
          and rest = "[token_at 4 Tok_StringLiteral (CHR 0x22 # ''a.hlsl'' @ [CHR 0x22]),
                       token_at 5 Tok_Ident ''x'', token_at 7 Tok_Ident ''y'']"]
        line_directive [where ident = "''line''" and st = "parser_at (directive_text ''line'') []"
          and d = "token_at 4 Tok_Directive ''line''" and i = "token_at 4 Tok_IntLiteral ''10''"
          and s = "token_at 4 Tok_StringLiteral (CHR 0x22 # ''a.hlsl'' @ [CHR 0x22])"
          and t = "token_at 5 Tok_Ident ''x''" and rest = "[token_at 7 Tok_Ident ''y'']"]
  by (simp add: parser_at_def directive_text_def token_at_def AcceptIt_line_directive AcceptIt_other_directive
      ProcessDirective_other ProcessDirective_line Is_def FromString_int32_def reported_position_def
      origin_filename_def origin_row_def SpellContent_def FromString_int_def error_report_def Parser_AcceptIt_def
      Scanner_Next_def)

subsection \<open>Cast expressions\<close>

lemma ParseArrayAccessExpr_shape:
  "ParseArrayAccessExpr n e st = (Inr r, st') \<Longrightarrow> \<exists>indices. r = ArrayAccessExpr e indices"
  by (cases n) (auto simp add: ParseArrayAccessExpr.simps parser_monad_defs split: prod.splits sum.splits)

lemma ParseSuffixExpr_shape:
  "ParseSuffixExpr n e st = (Inr r, st') \<Longrightarrow> \<exists>varIdent. r = SuffixExpr e varIdent"
  by (cases n) (auto simp add: ParseSuffixExpr.simps parser_monad_defs split: prod.splits sum.splits)

lemma ParseBracketOrCastExpr_steps:
  assumes "fst (Accept Tok_LBracket st) = Inr t0"
      and "fst (ParseExpr n True None (bracket_opened st)) = Inr x"
      and "fst (Accept Tok_RBracket (bracket_contents n st)) = Inr t1"
  shows "ParseBracketOrCastExpr (Suc n) st =
           (case MakeToTypeNameIfLhsOfCastExpr x (bracket_closed n st) of
              Some typeExpr \<Rightarrow>
                bindP (ParsePrimaryExpr n) (\<lambda>operand. returnP (CastExpr typeExpr operand)) (bracket_closed n st)
            | None \<Rightarrow>
                bindP (ifP (Is Tok_LParen) (ParseArrayAccessExpr n (BracketExpr x)) (returnP (BracketExpr x)))
                  (\<lambda>expr1. ifP (Is Tok_Dot) (ParseSuffixExpr n expr1) (returnP expr1)) (bracket_closed n st))"
proof -
  obtain st1 where a1: "Accept Tok_LBracket st = (Inr t0, st1)"
    using assms(1) by (cases "Accept Tok_LBracket st") simp
  obtain st2 where a2: "ParseExpr n True None (bracket_opened st) = (Inr x, st2)"
    using assms(2) by (cases "ParseExpr n True None (bracket_opened st)") simp
  obtain st3 where a3: "Accept Tok_RBracket (bracket_contents n st) = (Inr t1, st3)"
    using assms(3) by (cases "Accept Tok_RBracket (bracket_contents n st)") simp
  have o: "bracket_opened st = (if ActiveParsingState st1 then st1\<lparr>parsingStates := False # parsingStates st1\<rparr> else st1)"
    by (simp add: bracket_opened_def a1)
  have c: "bracket_contents n st = (if ActiveParsingState st1 then st2\<lparr>parsingStates := tl (parsingStates st2)\<rparr> else st2)"
    by (simp add: bracket_contents_def a1 a2)
  have d: "bracket_closed n st = st3"
    by (simp add: bracket_closed_def a3)
  show ?thesis
  proof (cases "ActiveParsingState st1")
    case True
    with o c a2 a3 have "ParseExpr n True None (st1\<lparr>parsingStates := False # parsingStates st1\<rparr>) = (Inr x, st2)"
      "Accept Tok_RBracket (st2\<lparr>parsingStates := tl (parsingStates st2)\<rparr>) = (Inr t1, st3)"
      by simp_all
    then show ?thesis
      using True
      by (simp add: ParseBracketOrCastExpr.simps bindP_def thenP_def ifP_def getP_def returnP_def modifyP_def
          PushParsingState_def PopParsingState_def a1 d split: option.splits)
  next
    case False
    with o c a2 a3 have "ParseExpr n True None st1 = (Inr x, st2)" "Accept Tok_RBracket st2 = (Inr t1, st3)"
      by simp_all
    then show ?thesis
      using False
      by (simp add: ParseBracketOrCastExpr.simps bindP_def thenP_def ifP_def getP_def returnP_def a1 d
          split: option.splits)
  qed
qed

text \<open>
  Claim C1. Let \<^verbatim>\<open>ParseBracketOrCastExpr\<close> accept the opening bracket, parse a variable access
  with an un-dotted identifier inside, and accept the closing bracket. If the identifier is a
  registered type name at that point, the function parses one more primary expression and
  returns the cast of that operand to the alias type of the identifier (or the error of the
  operand). If it is not, the result is never a cast: it is the bracket expression, which is
  returned as it is unless \<^verbatim>\<open>[\<close> or \<^verbatim>\<open>.\<close> follows, and is then the inner expression of the
  array access or the suffix expression.
\<close>

theorem cast_disambiguation:
  assumes "fst (Accept Tok_LBracket st) = Inr t0"
      and "fst (ParseExpr n True None (bracket_opened st)) = Inr (VarAccessExpr varIdent op assignExpr)"
      and "var_next varIdent = None"
      and "fst (Accept Tok_RBracket (bracket_contents n st)) = Inr t1"
  shows "(IsRegisteredTypeName (var_ident varIdent) (bracket_closed n st) \<longrightarrow>
            (\<forall>operand st'. ParsePrimaryExpr n (bracket_closed n st) = (Inr operand, st') \<longrightarrow>
               ParseBracketOrCastExpr (Suc n) st =
                 (Inr (CastExpr (TypeNameExpr (AliasTypeDenoter (var_ident varIdent))) operand), st')) \<and>
            (\<forall>e st'. ParsePrimaryExpr n (bracket_closed n st) = (Inl e, st') \<longrightarrow>
               ParseBracketOrCastExpr (Suc n) st = (Inl e, st'))) \<and>
         (\<not> IsRegisteredTypeName (var_ident varIdent) (bracket_closed n st) \<longrightarrow>
            (\<not> Is Tok_LParen (bracket_closed n st) \<and> \<not> Is Tok_Dot (bracket_closed n st) \<longrightarrow>
               ParseBracketOrCastExpr (Suc n) st =
                 (Inr (BracketExpr (VarAccessExpr varIdent op assignExpr)), bracket_closed n st)) \<and>
            (\<forall>e st'. ParseBracketOrCastExpr (Suc n) st = (Inr e, st') \<longrightarrow>
               (\<exists>indices suffix.
                  e = BracketExpr (VarAccessExpr varIdent op assignExpr) \<or>
                  e = ArrayAccessExpr (BracketExpr (VarAccessExpr varIdent op assignExpr)) indices \<or>
                  e = SuffixExpr (BracketExpr (VarAccessExpr varIdent op assignExpr)) suffix \<or>
                  e = SuffixExpr (ArrayAccessExpr (BracketExpr (VarAccessExpr varIdent op assignExpr)) indices) suffix)))"
proof -
  note s = ParseBracketOrCastExpr_steps [OF assms(1,2,4)]
  show ?thesis
  proof (intro conjI impI allI)
    fix operand st'
    assume "IsRegisteredTypeName (var_ident varIdent) (bracket_closed n st)"
      and "ParsePrimaryExpr n (bracket_closed n st) = (Inr operand, st')"
    then show "ParseBracketOrCastExpr (Suc n) st =
        (Inr (CastExpr (TypeNameExpr (AliasTypeDenoter (var_ident varIdent))) operand), st')"
      using assms(3) by (simp add: s MakeToTypeNameIfLhsOfCastExpr_def bindP_def returnP_def)
  next
    fix e st'
    assume "IsRegisteredTypeName (var_ident varIdent) (bracket_closed n st)"
      and "ParsePrimaryExpr n (bracket_closed n st) = (Inl e, st')"
    then show "ParseBracketOrCastExpr (Suc n) st = (Inl e, st')"
      using assms(3) by (simp add: s MakeToTypeNameIfLhsOfCastExpr_def bindP_def returnP_def)
  next
    assume "\<not> IsRegisteredTypeName (var_ident varIdent) (bracket_closed n st)"
      and "\<not> Is Tok_LParen (bracket_closed n st) \<and> \<not> Is Tok_Dot (bracket_closed n st)"
    then show "ParseBracketOrCastExpr (Suc n) st =
        (Inr (BracketExpr (VarAccessExpr varIdent op assignExpr)), bracket_closed n st)"
      by (simp add: s MakeToTypeNameIfLhsOfCastExpr_def bindP_def returnP_def ifP_def)
  next
    fix e st'
    assume r: "\<not> IsRegisteredTypeName (var_ident varIdent) (bracket_closed n st)"
      and p: "ParseBracketOrCastExpr (Suc n) st = (Inr e, st')"
    let ?b = "BracketExpr (VarAccessExpr varIdent op assignExpr)"
    from r p have q: "bindP (ifP (Is Tok_LParen) (ParseArrayAccessExpr n ?b) (returnP ?b))
        (\<lambda>expr1. ifP (Is Tok_Dot) (ParseSuffixExpr n expr1) (returnP expr1)) (bracket_closed n st) = (Inr e, st')"
      by (simp add: s MakeToTypeNameIfLhsOfCastExpr_def)
    then obtain e1 st4 where
      f: "ifP (Is Tok_LParen) (ParseArrayAccessExpr n ?b) (returnP ?b) (bracket_closed n st) = (Inr e1, st4)"
      and g: "ifP (Is Tok_Dot) (ParseSuffixExpr n e1) (returnP e1) st4 = (Inr e, st')"
      by (auto simp add: bindP_def split: prod.splits sum.splits)
    from f have e1: "e1 = ?b \<or> (\<exists>indices. e1 = ArrayAccessExpr ?b indices)"
      by (auto simp add: ifP_def returnP_def dest: ParseArrayAccessExpr_shape split: if_splits)
    from g have "e = e1 \<or> (\<exists>suffix. e = SuffixExpr e1 suffix)"
      by (auto simp add: ifP_def returnP_def dest: ParseSuffixExpr_shape split: if_splits)
    with e1 show "\<exists>indices suffix.
        e = ?b \<or> e = ArrayAccessExpr ?b indices \<or> e = SuffixExpr ?b suffix \<or>
        e = SuffixExpr (ArrayAccessExpr ?b indices) suffix"
      by auto
  qed
qed

text \<open>The text \<^verbatim>\<open>(X)-(1);\<close>: with \<open>X\<close> registered it is a cast of \<^verbatim>\<open>-(1)\<close> to \<open>X\<close>; without,
  the bracket is a bracket expression and the whole expression a subtraction.\<close>

lemmas example_defs = parser_at_def cast_text_def token_at_def example_depth_def

theorem cast_disambiguation_witness:
  "ParseBracketOrCastExpr (Suc example_depth) (parser_at cast_text [[''X'']]) =
     (Inr (CastExpr (TypeNameExpr (AliasTypeDenoter ''X''))
             (UnaryExpr UnaryOp_Negate (BracketExpr (LiteralExpr DataType_Int ''1'')))),
      parser_at [token_at 1 Tok_RBracket '')'', token_at 1 Tok_Semicolon '';''] [[''X'']]
        \<lparr>previousToken := token_at 1 Tok_RBracket '')'', tkn := token_at 1 Tok_Semicolon '';'', scanner_source := []\<rparr>) \<and>
   ParseBracketOrCastExpr (Suc example_depth) (parser_at cast_text [[]]) =
     (Inr (BracketExpr (VarAccessExpr (VarIdent ''X'' [] None) AssignOp_Undefined None)),
      parser_at (tl (tl (tl cast_text))) [[]] \<lparr>previousToken := token_at 1 Tok_RBracket '')''\<rparr>) \<and>
   fst (ParseExpr (Suc (Suc (Suc example_depth))) False None (parser_at cast_text [[]])) =
     Inr (BinaryExpr (BracketExpr (VarAccessExpr (VarIdent ''X'' [] None) AssignOp_Undefined None))
            BinaryOp_Sub (BracketExpr (LiteralExpr DataType_Int ''1'')))"
  using cast_disambiguation [of "parser_at cast_text [[''X'']]" "token_at 1 Tok_LBracket ''(''" example_depth
          "VarIdent ''X'' [] None" AssignOp_Undefined None "token_at 1 Tok_RBracket '')''"]
        cast_disambiguation [of "parser_at cast_text [[]]" "token_at 1 Tok_LBracket ''(''" example_depth
          "VarIdent ''X'' [] None" AssignOp_Undefined None "token_at 1 Tok_RBracket '')''"]
  by (simp add: bracket_closed_def bracket_contents_def bracket_opened_def parser_run example_defs)

subsection \<open>Statements that start with an identifier\<close>

text \<open>The equations of the functions that parse declarations and statements are used, like
  those of the expressions, only where the function is run on a state.\<close>

declare ParseRegisterList_loop.simps [simp del]
  ParseAttribute_arguments.simps [simp del]
  ParseAttributeList.simps [simp del]
  ParseSamplerValueList.simps [simp del]
  ParseSamplerDeclList.simps [simp del]
  ParseAliasDeclList.simps [simp del]
  ParseVarDeclStmnt.simps [simp del]
  ParseVarDeclStmnt_loop.simps [simp del]
  ParseVarDeclList.simps [simp del]
  ParseVarDecl.simps [simp del]
  ParseVarDeclSemantic.simps [simp del]
  ParseAnnotationList.simps [simp del]
  ParseAnnotationList_loop.simps [simp del]
  ParseStructDecl.simps [simp del]
  ParseVarDeclStmntList.simps [simp del]
  ParseVarDeclStmntList_loop.simps [simp del]
  ParseStmnt.simps [simp del]
  ParseCodeBlock.simps [simp del]
  ParseStmntList.simps [simp del]
  ParseCodeBlockStmnt.simps [simp del]
  ParseForLoopStmnt.simps [simp del]
  ParseWhileLoopStmnt.simps [simp del]
  ParseDoWhileLoopStmnt.simps [simp del]
  ParseIfStmnt.simps [simp del]
  ParseElseStmnt.simps [simp del]
  ParseSwitchStmnt.simps [simp del]
  ParseSwitchCaseList.simps [simp del]
  ParseSwitchCase.simps [simp del]
  ParseSwitchCase_stmnts.simps [simp del]

lemmas ParseRegisterList_loop_run = ParseRegisterList_loop.simps [THEN arg_cong [where f = run]]
lemmas ParseAttribute_arguments_run = ParseAttribute_arguments.simps [THEN arg_cong [where f = run]]
lemmas ParseAttributeList_run = ParseAttributeList.simps [THEN arg_cong [where f = run]]
lemmas ParseSamplerValueList_run = ParseSamplerValueList.simps [THEN arg_cong [where f = run]]
lemmas ParseSamplerDeclList_run = ParseSamplerDeclList.simps [THEN arg_cong [where f = run]]
lemmas ParseAliasDeclList_run = ParseAliasDeclList.simps [THEN arg_cong [where f = run]]
lemmas ParseVarDeclStmnt_run = ParseVarDeclStmnt.simps [THEN arg_cong [where f = run]]
lemmas ParseVarDeclStmnt_loop_run = ParseVarDeclStmnt_loop.simps [THEN arg_cong [where f = run]]
lemmas ParseVarDeclList_run = ParseVarDeclList.simps [THEN fun_cong, THEN arg_cong [where f = run]]
lemmas ParseVarDecl_run = ParseVarDecl.simps [THEN fun_cong, THEN arg_cong [where f = run]]
lemmas ParseVarDeclSemantic_run = ParseVarDeclSemantic.simps [THEN fun_cong, THEN fun_cong, THEN fun_cong, THEN arg_cong [where f = run]]
lemmas ParseAnnotationList_run = ParseAnnotationList.simps [THEN arg_cong [where f = run]]
lemmas ParseAnnotationList_loop_run = ParseAnnotationList_loop.simps [THEN arg_cong [where f = run]]
lemmas ParseStructDecl_run = ParseStructDecl.simps [THEN fun_cong, THEN fun_cong, THEN arg_cong [where f = run]]
lemmas ParseVarDeclStmntList_run = ParseVarDeclStmntList.simps [THEN arg_cong [where f = run]]
lemmas ParseVarDeclStmntList_loop_run = ParseVarDeclStmntList_loop.simps [THEN arg_cong [where f = run]]
lemmas ParseStmnt_run = ParseStmnt.simps [THEN arg_cong [where f = run]]
lemmas ParseCodeBlock_run = ParseCodeBlock.simps [THEN arg_cong [where f = run]]
lemmas ParseStmntList_run = ParseStmntList.simps [THEN arg_cong [where f = run]]
lemmas ParseCodeBlockStmnt_run = ParseCodeBlockStmnt.simps [THEN arg_cong [where f = run]]
lemmas ParseForLoopStmnt_run = ParseForLoopStmnt.simps [THEN fun_cong, THEN arg_cong [where f = run]]
lemmas ParseWhileLoopStmnt_run = ParseWhileLoopStmnt.simps [THEN fun_cong, THEN arg_cong [where f = run]]
lemmas ParseDoWhileLoopStmnt_run = ParseDoWhileLoopStmnt.simps [THEN fun_cong, THEN arg_cong [where f = run]]
lemmas ParseIfStmnt_run = ParseIfStmnt.simps [THEN fun_cong, THEN arg_cong [where f = run]]
lemmas ParseElseStmnt_run = ParseElseStmnt.simps [THEN arg_cong [where f = run]]
lemmas ParseSwitchStmnt_run = ParseSwitchStmnt.simps [THEN fun_cong, THEN arg_cong [where f = run]]
lemmas ParseSwitchCaseList_run = ParseSwitchCaseList.simps [THEN arg_cong [where f = run]]
lemmas ParseSwitchCase_run = ParseSwitchCase.simps [THEN arg_cong [where f = run]]
lemmas ParseSwitchCase_stmnts_run = ParseSwitchCase_stmnts.simps [THEN arg_cong [where f = run]]
lemmas ParseRegister_run = ParseRegister_def [THEN arg_cong [where f = run]]
lemmas ParsePackOffset_run = ParsePackOffset_def [THEN arg_cong [where f = run]]
lemmas ParseSemantic_run = ParseSemantic_def [THEN arg_cong [where f = run]]
lemmas ParseStorageClass_run = ParseStorageClass_def [THEN arg_cong [where f = run]]
lemmas ParseRegisterList_run = ParseRegisterList_def [THEN arg_cong [where f = run]]
lemmas ParseInitializer_run = ParseInitializer_def [THEN arg_cong [where f = run]]
lemmas ParseAttribute_run = ParseAttribute_def [THEN arg_cong [where f = run]]
lemmas ParseSamplerValue_run = ParseSamplerValue_def [THEN arg_cong [where f = run]]
lemmas ParseSamplerStateTextureIdent_run = ParseSamplerStateTextureIdent_def [THEN arg_cong [where f = run]]
lemmas ParseSamplerDecl_run = ParseSamplerDecl_def [THEN arg_cong [where f = run]]
lemmas ParseAliasDecl_run = ParseAliasDecl_def [THEN arg_cong [where f = run]]
lemmas ParseTypeDenoterWithStructDeclOpt_run = ParseTypeDenoterWithStructDeclOpt_def [THEN arg_cong [where f = run]]
lemmas ParseAliasDeclStmnt_run = ParseAliasDeclStmnt_def [THEN arg_cong [where f = run]]
lemmas ParseSamplerDeclStmnt_run = ParseSamplerDeclStmnt_def [THEN arg_cong [where f = run]]
lemmas ParseStructDeclOrVarDeclStmnt_run = ParseStructDeclOrVarDeclStmnt_def [THEN arg_cong [where f = run]]
lemmas ParseNullStmnt_run = ParseNullStmnt_def [THEN arg_cong [where f = run]]
lemmas ParseCtrlTransferStmnt_run = ParseCtrlTransferStmnt_def [THEN arg_cong [where f = run]]
lemmas ParseReturnStmnt_run = ParseReturnStmnt_def [THEN arg_cong [where f = run]]
lemmas ParseExprStmnt_run = ParseExprStmnt_def [THEN arg_cong [where f = run]]
lemmas ParseVarDeclOrAssignOrFunctionCallStmnt_run = ParseVarDeclOrAssignOrFunctionCallStmnt_def [THEN arg_cong [where f = run]]

lemma run_catch_std_exception:
  "run (catch_std_exception p) st =
     (case run p st of
        (Inl (runtime_error msg), st1) \<Rightarrow> run (Error msg) st1
      | (Inl (invalid_argument msg), st1) \<Rightarrow> run (Error msg) st1
      | (Inl (ASTRuntimeError msg), st1) \<Rightarrow> run (Error msg) st1
      | r \<Rightarrow> r)"
  by (simp add: run_def catch_std_exception_def split: prod.splits sum.splits exn.splits)

lemmas base_parser_run =
  Semi_def ParseAliasTypeDenoter_def OpenScope_def CloseScope_def RegisterTypeName_def
  ParseDataType_def ParseSamplerType_def ParseVoidTypeDenoter_def ParseBaseTypeDenoter_def
  ParseTextureTypeDenoter_def ParseSamplerTypeDenoter_def ParseStructTypeDenoter_def
  StringToCtrlTransfer_def

lemmas stmnt_parser_run =
  run_catch_std_exception MakeVarType_def no_semantic_def HLSLShaderProfileToTarget_def
  ParseRegisterList_loop_run
  ParseAttribute_arguments_run
  ParseAttributeList_run
  ParseSamplerValueList_run
  ParseSamplerDeclList_run
  ParseAliasDeclList_run
  ParseVarDeclStmnt_run
  ParseVarDeclStmnt_loop_run
  ParseVarDeclList_run
  ParseVarDecl_run
  ParseVarDeclSemantic_run
  ParseAnnotationList_run
  ParseAnnotationList_loop_run
  ParseStructDecl_run
  ParseVarDeclStmntList_run
  ParseVarDeclStmntList_loop_run
  ParseStmnt_run
  ParseCodeBlock_run
  ParseStmntList_run
  ParseCodeBlockStmnt_run
  ParseForLoopStmnt_run
  ParseWhileLoopStmnt_run
  ParseDoWhileLoopStmnt_run
  ParseIfStmnt_run
  ParseElseStmnt_run
  ParseSwitchStmnt_run
  ParseSwitchCaseList_run
  ParseSwitchCase_run
  ParseSwitchCase_stmnts_run
  ParseRegister_run
  ParsePackOffset_run
  ParseSemantic_run
  ParseStorageClass_run
  ParseRegisterList_run
  ParseInitializer_run
  ParseAttribute_run
  ParseSamplerValue_run
  ParseSamplerStateTextureIdent_run
  ParseSamplerDecl_run
  ParseAliasDecl_run
  ParseTypeDenoterWithStructDeclOpt_run
  ParseAliasDeclStmnt_run
  ParseSamplerDeclStmnt_run
  ParseStructDeclOrVarDeclStmnt_run
  ParseNullStmnt_run
  ParseCtrlTransferStmnt_run
  ParseReturnStmnt_run
  ParseExprStmnt_run
  ParseVarDeclOrAssignOrFunctionCallStmnt_run

lemmas stmnt_parser_entry =
  run_entry [where p = "ParseRegisterList_loop n" for n]
  run_entry [where p = "ParseAttribute_arguments n" for n]
  run_entry [where p = "ParseAttributeList n" for n]
  run_entry [where p = "ParseSamplerValueList n" for n]
  run_entry [where p = "ParseSamplerDeclList n" for n]
  run_entry [where p = "ParseAliasDeclList n a0" for n a0]
  run_entry [where p = "ParseVarDeclStmnt n" for n]
  run_entry [where p = "ParseVarDeclStmnt_loop n" for n]
  run_entry [where p = "ParseVarDeclList n a0" for n a0]
  run_entry [where p = "ParseVarDecl n a0" for n a0]
  run_entry [where p = "ParseVarDeclSemantic n a0 a1 a2" for n a0 a1 a2]
  run_entry [where p = "ParseAnnotationList n" for n]
  run_entry [where p = "ParseAnnotationList_loop n" for n]
  run_entry [where p = "ParseStructDecl n a0 a1" for n a0 a1]
  run_entry [where p = "ParseVarDeclStmntList n" for n]
  run_entry [where p = "ParseVarDeclStmntList_loop n" for n]
  run_entry [where p = "ParseStmnt n" for n]
  run_entry [where p = "ParseCodeBlock n" for n]
  run_entry [where p = "ParseStmntList n" for n]
  run_entry [where p = "ParseCodeBlockStmnt n" for n]
  run_entry [where p = "ParseForLoopStmnt n a0" for n a0]
  run_entry [where p = "ParseWhileLoopStmnt n a0" for n a0]
  run_entry [where p = "ParseDoWhileLoopStmnt n a0" for n a0]
  run_entry [where p = "ParseIfStmnt n a0" for n a0]
  run_entry [where p = "ParseElseStmnt n" for n]
  run_entry [where p = "ParseSwitchStmnt n a0" for n a0]
  run_entry [where p = "ParseSwitchCaseList n" for n]
  run_entry [where p = "ParseSwitchCase n" for n]
  run_entry [where p = "ParseSwitchCase_stmnts n" for n]
  run_entry [where p = "ParseRegister a0" for a0]
  run_entry [where p = "ParsePackOffset a0" for a0]
  run_entry [where p = "ParseSemantic a0" for a0]
  run_entry [where p = "ParseStorageClass"]
  run_entry [where p = "ParseRegisterList a0 a1" for a0 a1]
  run_entry [where p = "ParseInitializer a0" for a0]
  run_entry [where p = "ParseAttribute a0" for a0]
  run_entry [where p = "ParseSamplerValue a0" for a0]
  run_entry [where p = "ParseSamplerStateTextureIdent"]
  run_entry [where p = "ParseSamplerDecl a0" for a0]
  run_entry [where p = "ParseAliasDecl a0 a1" for a0 a1]
  run_entry [where p = "ParseTypeDenoterWithStructDeclOpt a0 a1" for a0 a1]
  run_entry [where p = "ParseAliasDeclStmnt a0" for a0]
  run_entry [where p = "ParseSamplerDeclStmnt a0" for a0]
  run_entry [where p = "ParseStructDeclOrVarDeclStmnt a0" for a0]
  run_entry [where p = "ParseNullStmnt"]
  run_entry [where p = "ParseCtrlTransferStmnt"]
  run_entry [where p = "ParseReturnStmnt a0" for a0]
  run_entry [where p = "ParseExprStmnt a0 a1" for a0 a1]
  run_entry [where p = "ParseVarDeclOrAssignOrFunctionCallStmnt a0" for a0]

text \<open>\<^verbatim>\<open>AcceptIt\<close> returns the token that was current. An expression that is parsed from a
  given first expression is that expression, possibly under a post-unary operator and
  possibly the first of a comma list; a function call that is parsed for a given identifier is
  the call of that identifier, possibly under array accesses and suffixes.\<close>

lemma AcceptIt_token: "AcceptIt st = (Inr t, st') \<Longrightarrow> t = tkn st"
proof -
  obtain m where f: "2 * length (scanner_source st) + 4 = Suc m"
    by (simp add: numeral_eq_Suc)
  show "AcceptIt st = (Inr t, st') \<Longrightarrow> t = tkn st"
    unfolding AcceptIt_def f
    by (auto simp add: bindP_def thenP_def returnP_def Parser_AcceptIt_def split: prod.splits sum.splits)
qed

lemma ParseExpr_init_shape:
  assumes "ParseExpr n c (Some x) st = (Inr e, st')"
  shows "e = x \<or> (\<exists>op. e = PostUnaryExpr x op) \<or> (\<exists>y. e = ListExpr x y) \<or>
         (\<exists>op y. e = ListExpr (PostUnaryExpr x op) y)"
  using assms
  by (cases n)
     (auto simp add: ParseExpr.simps parser_monad_defs split: prod.splits sum.splits if_splits)

lemma ParseExpr_init_post_unary:
  assumes "ParseExpr n c (Some x) st = (Inr e, st')"
      and "Is_spell Tok_UnaryOp ''++'' st \<or> Is_spell Tok_UnaryOp ''--'' st"
  shows "\<exists>op. (op = UnaryOp_Inc \<or> op = UnaryOp_Dec) \<and>
              (e = PostUnaryExpr x op \<or> (\<exists>y. e = ListExpr (PostUnaryExpr x op) y))"
  using assms
  by (cases n)
     (auto simp add: ParseExpr.simps parser_monad_defs Is_spell_def Is_def StringToUnaryOp_def
           dest!: AcceptIt_token split: prod.splits sum.splits if_splits)

lemma ParseFunctionCallExpr_shape:
  assumes "ParseFunctionCallExpr n (Some v) None st = (Inr x, st')"
  shows "\<exists>c. call_varIdent c = Some v \<and> head_expr x = FunctionCallExpr c"
proof (cases n)
  case 0
  with assms show ?thesis by (simp add: ParseFunctionCallExpr.simps throwP_def)
next
  case (Suc m)
  from assms obtain c st1 where c: "ParseFunctionCall_VarIdent m (Some v) st = (Inr c, st1)"
    and r: "bindP (ifP (Is Tok_LParen) (ParseArrayAccessExpr m (FunctionCallExpr c))
                     (returnP (FunctionCallExpr c)))
              (\<lambda>expr. ifP (Is Tok_Dot) (ParseSuffixExpr m expr) (returnP expr)) st1 = (Inr x, st')"
    unfolding Suc by (auto simp add: ParseFunctionCallExpr.simps bindP_def split: prod.splits sum.splits)
  from c have v: "call_varIdent c = Some v"
    by (cases m) (auto simp add: ParseFunctionCall_VarIdent.simps parser_monad_defs split: prod.splits sum.splits)
  from r obtain e1 st2 where
    f: "ifP (Is Tok_LParen) (ParseArrayAccessExpr m (FunctionCallExpr c)) (returnP (FunctionCallExpr c)) st1 =
          (Inr e1, st2)"
    and g: "ifP (Is Tok_Dot) (ParseSuffixExpr m e1) (returnP e1) st2 = (Inr x, st')"
    by (auto simp add: bindP_def split: prod.splits sum.splits)
  from f have e1: "head_expr e1 = FunctionCallExpr c"
    by (auto simp add: ifP_def returnP_def dest: ParseArrayAccessExpr_shape split: if_splits)
  from g have "head_expr x = head_expr e1"
    by (auto simp add: ifP_def returnP_def dest: ParseSuffixExpr_shape split: if_splits)
  with e1 v show ?thesis by simp
qed

lemma head_expr_init:
  assumes "ParseExpr n c (Some x) st = (Inr e, st')"
  shows "head_expr e = head_expr x"
  using ParseExpr_init_shape [OF assms] by auto

text \<open>
  Claim C9, as amended. A statement that starts with an identifier is parsed by
  \<^verbatim>\<open>ParseVarDeclOrAssignOrFunctionCallStmnt\<close>, which first parses a variable identifier (possibly
  dotted, with array indices) and then chooses by the token that follows. After \<^verbatim>\<open>(\<close> the
  statement it returns is an expression statement whose expression starts with the call of the
  identifier; after an assignment operator it is the expression statement of the assignment to
  the identifier with that operator; after \<^verbatim>\<open>++\<close> or \<^verbatim>\<open>--\<close> it is the expression statement of
  that post-unary operator on the identifier (possibly the first of a comma list). Otherwise an
  identifier without a dot becomes the alias type denoter of a variable declaration statement
  (the array of that alias type when the identifier has array indices), and for a dotted
  identifier the function ends in \<^verbatim>\<open>ErrorUnexpected\<close>, in the state after the identifier: no
  statement is made.
\<close>

theorem statement_disambiguation:
  assumes "fst (ParseVarIdent n st) = Inr varIdent"
  shows
  "(Is Tok_Ident st \<longrightarrow> ParseStmnt (Suc n) st = ParseVarDeclOrAssignOrFunctionCallStmnt n st) \<and>
   (Is Tok_LBracket (snd (ParseVarIdent n st)) \<longrightarrow>
      (\<forall>s st'. ParseVarDeclOrAssignOrFunctionCallStmnt n st = (Inr s, st') \<longrightarrow>
         (\<exists>e c. s = ExprStmnt e \<and> head_expr e = FunctionCallExpr c \<and> call_varIdent c = Some varIdent))) \<and>
   (\<not> Is Tok_LBracket (snd (ParseVarIdent n st)) \<and> Is Tok_AssignOp (snd (ParseVarIdent n st)) \<longrightarrow>
      (\<forall>s st'. ParseVarDeclOrAssignOrFunctionCallStmnt n st = (Inr s, st') \<longrightarrow>
         (\<exists>op e. s = ExprStmnt (VarAccessExpr varIdent op (Some e)) \<and>
                 StringToAssignOp (tok_spell (tkn (snd (ParseVarIdent n st)))) = Inr op))) \<and>
   (\<not> Is Tok_LBracket (snd (ParseVarIdent n st)) \<and> \<not> Is Tok_AssignOp (snd (ParseVarIdent n st)) \<and>
    (Is_spell Tok_UnaryOp ''++'' (snd (ParseVarIdent n st)) \<or>
     Is_spell Tok_UnaryOp ''--'' (snd (ParseVarIdent n st))) \<longrightarrow>
      (\<forall>s st'. ParseVarDeclOrAssignOrFunctionCallStmnt n st = (Inr s, st') \<longrightarrow>
         (\<exists>op. (op = UnaryOp_Inc \<or> op = UnaryOp_Dec) \<and>
               (s = ExprStmnt (PostUnaryExpr (VarAccessExpr varIdent AssignOp_Undefined None) op) \<or>
                (\<exists>e. s = ExprStmnt
                        (ListExpr (PostUnaryExpr (VarAccessExpr varIdent AssignOp_Undefined None) op) e)))))) \<and>
   (\<not> Is Tok_LBracket (snd (ParseVarIdent n st)) \<and> \<not> Is Tok_AssignOp (snd (ParseVarIdent n st)) \<and>
    \<not> Is_spell Tok_UnaryOp ''++'' (snd (ParseVarIdent n st)) \<and>
    \<not> Is_spell Tok_UnaryOp ''--'' (snd (ParseVarIdent n st)) \<longrightarrow>
      (var_next varIdent = None \<and> var_ident varIdent \<noteq> [] \<longrightarrow>
         (\<forall>s st'. ParseVarDeclOrAssignOrFunctionCallStmnt n st = (Inr s, st') \<longrightarrow>
            (\<exists>decls. s = VarDeclStatement (VarDeclStmnt [] [] []
                 (VarType (if var_arrayIndices varIdent \<noteq> []
                           then ArrayTypeDenoter (AliasTypeDenoter (var_ident varIdent)) (var_arrayIndices varIdent)
                           else AliasTypeDenoter (var_ident varIdent)) None) decls)))) \<and>
      (var_next varIdent \<noteq> None \<longrightarrow>
         ParseVarDeclOrAssignOrFunctionCallStmnt n st =
           ErrorUnexpected ''expected variable declaration, assignment or function call statement''
             (snd (ParseVarIdent n st))))"
proof -
  obtain st1 where v: "ParseVarIdent n st = (Inr varIdent, st1)"
    using assms by (cases "ParseVarIdent n st") simp
  have d: "ParseVarDeclOrAssignOrFunctionCallStmnt n st =
      (ifP (Is Tok_LBracket)
         (bindP (ParseFunctionCallExpr n (Some varIdent) None) (\<lambda>call.
          bindP (ParseExpr n True (Some call)) (\<lambda>e.
          thenP Semi (returnP (ExprStmnt e)))))
      (ifP (Is Tok_AssignOp)
         (bindP AcceptIt (\<lambda>t.
          bindP (liftE (StringToAssignOp (tok_spell t))) (\<lambda>op.
          bindP (ParseExpr n True None) (\<lambda>assignExpr.
          thenP Semi (returnP (ExprStmnt (VarAccessExpr varIdent op (Some assignExpr))))))))
      (ifP (\<lambda>st. Is_spell Tok_UnaryOp ''++'' st \<or> Is_spell Tok_UnaryOp ''--'' st)
         (ParseExprStmnt n (Some varIdent))
         (if var_next varIdent = None
          then bindP (ParseAliasTypeDenoter (var_ident varIdent)) (\<lambda>d.
               bindP (ParseVarDeclList n None) (\<lambda>decls.
               thenP Semi
                 (returnP (VarDeclStatement (VarDeclStmnt [] [] []
                    (VarType (if var_arrayIndices varIdent \<noteq> []
                              then ArrayTypeDenoter d (var_arrayIndices varIdent) else d) None)
                    decls)))))
          else ErrorUnexpected ''expected variable declaration, assignment or function call statement'')))) st1"
    by (simp add: ParseVarDeclOrAssignOrFunctionCallStmnt_def bindP_def v)
  have s1: "snd (ParseVarIdent n st) = st1" by (simp add: v)
  show ?thesis
    unfolding s1
  proof (intro conjI impI allI)
    assume "Is Tok_Ident st"
    then show "ParseStmnt (Suc n) st = ParseVarDeclOrAssignOrFunctionCallStmnt n st"
      by (simp add: ParseStmnt.simps bindP_def ifP_def returnP_def Is_def)
  next
    fix s st'
    assume "Is Tok_LBracket st1" and "ParseVarDeclOrAssignOrFunctionCallStmnt n st = (Inr s, st')"
    then obtain call st2 e st3 where
      c: "ParseFunctionCallExpr n (Some varIdent) None st1 = (Inr call, st2)"
      and e: "ParseExpr n True (Some call) st2 = (Inr e, st3)" and s: "s = ExprStmnt e"
      unfolding d by (auto simp add: parser_monad_defs split: prod.splits sum.splits)
    from ParseFunctionCallExpr_shape [OF c] head_expr_init [OF e] s
    show "\<exists>e c. s = ExprStmnt e \<and> head_expr e = FunctionCallExpr c \<and> call_varIdent c = Some varIdent"
      by auto
  next
    fix s st'
    assume "\<not> Is Tok_LBracket st1 \<and> Is Tok_AssignOp st1"
      and "ParseVarDeclOrAssignOrFunctionCallStmnt n st = (Inr s, st')"
    then show "\<exists>op e. s = ExprStmnt (VarAccessExpr varIdent op (Some e)) \<and>
        StringToAssignOp (tok_spell (tkn st1)) = Inr op"
      unfolding d
      by (auto simp add: parser_monad_defs dest!: AcceptIt_token split: prod.splits sum.splits)
  next
    fix s st'
    assume a: "\<not> Is Tok_LBracket st1 \<and> \<not> Is Tok_AssignOp st1 \<and>
        (Is_spell Tok_UnaryOp ''++'' st1 \<or> Is_spell Tok_UnaryOp ''--'' st1)"
      and "ParseVarDeclOrAssignOrFunctionCallStmnt n st = (Inr s, st')"
    then obtain e st2 where
      e: "ParseExpr n True (Some (VarAccessExpr varIdent AssignOp_Undefined None)) st1 = (Inr e, st2)"
      and s: "s = ExprStmnt e"
      unfolding d
      by (auto simp add: parser_monad_defs ParseExprStmnt_def split: prod.splits sum.splits)
    from ParseExpr_init_post_unary [OF e] a s
    show "\<exists>op. (op = UnaryOp_Inc \<or> op = UnaryOp_Dec) \<and>
        (s = ExprStmnt (PostUnaryExpr (VarAccessExpr varIdent AssignOp_Undefined None) op) \<or>
         (\<exists>e. s = ExprStmnt (ListExpr (PostUnaryExpr (VarAccessExpr varIdent AssignOp_Undefined None) op) e)))"
      by auto
  next
    fix s st'
    assume "\<not> Is Tok_LBracket st1 \<and> \<not> Is Tok_AssignOp st1 \<and>
        \<not> Is_spell Tok_UnaryOp ''++'' st1 \<and> \<not> Is_spell Tok_UnaryOp ''--'' st1"
      and "var_next varIdent = None \<and> var_ident varIdent \<noteq> []"
      and "ParseVarDeclOrAssignOrFunctionCallStmnt n st = (Inr s, st')"
    then show "\<exists>decls. s = VarDeclStatement (VarDeclStmnt [] [] []
        (VarType (if var_arrayIndices varIdent \<noteq> []
                  then ArrayTypeDenoter (AliasTypeDenoter (var_ident varIdent)) (var_arrayIndices varIdent)
                  else AliasTypeDenoter (var_ident varIdent)) None) decls)"
      unfolding d
      by (auto simp add: parser_monad_defs ParseAliasTypeDenoter_def split: prod.splits sum.splits)
  next
    assume "\<not> Is Tok_LBracket st1 \<and> \<not> Is Tok_AssignOp st1 \<and>
        \<not> Is_spell Tok_UnaryOp ''++'' st1 \<and> \<not> Is_spell Tok_UnaryOp ''--'' st1"
      and "var_next varIdent \<noteq> None"
    then show "ParseVarDeclOrAssignOrFunctionCallStmnt n st =
        ErrorUnexpected ''expected variable declaration, assignment or function call statement'' st1"
      unfolding d by (auto simp add: ifP_def)
  qed
qed

lemmas statement_examples = statement_text_def call_text_def increment_text_def
  declaration_text_def dotted_text_def

text \<open>The claim as it was written fails for \<^verbatim>\<open>a.b c;\<close>: the identifier \<^verbatim>\<open>a.b\<close> is followed by
  none of the three tokens, and the statement is not a variable declaration with the type
  \<^verbatim>\<open>a.b\<close> but the error of an unexpected token.\<close>

theorem statement_disambiguation_counterexample:
  "fst (ParseVarIdent example_depth (parser_at dotted_text [[]])) =
     Inr (VarIdent ''a'' [] (Some (VarIdent ''b'' [] None))) \<and>
   tkn (snd (ParseVarIdent example_depth (parser_at dotted_text [[]]))) = token_at 1 Tok_Ident ''c'' \<and>
   fst (ParseStmnt (Suc example_depth) (parser_at dotted_text [[]])) =
     Inl (Report_exn (error_report
       ''unexpected token (expected variable declaration, assignment or function call statement)''
       Err_Unknown))"
  by (simp add: parser_run base_parser_run stmnt_parser_run stmnt_parser_entry statement_examples
        example_defs)

text \<open>For instance \<^verbatim>\<open>f();\<close> is a call, \<^verbatim>\<open>a = 1;\<close> an assignment, \<^verbatim>\<open>i++;\<close> a post-unary
  expression and \<^verbatim>\<open>X y;\<close> the declaration of \<open>y\<close> with the alias type \<open>X\<close>.\<close>

theorem statement_disambiguation_witness:
  "fst (ParseVarIdent example_depth (parser_at call_text [[]])) = Inr (VarIdent ''f'' [] None) \<and>
   Is Tok_LBracket (snd (ParseVarIdent example_depth (parser_at call_text [[]]))) \<and>
   fst (ParseStmnt (Suc example_depth) (parser_at call_text [[]])) =
     Inr (ExprStmnt (FunctionCallExpr (FunctionCall (Some (VarIdent ''f'' [] None)) None []))) \<and>
   fst (ParseVarIdent example_depth (parser_at (statement_text Tok_AssignOp ''='') [[]])) =
     Inr (VarIdent ''a'' [] None) \<and>
   Is Tok_AssignOp (snd (ParseVarIdent example_depth (parser_at (statement_text Tok_AssignOp ''='') [[]]))) \<and>
   fst (ParseStmnt (Suc example_depth) (parser_at (statement_text Tok_AssignOp ''='') [[]])) =
     Inr (ExprStmnt (VarAccessExpr (VarIdent ''a'' [] None) AssignOp_Set
            (Some (LiteralExpr DataType_Int ''1'')))) \<and>
   fst (ParseVarIdent example_depth (parser_at increment_text [[]])) = Inr (VarIdent ''i'' [] None) \<and>
   Is_spell Tok_UnaryOp ''++'' (snd (ParseVarIdent example_depth (parser_at increment_text [[]]))) \<and>
   fst (ParseStmnt (Suc example_depth) (parser_at increment_text [[]])) =
     Inr (ExprStmnt (PostUnaryExpr (VarAccessExpr (VarIdent ''i'' [] None) AssignOp_Undefined None)
            UnaryOp_Inc)) \<and>
   fst (ParseVarIdent example_depth (parser_at declaration_text [[]])) = Inr (VarIdent ''X'' [] None) \<and>
   tkn (snd (ParseVarIdent example_depth (parser_at declaration_text [[]]))) = token_at 1 Tok_Ident ''y'' \<and>
   fst (ParseStmnt (Suc example_depth) (parser_at declaration_text [[]])) =
     Inr (VarDeclStatement (VarDeclStmnt [] [] [] (VarType (AliasTypeDenoter ''X'') None)
            [VarDecl ''y'' [] no_semantic None [] None])) \<and>
   fst (ParseVarIdent example_depth (parser_at dotted_text [[]])) =
     Inr (VarIdent ''a'' [] (Some (VarIdent ''b'' [] None))) \<and>
   ParseVarDeclOrAssignOrFunctionCallStmnt example_depth (parser_at dotted_text [[]]) =
     (Inl (Report_exn (error_report
        ''unexpected token (expected variable declaration, assignment or function call statement)''
        Err_Unknown)),
      (snd (ParseVarIdent example_depth (parser_at dotted_text [[]])))\<lparr>hasErrors := True\<rparr>)"
  using statement_disambiguation [of example_depth "parser_at call_text [[]]" "VarIdent ''f'' [] None"]
        statement_disambiguation [of example_depth "parser_at (statement_text Tok_AssignOp ''='') [[]]"
          "VarIdent ''a'' [] None"]
        statement_disambiguation [of example_depth "parser_at increment_text [[]]" "VarIdent ''i'' [] None"]
        statement_disambiguation [of example_depth "parser_at declaration_text [[]]" "VarIdent ''X'' [] None"]
        statement_disambiguation [of example_depth "parser_at dotted_text [[]]"
          "VarIdent ''a'' [] (Some (VarIdent ''b'' [] None))"]
  by (simp add: parser_run base_parser_run stmnt_parser_run stmnt_parser_entry statement_examples
        example_defs no_semantic_def)

end
